theory Spec2Isabelle
  imports Complex_Main
begin

section \<open>Python floats\<close>

text \<open>
  Every number the analyzer handles is a Python \<^verbatim>\<open>float\<close>, an IEEE-754 binary64 value.
  A float is a finite real, an infinity or NaN. The two zeros are identified: they compare
  equal, and dividing by either raises, so no operation below tells them apart.
\<close>

datatype pyfloat = Fin real | PInf | NInf | NaN

text \<open>
  \<open>Fin\<close> can carry any real. The operations below round their results, so they return
  binary64 values only; the values a run starts from are binary64 values when rounding
  leaves them as they are (\<open>is_float\<close>, defined with the rounding).
\<close>

datatype error =
    FileNotFoundError
  | ReadError
  | IndexError
  | ValueError
  | ZeroDivisionError
  | OverflowError
  | TypeError
  | SystemExit int

text \<open>Sequencing of computations that may raise: the first exception wins.\<close>

definition and_then :: "error + 'a \<Rightarrow> ('a \<Rightarrow> error + 'b) \<Rightarrow> error + 'b" where
  "and_then r f = (case r of Inl e \<Rightarrow> Inl e | Inr v \<Rightarrow> f v)"

text \<open>Comparison \<^verbatim>\<open>a < b\<close> and \<^verbatim>\<open>a <= b\<close>: every comparison with NaN is false.\<close>

fun flt :: "pyfloat \<Rightarrow> pyfloat \<Rightarrow> bool" where
  "flt NaN _ = False"
| "flt _ NaN = False"
| "flt (Fin a) (Fin b) = (a < b)"
| "flt (Fin a) PInf = True"
| "flt (Fin a) NInf = False"
| "flt PInf _ = False"
| "flt NInf NInf = False"
| "flt NInf _ = True"

fun fle :: "pyfloat \<Rightarrow> pyfloat \<Rightarrow> bool" where
  "fle NaN _ = False"
| "fle _ NaN = False"
| "fle (Fin a) (Fin b) = (a \<le> b)"
| "fle (Fin a) PInf = True"
| "fle (Fin a) NInf = False"
| "fle PInf PInf = True"
| "fle PInf _ = False"
| "fle NInf _ = True"

subsection \<open>Rounding to binary64\<close>

text \<open>
  \<open>flog2 x\<close> is the binade of a positive real: the integer \<open>e\<close> with
  \<open>2^e \<le> x < 2^(e+1)\<close>, found by halving or doubling.
\<close>

function log2_ge1 :: "real \<Rightarrow> nat" where
  "log2_ge1 x = (if x < 2 then 0 else Suc (log2_ge1 (x / 2)))"
  by pat_completeness auto
termination
  by (relation "measure (\<lambda>x. nat \<lfloor>x\<rfloor>)") (auto, linarith)

function log2_lt1 :: "real \<Rightarrow> nat" where
  "log2_lt1 x = (if x \<le> 0 \<or> 1 \<le> x then 0 else Suc (log2_lt1 (2 * x)))"
  by pat_completeness auto
termination
proof (relation "measure (\<lambda>x. nat \<lceil>1 / x\<rceil>)")
  show "wf (measure (\<lambda>x::real. nat \<lceil>1 / x\<rceil>))" by simp
next
  fix x :: real
  assume "\<not> (x \<le> 0 \<or> 1 \<le> x)"
  then have x: "0 < x" "x < 1" by auto
  have "\<lceil>1 / (2 * x)\<rceil> < \<lceil>1 / x\<rceil>"
  proof (cases "2 * x \<le> 1")
    case True
    then have "1 / (2 * x) \<le> 1 / x - 1"
      using x by (simp add: field_simps)
    then have "\<lceil>1 / (2 * x)\<rceil> \<le> \<lceil>1 / x - 1\<rceil>"
      by (rule ceiling_mono)
    then show ?thesis by simp
  next
    case False
    then have "1 / (2 * x) \<le> 1" using x by (simp add: field_simps)
    then have "\<lceil>1 / (2 * x)\<rceil> \<le> 1" by (simp add: ceiling_le_iff)
    moreover have "1 < 1 / x" using x by simp
    then have "1 < \<lceil>1 / x\<rceil>" by (simp add: less_ceiling_iff)
    ultimately show ?thesis by linarith
  qed
  moreover have "0 < \<lceil>1 / x\<rceil>" using x by simp
  ultimately show "(2 * x, x) \<in> measure (\<lambda>x. nat \<lceil>1 / x\<rceil>)"
    by simp
qed

declare log2_ge1.simps [simp del]
declare log2_lt1.simps [simp del]

definition flog2 :: "real \<Rightarrow> int" where
  "flog2 x = (if 1 \<le> x then int (log2_ge1 x) else - int (log2_lt1 x))"

text \<open>Rounding a real to the nearest integer, a tie going to the even neighbour.\<close>

definition rhe :: "real \<Rightarrow> int" where
  "rhe x =
     (let f = \<lfloor>x\<rfloor>; d = x - of_int f
      in if d < 1 / 2 then f
         else if 1 / 2 < d then f + 1
         else if even f then f else f + 1)"

text \<open>
  The spacing of binary64 values around \<open>x\<close>: 53 significant bits in the normal range
  (binades \<open>-1022\<close> to \<open>1023\<close>), and the fixed spacing \<open>2^-1074\<close> of the subnormals below.
\<close>

definition ulp :: "real \<Rightarrow> real" where
  "ulp x = 2 powi (max (flog2 \<bar>x\<bar>) (- 1022) - 52)"

definition rnd :: "real \<Rightarrow> real" where
  "rnd x = of_int (rhe (x / ulp x)) * ulp x"

text \<open>
  Round to nearest, ties to even, as the hardware does for every arithmetic result; a
  result that rounds to \<open>2^1024\<close> or beyond becomes an infinity. Python's \<^verbatim>\<open>*\<close> and
  \<^verbatim>\<open>/\<close> on floats return that infinity silently.
\<close>

definition round64 :: "real \<Rightarrow> pyfloat" where
  "round64 x =
     (let y = rnd x
      in if 2 ^ 1024 \<le> \<bar>y\<bar> then (if 0 < x then PInf else NInf) else Fin y)"

text \<open>The binary64 values among the floats: rounding leaves them as they are.\<close>

definition is_float :: "pyfloat \<Rightarrow> bool" where
  "is_float a = (case a of Fin r \<Rightarrow> round64 r = Fin r | _ \<Rightarrow> True)"

subsection \<open>Arithmetic\<close>

text \<open>\<^verbatim>\<open>a * b\<close> on floats. It never raises.\<close>

fun fmul :: "pyfloat \<Rightarrow> pyfloat \<Rightarrow> pyfloat" where
  "fmul NaN _ = NaN"
| "fmul _ NaN = NaN"
| "fmul (Fin a) (Fin b) = round64 (a * b)"
| "fmul (Fin a) PInf = (if a = 0 then NaN else if 0 < a then PInf else NInf)"
| "fmul (Fin a) NInf = (if a = 0 then NaN else if 0 < a then NInf else PInf)"
| "fmul PInf (Fin b) = (if b = 0 then NaN else if 0 < b then PInf else NInf)"
| "fmul NInf (Fin b) = (if b = 0 then NaN else if 0 < b then NInf else PInf)"
| "fmul PInf PInf = PInf"
| "fmul PInf NInf = NInf"
| "fmul NInf PInf = NInf"
| "fmul NInf NInf = PInf"

text \<open>
  \<^verbatim>\<open>a / b\<close> on floats: CPython tests the divisor against zero first and raises
  \<^verbatim>\<open>ZeroDivisionError\<close>, whatever the dividend; otherwise the IEEE quotient is returned.
\<close>

fun fdiv :: "pyfloat \<Rightarrow> pyfloat \<Rightarrow> error + pyfloat" where
  "fdiv a (Fin b) =
     (if b = 0 then Inl ZeroDivisionError
      else case a of
             NaN \<Rightarrow> Inr NaN
           | Fin x \<Rightarrow> Inr (round64 (x / b))
           | PInf \<Rightarrow> Inr (if 0 < b then PInf else NInf)
           | NInf \<Rightarrow> Inr (if 0 < b then NInf else PInf))"
| "fdiv a NaN = Inr NaN"
| "fdiv (Fin x) PInf = Inr (Fin 0)"
| "fdiv (Fin x) NInf = Inr (Fin 0)"
| "fdiv a PInf = Inr NaN"
| "fdiv a NInf = Inr NaN"

text \<open>
  \<^verbatim>\<open>a / b\<close> on two Python ints: the exact quotient, correctly rounded to a float;
  \<^verbatim>\<open>ZeroDivisionError\<close> for a zero divisor, \<^verbatim>\<open>OverflowError\<close> when the quotient is too
  large for a float.
\<close>

definition int_truediv :: "int \<Rightarrow> int \<Rightarrow> error + pyfloat" where
  "int_truediv a b =
     (if b = 0 then Inl ZeroDivisionError
      else case round64 (of_int a / of_int b) of
             Fin q \<Rightarrow> Inr (Fin q)
           | _ \<Rightarrow> Inl OverflowError)"

text \<open>The float literals of the source: the binary64 value nearest to the decimal.\<close>

definition lit_5_0 :: pyfloat where
  "lit_5_0 = Fin 5"

definition lit_1e_3 :: pyfloat where
  "lit_1e_3 = round64 (1 / 1000)"

definition lit_1e9 :: pyfloat where
  "lit_1e9 = Fin 1000000000"

section \<open>Data model\<close>

text \<open>
  A cell of the \<^verbatim>\<open>Implementation\<close> column as \<^verbatim>\<open>pd.read_csv\<close> types it. The column has one
  dtype: text, whose cells are \<^verbatim>\<open>str\<close>; \<^verbatim>\<open>int64\<close> when every cell is an integer; \<^verbatim>\<open>bool\<close>
  when every cell is \<^verbatim>\<open>True\<close> or \<^verbatim>\<open>False\<close>; \<^verbatim>\<open>float64\<close> when every cell is a number and one
  has a fraction or is missing. A missing cell (empty, \<^verbatim>\<open>NA\<close>, \<^verbatim>\<open>NaN\<close>, \<^verbatim>\<open>null\<close>, \<^verbatim>\<open>None\<close>, ...)
  is the float NaN, in a text column too.
\<close>

datatype name = Str string | NpInt64 int | NpBool bool | NpFloat64 pyfloat

definition missing :: "name \<Rightarrow> bool" where
  "missing n \<longleftrightarrow> n = NpFloat64 NaN"

text \<open>
  The elementwise \<^verbatim>\<open>==\<close> of line 52 on one cell: NaN equals nothing, itself included.
  Names of different kinds never meet, a column having one dtype.
\<close>

definition name_eq :: "name \<Rightarrow> name \<Rightarrow> bool" where
  "name_eq c impl \<longleftrightarrow> c = impl \<and> \<not> missing c"

text \<open>
  What \<^verbatim>\<open>json.dump\<close> accepts as a key of a dict: \<^verbatim>\<open>str\<close>, and \<^verbatim>\<open>float\<close> with its subclass
  \<^verbatim>\<open>np.float64\<close>. \<^verbatim>\<open>np.int64\<close> and \<^verbatim>\<open>np.bool_\<close> are no subclasses of \<^verbatim>\<open>int\<close> and \<^verbatim>\<open>bool\<close>: a key
  of these types raises \<^verbatim>\<open>TypeError\<close>.
\<close>

fun json_key :: "name \<Rightarrow> bool" where
  "json_key (Str s) = True"
| "json_key (NpFloat64 x) = True"
| "json_key (NpInt64 i) = False"
| "json_key (NpBool b) = False"

text \<open>
  A row of the loaded table (the data frame keeps the rows in file order), with the four
  columns the analyzer reads: a name and three latency cells. A latency cell is the float
  that \<^verbatim>\<open>float(...)\<close> makes of it in lines 55-59; a cell left empty in the file is NaN.
\<close>

record row =
  Implementation :: name
  Min_ms :: pyfloat
  Max_ms :: pyfloat
  Avg_ms :: pyfloat

definition well_formed :: "row \<Rightarrow> bool" where
  "well_formed r \<longleftrightarrow> is_float (Min_ms r) \<and> is_float (Max_ms r) \<and> is_float (Avg_ms r)"

text \<open>The dictionary built for one implementation (lines 54-60).\<close>

record metrics =
  min_ms :: pyfloat
  max_ms :: pyfloat
  avg_ms :: pyfloat
  target_met :: bool
  flops :: pyfloat

text \<open>
  \<^verbatim>\<open>analysis\<close> / \<^verbatim>\<open>profiling_data\<close>: a Python dict, which iterates in insertion order.
  Assigning to a key that is present replaces its value in place; a new key goes last.
\<close>

type_synonym analysis = "(name \<times> metrics) list"

fun dict_set :: "('k \<times> 'v) list \<Rightarrow> 'k \<Rightarrow> 'v \<Rightarrow> ('k \<times> 'v) list" where
  "dict_set [] k v = [(k, v)]"
| "dict_set ((k', v') # d) k v =
     (if k' = k then (k, v) # d else (k', v') # dict_set d k v)"

text \<open>
  What the program prints and writes. The wording of a message and the decimal rendering
  of a float are not modelled: a line is identified by its kind and the data it shows.
\<close>

datatype console_line =
    MsgLoaded string
  | MsgFileNotFound string
  | MsgNoResults
  | MsgReportGenerated string
  | MsgJsonGenerated string
  | SummaryHeader
  | MsgNoData
  | ImplSummary name metrics
  | Rule
  | BestSummary name metrics

datatype md_item =
    MdPreamble
  | MdKeyResults name metrics
  | MdDetailHeading
  | MdImplTable name metrics
  | MdStaticSections

record json_report =
  gpu :: string
  matrix_size :: int
  matrix_type :: string
  target_time_ms :: pyfloat
  implementations :: analysis
  hardware :: "(string \<times> int) list"

text \<open>
  A file on disk is a complete report, or a JSON file cut off inside \<^verbatim>\<open>implementations\<close>:
  \<^verbatim>\<open>json.dump\<close> writes as it encodes, so when it raises at a key the file keeps the fields
  before \<^verbatim>\<open>implementations\<close> and the entries encoded so far, and nothing after them.
\<close>

datatype document = MarkdownDoc "md_item list" | JsonDoc json_report | JsonTruncated analysis

datatype effect = Print console_line | MakeDirs string | WriteFile string document

record analyzer =
  csv_file :: string
  json_file :: "string option"
  results_df :: "row list option"
  profiling_data :: analysis

definition init :: "string \<Rightarrow> string option \<Rightarrow> analyzer" where
  "init csv js =
     \<lparr>csv_file = csv, json_file = js, results_df = None, profiling_data = []\<rparr>"

section \<open>analyze_performance\<close>

text \<open>
  \<^verbatim>\<open>Series.unique()\<close>: the distinct values in order of first appearance. Missing cells count
  as one value, which is listed.
\<close>

fun unique :: "'a list \<Rightarrow> 'a list" where
  "unique [] = []"
| "unique (x # xs) = x # unique (filter (\<lambda>y. y \<noteq> x) xs)"

text \<open>\<^verbatim>\<open>.values[0]\<close>: the first element, \<^verbatim>\<open>IndexError\<close> on an empty selection.\<close>

definition values0 :: "'a list \<Rightarrow> error + 'a" where
  "values0 xs = (case xs of [] \<Rightarrow> Inl IndexError | x # _ \<Rightarrow> Inr x)"

text \<open>
  Line 59: \<^verbatim>\<open>(4 * 341**3 / 3) / (avg * 1e-3) / 1e9\<close>. The first quotient is one of
  Python ints, the product and the two other quotients are float operations.
\<close>

definition estimate_flops :: "pyfloat \<Rightarrow> error + pyfloat" where
  "estimate_flops avg =
     and_then (int_truediv (4 * 341 ^ 3) 3) (\<lambda>c.
     and_then (fdiv c (fmul avg lit_1e_3)) (\<lambda>q.
     fdiv q lit_1e9))"

text \<open>
  The specification's formula, kept apart from the code's: \<^verbatim>\<open>FLOP_COUNT = 4 * N**3 / 3\<close>
  and \<^verbatim>\<open>estimated_gflops = FLOP_COUNT / (avg_ms * 1e-3) / 1e9\<close> for a problem size \<open>N\<close>.
\<close>

definition spec_flop_count :: "nat \<Rightarrow> error + pyfloat" where
  "spec_flop_count N = int_truediv (4 * int N ^ 3) 3"

definition spec_estimated_gflops :: "nat \<Rightarrow> pyfloat \<Rightarrow> error + pyfloat" where
  "spec_estimated_gflops N avg =
     and_then (spec_flop_count N) (\<lambda>flop_count.
     and_then (fdiv flop_count (fmul avg lit_1e_3)) (\<lambda>per_second.
     fdiv per_second lit_1e9))"

text \<open>
  The dict display of lines 54-60, its entries evaluated top to bottom on the rows
  selected for one implementation.
\<close>

definition derive :: "row list \<Rightarrow> error + metrics" where
  "derive impl_data =
     and_then (values0 (map Min_ms impl_data)) (\<lambda>mn.
     and_then (values0 (map Max_ms impl_data)) (\<lambda>mx.
     and_then (values0 (map Avg_ms impl_data)) (\<lambda>av.
     and_then (values0 (map Avg_ms impl_data)) (\<lambda>av_t.
     and_then (values0 (map Avg_ms impl_data)) (\<lambda>av_f.
     and_then (estimate_flops av_f) (\<lambda>fl.
     Inr \<lparr>min_ms = mn, max_ms = mx, avg_ms = av,
          target_met = flt av_t lit_5_0, flops = fl\<rparr>))))))"

text \<open>
  The loop of lines 51-60 over the distinct names, threading the dict. The mask of line 52
  selects no row for a missing name, and line 55 then raises \<^verbatim>\<open>IndexError\<close>.
\<close>

fun analyze_loop :: "row list \<Rightarrow> name list \<Rightarrow> analysis \<Rightarrow> error + analysis" where
  "analyze_loop df [] an = Inr an"
| "analyze_loop df (impl # impls) an =
     and_then (derive (filter (\<lambda>r. name_eq (Implementation r) impl) df)) (\<lambda>m.
     analyze_loop df impls (dict_set an impl m))"

text \<open>
  \<^verbatim>\<open>analyze_performance\<close> returns the analysis (or \<^verbatim>\<open>None\<close> when nothing is loaded) and
  stores it in \<^verbatim>\<open>profiling_data\<close>. An exception, of the first name in the order of the loop
  whose entry raises, leaves no result. Like every method below it also yields what it
  printed or wrote.
\<close>

definition analyze_performance ::
  "analyzer \<Rightarrow> error + (analysis option \<times> analyzer \<times> effect list)" where
  "analyze_performance self =
     (case results_df self of
        None \<Rightarrow> Inr (None, self, [Print MsgNoResults])
      | Some df \<Rightarrow>
          and_then (analyze_loop df (unique (map Implementation df)) []) (\<lambda>an.
          Inr (Some an, self\<lparr>profiling_data := an\<rparr>, [])))"

section \<open>Loading\<close>

text \<open>
  The environment of a run: what is found at a path (a table that parses into rows of
  the shape above, nothing, or something \<^verbatim>\<open>pd.read_csv\<close> rejects with another exception
  than \<^verbatim>\<open>FileNotFoundError\<close>) and which paths exist. Writing a file and creating a
  directory are taken to succeed. A file that parses into a table without the four
  columns, or with text in a numeric column, is not covered.
\<close>

datatype csv_result = Table "row list" | NotFound | Unreadable

record env =
  file_at :: "string \<Rightarrow> csv_result"
  path_exists :: "string \<Rightarrow> bool"

definition read_csv :: "env \<Rightarrow> string \<Rightarrow> error + row list" where
  "read_csv ev path =
     (case file_at ev path of
        Table df \<Rightarrow> Inr df
      | NotFound \<Rightarrow> Inl FileNotFoundError
      | Unreadable \<Rightarrow> Inl ReadError)"

text \<open>
  Lines 23-31. Only \<^verbatim>\<open>FileNotFoundError\<close> is caught; it is turned into the return value
  \<^verbatim>\<open>False\<close>. Any other exception of the reader propagates.
\<close>

definition load_results :: "env \<Rightarrow> analyzer \<Rightarrow> error + (bool \<times> analyzer \<times> effect list)" where
  "load_results ev self =
     (case read_csv ev (csv_file self) of
        Inr df \<Rightarrow>
          Inr (True, self\<lparr>results_df := Some df\<rparr>, [Print (MsgLoaded (csv_file self))])
      | Inl FileNotFoundError \<Rightarrow>
          Inr (False, self, [Print (MsgFileNotFound (csv_file self))])
      | Inl e \<Rightarrow> Inl e)"

text \<open>Lines 33-41: the secondary table, returned (\<^verbatim>\<open>None\<close> when the file is not found).\<close>

definition load_rocprof_results ::
  "env \<Rightarrow> string \<Rightarrow> error + (row list option \<times> effect list)" where
  "load_rocprof_results ev rocprof_csv =
     (case read_csv ev rocprof_csv of
        Inr df \<Rightarrow> Inr (Some df, [Print (MsgLoaded rocprof_csv)])
      | Inl FileNotFoundError \<Rightarrow> Inr (None, [Print (MsgFileNotFound rocprof_csv)])
      | Inl e \<Rightarrow> Inl e)"

section \<open>Selecting the best implementation\<close>

text \<open>
  The builtin \<^verbatim>\<open>min(iterable, key=...)\<close>: \<^verbatim>\<open>ValueError\<close> on an empty iterable; otherwise
  the first item is the candidate, and a later item replaces the candidate exactly when
  its key is \<^verbatim>\<open><\<close> the candidate's key.
\<close>

fun min_loop :: "('a \<Rightarrow> pyfloat) \<Rightarrow> 'a \<Rightarrow> 'a list \<Rightarrow> 'a" where
  "min_loop key cur [] = cur"
| "min_loop key cur (x # xs) =
     (if flt (key x) (key cur) then min_loop key x xs else min_loop key cur xs)"

definition py_min :: "('a \<Rightarrow> pyfloat) \<Rightarrow> 'a list \<Rightarrow> error + 'a" where
  "py_min key xs = (case xs of [] \<Rightarrow> Inl ValueError | x # rest \<Rightarrow> Inr (min_loop key x rest))"

text \<open>Lines 82-83, in the markdown report.\<close>

definition markdown_best_impl :: "analysis \<Rightarrow> error + (name \<times> metrics)" where
  "markdown_best_impl pd = py_min (\<lambda>x. avg_ms (snd x)) pd"

text \<open>Line 206, in the console summary.\<close>

definition summary_best_impl :: "analysis \<Rightarrow> error + (name \<times> metrics)" where
  "summary_best_impl pd = py_min (\<lambda>x. avg_ms (snd x)) pd"

section \<open>Renderers\<close>

text \<open>
  Lines 65-158. The key results and the per-implementation tables are written only when
  \<^verbatim>\<open>profiling_data\<close> is truthy, that is non-empty.
\<close>

definition generate_markdown_report :: "analyzer \<Rightarrow> string \<Rightarrow> error + effect list" where
  "generate_markdown_report self output_file =
     and_then
       (if profiling_data self \<noteq> [] then
          and_then (markdown_best_impl (profiling_data self)) (\<lambda>best_impl.
          Inr ([MdKeyResults (fst best_impl) (snd best_impl), MdDetailHeading]
               @ map (\<lambda>(impl, m). MdImplTable impl m) (profiling_data self)))
        else Inr [])
       (\<lambda>body.
          Inr [WriteFile output_file (MarkdownDoc ([MdPreamble] @ body @ [MdStaticSections])),
               Print (MsgReportGenerated output_file)])"

text \<open>
  Lines 160-183. \<^verbatim>\<open>json.dump\<close> raises \<^verbatim>\<open>TypeError\<close> at the first key of \<^verbatim>\<open>profiling_data\<close> it
  does not accept. The file is open by then and holds what was encoded before that key;
  the message of line 183 is not printed. The result is \<open>Inr\<close> of the effects of a call
  that returns, \<open>Inl\<close> of the effects up to the exception and the exception otherwise.
\<close>

definition generate_json_report ::
  "analyzer \<Rightarrow> string \<Rightarrow> (effect list \<times> error) + effect list" where
  "generate_json_report self output_file =
     (if list_all json_key (map fst (profiling_data self)) then
        Inr [WriteFile output_file
               (JsonDoc \<lparr>gpu = ''AMD MI100/AI100'', matrix_size = 341,
                         matrix_type = ''complex_symmetric'', target_time_ms = lit_5_0,
                         implementations = profiling_data self,
                         hardware = [(''compute_units'', 120), (''peak_flops_tflops'', 40),
                                     (''memory_bandwidth_gb_s'', 900), (''l1_cache_kb'', 16),
                                     (''l2_cache_mb'', 4), (''lds_per_cu_kb'', 96),
                                     (''wavefront_size'', 64)]\<rparr>),
             Print (MsgJsonGenerated output_file)]
      else
        Inl ([WriteFile output_file
                (JsonTruncated (takeWhile (\<lambda>x. json_key (fst x)) (profiling_data self)))],
             TypeError))"

text \<open>Lines 185-210: an empty \<^verbatim>\<open>profiling_data\<close> is reported and the method returns early.\<close>

definition print_summary :: "analyzer \<Rightarrow> error + effect list" where
  "print_summary self =
     (if profiling_data self = [] then Inr [Print SummaryHeader, Print MsgNoData]
      else
        and_then (summary_best_impl (profiling_data self)) (\<lambda>best_impl.
        Inr ([Print SummaryHeader]
             @ map (\<lambda>(impl, m). Print (ImplSummary impl m)) (profiling_data self)
             @ [Print Rule, Print (BestSummary (fst best_impl) (snd best_impl)), Print Rule])))"

section \<open>main\<close>

record args =
  arg_csv_file :: string
  arg_rocprof :: "string option"
  arg_markdown :: bool
  arg_json :: bool
  arg_output :: "string option"

text \<open>Truth value of an optional string argument: \<^verbatim>\<open>None\<close> and \<^verbatim>\<open>''\<close> are false.\<close>

definition truthy :: "string option \<Rightarrow> bool" where
  "truthy s = (case s of None \<Rightarrow> False | Some v \<Rightarrow> v \<noteq> [])"

text \<open>\<^verbatim>\<open>os.path.join\<close> of a directory and a relative file name.\<close>

definition path_join :: "string \<Rightarrow> string \<Rightarrow> string" where
  "path_join d f = (if d = [] then f else if last d = CHR ''/'' then d @ f else d @ ''/'' @ f)"

text \<open>The process exit status of an exception that nothing catches.\<close>

fun exit_status :: "error \<Rightarrow> int" where
  "exit_status (SystemExit n) = n"
| "exit_status _ = 1"

text \<open>The conditions of lines 240 and 245.\<close>

definition wants_markdown :: "args \<Rightarrow> bool" where
  "wants_markdown a \<longleftrightarrow> arg_markdown a \<or> (\<not> arg_json a \<and> \<not> truthy (arg_rocprof a))"

definition wants_json :: "args \<Rightarrow> bool" where
  "wants_json a \<longleftrightarrow> arg_json a \<or> (\<not> arg_markdown a \<and> \<not> truthy (arg_rocprof a))"

text \<open>
  Lines 213-251 after argument parsing. The result is everything printed and written,
  in order, and the exit status; an exception stops the run where it is raised, what was
  printed and written before it stays, and the status is 1.
\<close>

definition run_reports :: "args \<Rightarrow> string \<Rightarrow> analyzer \<Rightarrow> effect list \<Rightarrow> effect list \<times> int" where
  "run_reports a output_dir an t =
     (case (if wants_markdown a
            then generate_markdown_report an (path_join output_dir ''profiling_report.md'')
            else Inr []) of
        Inl e \<Rightarrow> (t, exit_status e)
      | Inr t_md \<Rightarrow>
          (case (if wants_json a
                 then generate_json_report an (path_join output_dir ''profiling_data.json'')
                 else Inr []) of
             Inl (t_js, e) \<Rightarrow> (t @ t_md @ t_js, exit_status e)
           | Inr t_js \<Rightarrow>
               (case print_summary an of
                  Inl e \<Rightarrow> (t @ t_md @ t_js, exit_status e)
                | Inr t_ps \<Rightarrow> (t @ t_md @ t_js @ t_ps, 0))))"

text \<open>Line 226: the output directory, \<^verbatim>\<open>.\<close> when \<^verbatim>\<open>--output\<close> is absent or empty.\<close>

definition out_dir :: "args \<Rightarrow> string" where
  "out_dir a = (case arg_output a of None \<Rightarrow> ''.'' | Some d \<Rightarrow> if d = [] then ''.'' else d)"

text \<open>Lines 227-228: the directory is created when it is not the current one and is missing.\<close>

definition make_output_dir :: "env \<Rightarrow> string \<Rightarrow> effect list" where
  "make_output_dir ev output_dir =
     (if output_dir \<noteq> ''.'' \<and> \<not> path_exists ev output_dir then [MakeDirs output_dir] else [])"

definition main :: "env \<Rightarrow> args \<Rightarrow> effect list \<times> int" where
  "main ev a =
     (let output_dir = out_dir a;
          t0 = make_output_dir ev output_dir;
          analyzer = init (arg_csv_file a) (arg_rocprof a)
      in case load_results ev analyzer of
           Inl e \<Rightarrow> (t0, exit_status e)
         | Inr (ok, an1, t1) \<Rightarrow>
             if \<not> ok then (t0 @ t1, exit_status (SystemExit 1))
             else (case analyze_performance an1 of
                     Inl e \<Rightarrow> (t0 @ t1, exit_status e)
                   | Inr (res, an2, t2) \<Rightarrow> run_reports a output_dir an2 (t0 @ t1 @ t2)))"

text \<open>The report artifacts among the effects of a run.\<close>

definition written_files :: "effect list \<Rightarrow> string list" where
  "written_files t = concat (map (\<lambda>e. case e of WriteFile p d \<Rightarrow> [p] | _ \<Rightarrow> []) t)"

text \<open>
  Which renderers ran in a run, in order: each opens its file first, and writes it to the
  end or up to the point where it raised.
\<close>

fun rendered :: "effect list \<Rightarrow> string list" where
  "rendered [] = []"
| "rendered (WriteFile p (MarkdownDoc d) # t) = ''markdown'' # rendered t"
| "rendered (WriteFile p (JsonDoc d) # t) = ''json'' # rendered t"
| "rendered (WriteFile p (JsonTruncated d) # t) = ''json'' # rendered t"
| "rendered (e # t) = rendered t"

text \<open>The reports written to the end among the effects of a run.\<close>

fun complete_reports :: "effect list \<Rightarrow> string list" where
  "complete_reports [] = []"
| "complete_reports (WriteFile p (JsonTruncated d) # t) = complete_reports t"
| "complete_reports (WriteFile p d # t) = p # complete_reports t"
| "complete_reports (e # t) = complete_reports t"

section \<open>The reference scenario\<close>

text \<open>
  The two-row table of the specification's concrete scenario; each decimal of the file is
  read as the nearest binary64 value.
\<close>

definition scenario_table :: "row list" where
  "scenario_table =
     [\<lparr>Implementation = Str ''RocSOLVER'', Min_ms = round64 (21 / 10),
       Max_ms = round64 (24 / 10), Avg_ms = round64 (23 / 10)\<rparr>,
      \<lparr>Implementation = Str ''Hybrid'', Min_ms = round64 (15 / 10),
       Max_ms = round64 (18 / 10), Avg_ms = round64 (16 / 10)\<rparr>]"

text \<open>An analyzer that has loaded a given table from \<^verbatim>\<open>results.csv\<close>.\<close>

definition loaded :: "row list \<Rightarrow> analyzer" where
  "loaded df = (init ''results.csv'' None)\<lparr>results_df := Some df\<rparr>"

text \<open>The analysis of the scenario, as the arithmetic above gives it.\<close>

definition scenario_analysis :: analysis where
  "scenario_analysis =
     [(Str ''RocSOLVER'',
       \<lparr>min_ms = round64 (21 / 10), max_ms = round64 (24 / 10), avg_ms = round64 (23 / 10),
        target_met = True, flops = Fin (3235071128263797 / 2 ^ 47)\<rparr>),
      (Str ''Hybrid'',
       \<lparr>min_ms = round64 (15 / 10), max_ms = round64 (18 / 10), avg_ms = round64 (16 / 10),
        target_met = True, flops = Fin (581301843359901 / 2 ^ 44)\<rparr>)]"

text \<open>The scenario with a second, different row for \<^verbatim>\<open>Hybrid\<close> at the end.\<close>

definition duplicate_table :: "row list" where
  "duplicate_table =
     scenario_table @
     [\<lparr>Implementation = Str ''Hybrid'', Min_ms = Fin 9, Max_ms = Fin 9, Avg_ms = Fin 9\<rparr>]"

text \<open>A table whose only row sits on the target, and its analysis.\<close>

definition boundary_table :: "row list" where
  "boundary_table =
     [\<lparr>Implementation = Str ''Edge'', Min_ms = Fin 5, Max_ms = Fin 5, Avg_ms = Fin 5\<rparr>]"

definition boundary_analysis :: analysis where
  "boundary_analysis =
     [(Str ''Edge'',
       \<lparr>min_ms = Fin 5, max_ms = Fin 5, avg_ms = Fin 5,
        target_met = False, flops = Fin (2976265438002693 / 2 ^ 48)\<rparr>)]"

text \<open>
  A table whose first row has an empty \<^verbatim>\<open>Avg_ms\<close> cell, which the reader turns into NaN,
  and its analysis.
\<close>

definition nan_table :: "row list" where
  "nan_table =
     [\<lparr>Implementation = Str ''A'', Min_ms = Fin 1, Max_ms = Fin 2, Avg_ms = NaN\<rparr>,
      \<lparr>Implementation = Str ''B'', Min_ms = Fin 1, Max_ms = Fin 2, Avg_ms = Fin 1\<rparr>]"

definition nan_analysis :: analysis where
  "nan_analysis =
     [(Str ''A'', \<lparr>min_ms = Fin 1, max_ms = Fin 2, avg_ms = NaN, target_met = False, flops = NaN\<rparr>),
      (Str ''B'', \<lparr>min_ms = Fin 1, max_ms = Fin 2, avg_ms = Fin 1, target_met = True,
              flops = Fin (7440663595006733 / 2 ^ 47)\<rparr>)]"

text \<open>An analysis with a tie for the lowest average between its second and third entry.\<close>

definition tie_analysis :: analysis where
  "tie_analysis =
     [(Str ''X'', \<lparr>min_ms = Fin 5, max_ms = Fin 5, avg_ms = Fin 5, target_met = False,
              flops = Fin (2976265438002693 / 2 ^ 48)\<rparr>),
      (Str ''Y'', \<lparr>min_ms = Fin 1, max_ms = Fin 2, avg_ms = Fin 1, target_met = True,
              flops = Fin (7440663595006733 / 2 ^ 47)\<rparr>),
      (Str ''Z'', \<lparr>min_ms = Fin 1, max_ms = Fin 3, avg_ms = Fin 1, target_met = True,
              flops = Fin (7440663595006733 / 2 ^ 47)\<rparr>)]"

text \<open>A table whose only row has the smallest positive float as its average.\<close>

definition underflow_table :: "row list" where
  "underflow_table =
     [\<lparr>Implementation = Str ''Tiny'', Min_ms = Fin (2 powi (- 1074)),
       Max_ms = Fin (2 powi (- 1074)), Avg_ms = Fin (2 powi (- 1074))\<rparr>]"

text \<open>A table whose only row has a zero average.\<close>

definition zero_table :: "row list" where
  "zero_table = [\<lparr>Implementation = Str ''Z'', Min_ms = Fin 0, Max_ms = Fin 0, Avg_ms = Fin 0\<rparr>]"

text \<open>
  A table whose only row has a missing name (the file \<^verbatim>\<open>NA,1,2,1\<close> under the header).
\<close>

definition missing_name_table :: "row list" where
  "missing_name_table =
     [\<lparr>Implementation = NpFloat64 NaN, Min_ms = Fin 1, Max_ms = Fin 2, Avg_ms = Fin 1\<rparr>]"

text \<open>
  A table whose names are integers and whose latency cells are empty (the file \<^verbatim>\<open>1,,,\<close>
  under the header), and its analysis.
\<close>

definition int_name_table :: "row list" where
  "int_name_table =
     [\<lparr>Implementation = NpInt64 1, Min_ms = NaN, Max_ms = NaN, Avg_ms = NaN\<rparr>]"

definition int_name_analysis :: analysis where
  "int_name_analysis =
     [(NpInt64 1,
       \<lparr>min_ms = NaN, max_ms = NaN, avg_ms = NaN, target_met = False, flops = NaN\<rparr>)]"

text \<open>
  An environment in which \<^verbatim>\<open>results.csv\<close> holds the given content and no other path
  exists, and the command line \<^verbatim>\<open>results.csv\<close> with the given flags and no \<^verbatim>\<open>--output\<close>.
\<close>

definition env_with :: "csv_result \<Rightarrow> env" where
  "env_with c =
     \<lparr>file_at = (\<lambda>p. if p = ''results.csv'' then c else NotFound),
      path_exists = (\<lambda>p. False)\<rparr>"

definition cli :: "string option \<Rightarrow> bool \<Rightarrow> bool \<Rightarrow> args" where
  "cli rocprof md js =
     \<lparr>arg_csv_file = ''results.csv'', arg_rocprof = rocprof, arg_markdown = md,
      arg_json = js, arg_output = None\<rparr>"

section \<open>Properties of rounding\<close>

lemma log2_ge1_bounds: "1 \<le> x \<Longrightarrow> 2 ^ log2_ge1 x \<le> x \<and> x < 2 ^ Suc (log2_ge1 x)"
proof (induction x rule: log2_ge1.induct)
  case (1 x)
  show ?case
  proof (cases "x < 2")
    case True
    with "1.prems" show ?thesis by (simp add: log2_ge1.simps)
  next
    case False
    then have "1 \<le> x / 2" by simp
    with "1.IH" False have "2 ^ log2_ge1 (x / 2) \<le> x / 2 \<and> x / 2 < 2 ^ Suc (log2_ge1 (x / 2))"
      by simp
    moreover have "log2_ge1 x = Suc (log2_ge1 (x / 2))"
      using False by (subst log2_ge1.simps) simp
    ultimately show ?thesis by simp
  qed
qed

lemma log2_lt1_bounds:
  "0 < x \<Longrightarrow> x < 1 \<Longrightarrow> 1 \<le> x * 2 ^ log2_lt1 x \<and> x * 2 ^ log2_lt1 x < 2"
proof (induction x rule: log2_lt1.induct)
  case (1 x)
  have step: "log2_lt1 x = Suc (log2_lt1 (2 * x))"
    using "1.prems" by (subst log2_lt1.simps) simp
  show ?case
  proof (cases "2 * x < 1")
    case True
    with "1.IH" "1.prems" have "1 \<le> 2 * x * 2 ^ log2_lt1 (2 * x) \<and> 2 * x * 2 ^ log2_lt1 (2 * x) < 2"
      by simp
    then show ?thesis by (simp add: step mult_ac)
  next
    case False
    then have "log2_lt1 (2 * x) = 0" by (subst log2_lt1.simps) simp
    with False "1.prems" show ?thesis by (simp add: step)
  qed
qed

lemma flog2_bounds:
  assumes "0 < x"
  shows "2 powi flog2 x \<le> x" and "x < 2 powi (flog2 x + 1)"
proof -
  show "2 powi flog2 x \<le> x"
  proof (cases "1 \<le> x")
    case True
    then show ?thesis using log2_ge1_bounds [of x] by (simp add: flog2_def)
  next
    case False
    then have "1 \<le> x * 2 ^ log2_lt1 x" using log2_lt1_bounds [of x] assms by simp
    then show ?thesis using False
      by (simp add: flog2_def power_int_minus field_simps)
  qed
  show "x < 2 powi (flog2 x + 1)"
  proof (cases "1 \<le> x")
    case True
    then have "x < 2 ^ Suc (log2_ge1 x)" using log2_ge1_bounds [of x] by simp
    moreover have "(2::real) powi (int (log2_ge1 x) + 1) = 2 ^ Suc (log2_ge1 x)"
      by (simp add: power_int_add)
    ultimately show ?thesis using True by (simp add: flog2_def)
  next
    case False
    then have "x * 2 ^ log2_lt1 x < 2" using log2_lt1_bounds [of x] assms by simp
    then have "x < 2 / 2 ^ log2_lt1 x" by (simp add: field_simps)
    moreover have "flog2 x + 1 = 1 - int (log2_lt1 x)"
      using False by (simp add: flog2_def)
    moreover have "(2::real) powi (1 - int (log2_lt1 x)) = 2 / 2 ^ log2_lt1 x"
      by (simp add: power_int_diff)
    ultimately show ?thesis by simp
  qed
qed

lemma pow2_binade_unique:
  assumes "(2::real) powi a \<le> x" "x < 2 powi (b + 1)"
  shows "a \<le> b"
proof (rule ccontr)
  assume "\<not> a \<le> b"
  then have "b + 1 \<le> a" by simp
  then have "(2::real) powi (b + 1) \<le> 2 powi a"
    by (intro power_int_increasing) simp_all
  with assms show False by simp
qed

lemma flog2_unique:
  assumes "2 powi e \<le> x" "x < 2 powi (e + 1)"
  shows "flog2 x = e"
proof -
  have "0 < (2::real) powi e" by simp
  with assms have pos: "0 < x" by linarith
  have "e \<le> flog2 x" using pow2_binade_unique [OF assms(1) flog2_bounds(2) [OF pos]] .
  moreover have "flog2 x \<le> e" using pow2_binade_unique [OF flog2_bounds(1) [OF pos] assms(2)] .
  ultimately show ?thesis by simp
qed

lemma flog2_mono:
  assumes "0 < x" "x \<le> y"
  shows "flog2 x \<le> flog2 y"
proof -
  have "0 < y" using assms by simp
  from flog2_bounds(1) [OF assms(1)] assms(2) have "2 powi flog2 x \<le> y" by simp
  then show ?thesis using pow2_binade_unique [OF _ flog2_bounds(2) [OF \<open>0 < y\<close>]] by simp
qed

lemma rhe_cases: "rhe x = \<lfloor>x\<rfloor> \<or> rhe x = \<lfloor>x\<rfloor> + 1"
  by (simp add: rhe_def Let_def)

lemma rhe_of_int: "rhe (of_int n) = n"
  by (simp add: rhe_def Let_def)

lemma rhe_mono:
  assumes "x \<le> y"
  shows "rhe x \<le> rhe y"
proof (cases "\<lfloor>x\<rfloor> = \<lfloor>y\<rfloor>")
  case True
  then show ?thesis using assms by (auto simp: rhe_def Let_def)
next
  case False
  then have "\<lfloor>x\<rfloor> + 1 \<le> \<lfloor>y\<rfloor>" using floor_mono [OF assms] by linarith
  moreover have "rhe x \<le> \<lfloor>x\<rfloor> + 1" using rhe_cases [of x] by auto
  moreover have "\<lfloor>y\<rfloor> \<le> rhe y" using rhe_cases [of y] by auto
  ultimately show ?thesis by linarith
qed

lemma rhe_near: "\<bar>of_int (rhe x) - x\<bar> \<le> 1 / 2"
  unfolding rhe_def Let_def by (auto; linarith)

lemma rhe_eqI:
  assumes "\<bar>x - of_int n\<bar> < 1 / 2"
  shows "rhe x = n"
proof -
  have "\<bar>of_int (rhe x) - (of_int n :: real)\<bar> < 1" using rhe_near [of x] assms by linarith
  then have "\<bar>(of_int (rhe x - n) :: real)\<bar> < 1" by simp
  then have "\<bar>rhe x - n\<bar> < 1" by (metis of_int_abs of_int_less_1_iff)
  then show ?thesis by simp
qed

lemma rhe_minus: "rhe (- x) = - rhe x"
proof (cases "x = of_int \<lfloor>x\<rfloor>")
  case True
  then obtain n where "x = of_int n" ..
  then have "- x = of_int (- n)" by simp
  then show ?thesis using rhe_of_int \<open>x = of_int n\<close> by metis
next
  case False
  have fl: "\<lfloor>- x\<rfloor> = - \<lfloor>x\<rfloor> - 1"
  proof (rule floor_unique)
    have "of_int \<lfloor>x\<rfloor> \<le> x" by (rule of_int_floor_le)
    with False have a1: "of_int \<lfloor>x\<rfloor> < x" by linarith
    have a2: "x < of_int \<lfloor>x\<rfloor> + 1" by linarith
    note a = a1 a2
    show "of_int (- \<lfloor>x\<rfloor> - 1) \<le> - x"
      unfolding of_int_diff of_int_minus of_int_1 using a by linarith
    show "- x < of_int (- \<lfloor>x\<rfloor> - 1) + 1"
      unfolding of_int_diff of_int_minus of_int_1 using a by linarith
  qed
  show ?thesis
    unfolding rhe_def Let_def fl by (auto; linarith)
qed

lemma pow2_split:
  fixes e :: int
  assumes "e = a + b"
  shows "(2::real) powi e = 2 powi a * 2 powi b"
  unfolding assms by (rule power_int_add) simp

lemma pow2_53: "(2::real) powi (e + 1) = of_int (2 ^ 53) * 2 powi (e - 52)"
  using pow2_split [of "e + 1" 53 "e - 52"] by simp

lemma pow2_52: "(2::real) powi e = of_int (2 ^ 52) * 2 powi (e - 52)"
  using pow2_split [of e 52 "e - 52"] by simp

lemma rnd_eqI: "ulp x = u \<Longrightarrow> rhe (x / u) = n \<Longrightarrow> rnd x = of_int n * u"
  by (simp add: rnd_def)

lemma ulp_pos: "0 < ulp x"
  by (simp add: ulp_def)

lemma ulp_minus: "ulp (- x) = ulp x"
  by (simp add: ulp_def)

lemma rnd_minus: "rnd (- x) = - rnd x"
  by (simp add: rnd_def ulp_minus rhe_minus)

lemma rhe_0: "rhe 0 = 0"
  using rhe_of_int [of 0] by simp

lemma rnd_nonneg: "0 \<le> x \<Longrightarrow> 0 \<le> rnd x"
proof -
  assume "0 \<le> x"
  then have "0 \<le> x / ulp x" using ulp_pos [of x] by simp
  then have "rhe 0 \<le> rhe (x / ulp x)" by (rule rhe_mono)
  then show ?thesis using ulp_pos [of x] by (simp add: rnd_def rhe_0)
qed

lemma rnd_nonpos: "x \<le> 0 \<Longrightarrow> rnd x \<le> 0"
  using rnd_nonneg [of "- x"] by (simp add: rnd_minus)

text \<open>The exponent used for a positive real, and the bounds it gives.\<close>

lemma ulp_eq: "0 \<le> x \<Longrightarrow> ulp x = 2 powi (max (flog2 x) (- 1022) - 52)"
  by (simp add: ulp_def)

lemma rnd_upper:
  assumes "0 < x"
  shows "rnd x \<le> 2 powi (max (flog2 x) (- 1022) + 1)"
proof -
  let ?E = "max (flog2 x) (- 1022)"
  have u: "ulp x = 2 powi (?E - 52)" using assms by (simp add: ulp_eq)
  have "x < 2 powi (flog2 x + 1)" using flog2_bounds(2) [OF assms] .
  also have "\<dots> \<le> 2 powi (?E + 1)" by (intro power_int_increasing) simp_all
  finally have "x \<le> 2 powi (?E + 1)" by simp
  then have "x / ulp x \<le> 2 powi (?E + 1) / ulp x"
    using ulp_pos [of x] by (simp add: divide_right_mono)
  also have "2 powi (?E + 1) / ulp x = (2::real) powi 53"
    unfolding u by (simp flip: power_int_diff)
  finally have "x / ulp x \<le> of_int (2 ^ 53)" by simp
  then have "rhe (x / ulp x) \<le> rhe (of_int (2 ^ 53))" by (rule rhe_mono)
  then have "rhe (x / ulp x) \<le> 2 ^ 53" by (simp only: rhe_of_int)
  then have "(of_int (rhe (x / ulp x)) :: real) \<le> of_int (2 ^ 53)" by (simp only: of_int_le_iff)
  then have "rnd x \<le> of_int (2 ^ 53) * ulp x"
    unfolding rnd_def using ulp_pos [of x] by (simp only: mult_le_cancel_right_pos)
  also have "of_int (2 ^ 53) * ulp x = 2 powi (?E + 1)"
    unfolding u by (rule pow2_53 [symmetric])
  finally show ?thesis .
qed

lemma rnd_lower:
  assumes "0 < x" "- 1022 \<le> flog2 x"
  shows "2 powi flog2 x \<le> rnd x"
proof -
  let ?E = "flog2 x"
  have u: "ulp x = 2 powi (?E - 52)" using assms by (simp add: ulp_eq max_def)
  have "2 powi ?E / ulp x \<le> x / ulp x"
    using flog2_bounds(1) [OF assms(1)] ulp_pos [of x] by (simp add: divide_right_mono)
  moreover have "2 powi ?E / ulp x = (2::real) powi 52"
    unfolding u by (simp flip: power_int_diff)
  ultimately have "of_int (2 ^ 52) \<le> x / ulp x" by simp
  then have "rhe (of_int (2 ^ 52)) \<le> rhe (x / ulp x)" by (rule rhe_mono)
  then have "2 ^ 52 \<le> rhe (x / ulp x)" by (simp only: rhe_of_int)
  then have "(of_int (2 ^ 52) :: real) \<le> of_int (rhe (x / ulp x))" by (simp only: of_int_le_iff)
  then have "of_int (2 ^ 52) * ulp x \<le> rnd x"
    unfolding rnd_def using ulp_pos [of x] by (simp only: mult_le_cancel_right_pos)
  moreover have "of_int (2 ^ 52) * ulp x = 2 powi ?E"
    unfolding u by (rule pow2_52 [symmetric])
  ultimately show ?thesis by simp
qed

lemma rnd_mono_pos:
  assumes "0 < x" "x \<le> y"
  shows "rnd x \<le> rnd y"
proof -
  have ypos: "0 < y" using assms by simp
  let ?Ex = "max (flog2 x) (- 1022)" and ?Ey = "max (flog2 y) (- 1022)"
  have le: "?Ex \<le> ?Ey" using flog2_mono [OF assms] by simp
  show ?thesis
  proof (cases "?Ex = ?Ey")
    case True
    then have u: "ulp x = ulp y" using assms ypos by (simp add: ulp_eq)
    have "x / ulp y \<le> y / ulp y" using assms ulp_pos [of y] by (simp add: divide_right_mono)
    then have "rhe (x / ulp y) \<le> rhe (y / ulp y)" by (rule rhe_mono)
    then show ?thesis unfolding rnd_def u using ulp_pos [of y]
      by (simp add: mult_right_mono)
  next
    case False
    with le have lt: "?Ex + 1 \<le> ?Ey" by simp
    then have ey: "?Ey = flog2 y" "- 1022 \<le> flog2 y" by (simp_all add: max_def split: if_splits)
    have "rnd x \<le> 2 powi (?Ex + 1)" using rnd_upper [OF assms(1)] .
    also have "\<dots> \<le> 2 powi ?Ey" using lt by (intro power_int_increasing) simp_all
    also have "\<dots> = 2 powi flog2 y" using ey by simp
    also have "\<dots> \<le> rnd y" using rnd_lower [OF ypos ey(2)] .
    finally show ?thesis .
  qed
qed

lemma rnd_mono:
  assumes "x \<le> y"
  shows "rnd x \<le> rnd y"
proof -
  consider "0 < x" | "x \<le> 0" "0 \<le> y" | "y < 0" by linarith
  then show ?thesis
  proof cases
    case 1
    then show ?thesis using assms by (rule rnd_mono_pos)
  next
    case 2
    then show ?thesis using rnd_nonpos [of x] rnd_nonneg [of y] by linarith
  next
    case 3
    then have "0 < - y" "- y \<le> - x" using assms by simp_all
    then have "rnd (- y) \<le> rnd (- x)" by (rule rnd_mono_pos)
    then show ?thesis by (simp add: rnd_minus)
  qed
qed

lemma round64_not_NaN: "round64 x \<noteq> NaN"
  by (simp add: round64_def Let_def)

lemma round64_mono:
  assumes "x \<le> y"
  shows "fle (round64 x) (round64 y)"
proof -
  have m: "rnd x \<le> rnd y" using assms by (rule rnd_mono)
  have sx: "0 < x \<Longrightarrow> 0 \<le> rnd x" "\<not> 0 < x \<Longrightarrow> rnd x \<le> 0"
    using rnd_nonneg [of x] rnd_nonpos [of x] by simp_all
  have sy: "0 < y \<Longrightarrow> 0 \<le> rnd y" "\<not> 0 < y \<Longrightarrow> rnd y \<le> 0"
    using rnd_nonneg [of y] rnd_nonpos [of y] by simp_all
  show ?thesis
    using m sx sy assms unfolding round64_def Let_def
    by (auto simp: abs_if split: if_splits)
qed

lemma round64_nonzero:
  assumes "2 powi (- 1074) \<le> \<bar>x\<bar>"
  shows "round64 x \<noteq> Fin 0"
proof -
  have "rnd x \<noteq> 0"
  proof -
    have pos: "\<And>z. 2 powi (- 1074) \<le> z \<Longrightarrow> 0 < rnd z"
    proof -
      fix z :: real
      assume z: "2 powi (- 1074) \<le> z"
      have "0 < (2::real) powi (- 1074)" by simp
      with z have zpos: "0 < z" by linarith
      have "ulp z \<le> z"
      proof (cases "- 1022 \<le> flog2 z")
        case True
        then have "ulp z = 2 powi (flog2 z - 52)" using zpos by (simp add: ulp_eq max_def)
        also have "\<dots> \<le> 2 powi flog2 z" by (intro power_int_increasing) simp_all
        also have "\<dots> \<le> z" using flog2_bounds(1) [OF zpos] .
        finally show ?thesis .
      next
        case False
        then have "ulp z = 2 powi (- 1074)" using zpos by (simp add: ulp_eq max_def)
        then show ?thesis using z by simp
      qed
      then have "of_int 1 \<le> z / ulp z" using ulp_pos [of z] by (simp add: field_simps)
      then have "rhe (of_int 1) \<le> rhe (z / ulp z)" by (rule rhe_mono)
      then have "1 \<le> rhe (z / ulp z)" by (simp only: rhe_of_int)
      then have "0 < (of_int (rhe (z / ulp z)) :: real)" by simp
      then show "0 < rnd z" unfolding rnd_def using ulp_pos [of z] by simp
    qed
    show ?thesis
    proof (cases "0 \<le> x")
      case True
      then show ?thesis using pos [of x] assms by simp
    next
      case False
      then have "0 < rnd (- x)" using pos [of "- x"] assms by simp
      then show ?thesis by (simp add: rnd_minus)
    qed
  qed
  then show ?thesis by (simp add: round64_def Let_def)
qed

text \<open>Evaluating a rounding at a given real.\<close>

lemma round64_eqI:
  assumes "2 powi e \<le> \<bar>x\<bar>" "\<bar>x\<bar> < 2 powi (e + 1)" "- 1022 \<le> e"
    and "\<bar>x / 2 powi (e - 52) - of_int n\<bar> < 1 / 2"
    and "\<bar>of_int n * 2 powi (e - 52)\<bar> < (2::real) ^ 1024"
  shows "round64 x = Fin (of_int n * 2 powi (e - 52))"
proof -
  have "flog2 \<bar>x\<bar> = e" using assms(1,2) by (rule flog2_unique)
  then have "ulp x = 2 powi (e - 52)" using assms(3) by (simp add: ulp_def max_def)
  moreover have "rhe (x / 2 powi (e - 52)) = n" using assms(4) by (rule rhe_eqI)
  ultimately have "rnd x = of_int n * 2 powi (e - 52)" by (rule rnd_eqI)
  then show ?thesis using assms(5) by (simp add: round64_def Let_def)
qed

lemma round64_subnormal_eqI:
  assumes "x \<noteq> 0" "\<bar>x\<bar> < 2 powi (- 1022)"
    and "\<bar>x / 2 powi (- 1074) - of_int n\<bar> < 1 / 2"
    and "\<bar>of_int n * 2 powi (- 1074)\<bar> < (2::real) ^ 1024"
  shows "round64 x = Fin (of_int n * 2 powi (- 1074))"
proof -
  have pos: "0 < \<bar>x\<bar>" using assms(1) by simp
  have "\<bar>x\<bar> < 2 powi (- 1023 + 1)" using assms(2) by simp
  then have "flog2 \<bar>x\<bar> \<le> - 1023"
    using pow2_binade_unique [OF flog2_bounds(1) [OF pos]] by blast
  then have "ulp x = 2 powi (- 1074)" by (simp add: ulp_def max_def)
  moreover have "rhe (x / 2 powi (- 1074)) = n" using assms(3) by (rule rhe_eqI)
  ultimately have "rnd x = of_int n * 2 powi (- 1074)" by (rule rnd_eqI)
  then show ?thesis using assms(4) unfolding round64_def Let_def by (simp only: if_not_P not_le)
qed

section \<open>The constants of the throughput formula\<close>

lemma lit_1e_3_val: "lit_1e_3 = Fin (4611686018427388 / 2 ^ 62)"
proof -
  have "round64 (1 / 1000) = Fin (of_int 4611686018427388 * 2 powi (- 10 - 52))"
    by (rule round64_eqI) simp_all
  then show ?thesis by (simp add: lit_1e_3_def)
qed

lemma flops_const: "int_truediv (4 * 341 ^ 3) 3 = Inr (Fin (7095969767576917 / 2 ^ 27))"
proof -
  have "round64 (of_int (4 * 341 ^ 3) / of_int 3) = Fin (of_int 7095969767576917 * 2 powi (25 - 52))"
    by (rule round64_eqI) simp_all
  then show ?thesis by (simp add: int_truediv_def)
qed

lemma fmul_underflow: "fmul (Fin (2 powi (- 1074))) lit_1e_3 = Fin 0"
proof -
  have "round64 (2 powi (- 1074) * (4611686018427388 / 2 ^ 62)) = Fin (of_int 0 * 2 powi (- 1074))"
    by (rule round64_subnormal_eqI) simp_all
  then show ?thesis by (simp add: lit_1e_3_val)
qed

section \<open>Properties of the analysis\<close>

lemma and_then_Inr_iff:
  "and_then r f = Inr y \<longleftrightarrow> (\<exists>v. r = Inr v \<and> f v = Inr y)"
  by (cases r) (simp_all add: and_then_def)

lemma and_then_Inr [simp]: "and_then (Inr v) f = f v"
  by (simp add: and_then_def)

lemma and_then_Inl [simp]: "and_then (Inl e) f = Inl e"
  by (simp add: and_then_def)

lemma lit_1e9_nonzero: "lit_1e9 = Fin 1000000000"
  by (simp add: lit_1e9_def)

lemma fdiv_lit_1e9: "\<exists>r. fdiv q lit_1e9 = Inr r"
  by (cases q) (simp_all add: lit_1e9_def)

lemma fdiv_const_cases:
  "fdiv (Fin c) p = (if p = Fin 0 then Inl ZeroDivisionError else Inr (case p of Fin b \<Rightarrow> round64 (c / b) | NaN \<Rightarrow> NaN | _ \<Rightarrow> Fin 0))"
  by (cases p) simp_all

lemma estimate_flops_eq:
  "estimate_flops avg =
     (if fmul avg lit_1e_3 = Fin 0 then Inl ZeroDivisionError
      else and_then (fdiv (Fin (7095969767576917 / 2 ^ 27)) (fmul avg lit_1e_3)) (\<lambda>q. fdiv q lit_1e9))"
  unfolding estimate_flops_def flops_const by (simp add: fdiv_const_cases)

lemma estimate_flops_ok:
  "fmul avg lit_1e_3 \<noteq> Fin 0 \<Longrightarrow> \<exists>fl. estimate_flops avg = Inr fl"
  using fdiv_lit_1e9 by (simp add: estimate_flops_eq fdiv_const_cases)

lemma estimate_flops_error:
  "estimate_flops avg = Inl e \<Longrightarrow> e = ZeroDivisionError \<and> fmul avg lit_1e_3 = Fin 0"
  using estimate_flops_ok [of avg] by (auto simp: estimate_flops_eq split: if_splits)

lemma estimate_flops_spec: "estimate_flops avg = spec_estimated_gflops 341 avg"
  by (simp add: estimate_flops_def spec_estimated_gflops_def spec_flop_count_def)

lemma derive_Nil: "derive [] = Inl IndexError"
  by (simp add: derive_def values0_def)

lemma derive_Cons:
  "derive (r # rs) =
     and_then (estimate_flops (Avg_ms r)) (\<lambda>fl.
       Inr \<lparr>min_ms = Min_ms r, max_ms = Max_ms r, avg_ms = Avg_ms r,
            target_met = flt (Avg_ms r) lit_5_0, flops = fl\<rparr>)"
  by (simp add: derive_def values0_def)

lemma derive_Inr:
  assumes "derive (r # rs) = Inr m"
  shows "min_ms m = Min_ms r" "max_ms m = Max_ms r" "avg_ms m = Avg_ms r"
    "target_met m = flt (Avg_ms r) lit_5_0" "estimate_flops (Avg_ms r) = Inr (flops m)"
  using assms by (auto simp: derive_Cons and_then_Inr_iff)

lemma filter_find:
  "filter P xs = [] \<and> find P xs = None \<or> (\<exists>r rs. filter P xs = r # rs \<and> find P xs = Some r)"
  by (induction xs) auto

lemma filter_find_Cons: "filter P xs = r # rs \<Longrightarrow> find P xs = Some r"
  using filter_find [of P xs] by auto

lemma dict_set_set:
  "k \<notin> set (map fst d) \<Longrightarrow> dict_set d k v = d @ [(k, v)]"
  by (induction d) auto

lemma set_unique [simp]: "set (unique xs) = set xs"
  by (induction xs rule: unique.induct) auto

lemma distinct_unique [simp]: "distinct (unique xs)"
  by (induction xs rule: unique.induct) auto

lemma analyze_loop_result:
  assumes "analyze_loop df ns an = Inr an'" "distinct ns" "set ns \<inter> set (map fst an) = {}"
  shows "map fst an' = map fst an @ ns \<and>
         (\<forall>(n, m) \<in> set an'. (n, m) \<in> set an \<or>
            (n \<in> set ns \<and> derive (filter (\<lambda>r. name_eq (Implementation r) n) df) = Inr m))"
  using assms
proof (induction ns arbitrary: an)
  case Nil
  then show ?case by auto
next
  case (Cons impl impls)
  from Cons.prems(1) obtain m where
    m: "derive (filter (\<lambda>r. name_eq (Implementation r) impl) df) = Inr m"
    and rest: "analyze_loop df impls (dict_set an impl m) = Inr an'"
    by (auto simp: and_then_Inr_iff)
  have fresh: "impl \<notin> set (map fst an)" using Cons.prems(3) by auto
  then have ds: "dict_set an impl m = an @ [(impl, m)]" by (rule dict_set_set)
  have "set impls \<inter> set (map fst (dict_set an impl m)) = {}"
    using Cons.prems(2,3) by (auto simp: ds)
  with Cons.IH [OF rest] Cons.prems(2)
  have IH: "map fst an' = map fst (dict_set an impl m) @ impls"
    "\<forall>(n, m') \<in> set an'. (n, m') \<in> set (dict_set an impl m) \<or>
        (n \<in> set impls \<and> derive (filter (\<lambda>r. name_eq (Implementation r) n) df) = Inr m')"
    by auto
  show ?case using IH m by (auto simp: ds)
qed

lemma analyze_loop_ok:
  assumes "\<forall>n \<in> set ns. \<exists>m. derive (filter (\<lambda>r. name_eq (Implementation r) n) df) = Inr m"
  shows "\<exists>an'. analyze_loop df ns an = Inr an'"
  using assms by (induction ns arbitrary: an) (auto simp: and_then_Inr_iff)

text \<open>The mask of line 52 selects nothing for a missing name, and the rows of a present one.\<close>

lemma name_eq_simps [simp]:
  "name_eq (Str s) n \<longleftrightarrow> n = Str s"
  "name_eq (NpInt64 i) n \<longleftrightarrow> n = NpInt64 i"
  "name_eq (NpBool b) n \<longleftrightarrow> n = NpBool b"
  "name_eq (NpFloat64 x) n \<longleftrightarrow> n = NpFloat64 x \<and> x \<noteq> NaN"
  by (auto simp: name_eq_def missing_def)

lemma mask_missing: "missing n \<Longrightarrow> filter (\<lambda>r. name_eq (Implementation r) n) df = []"
  by (auto simp: filter_empty_conv name_eq_def)

lemma mask_present:
  "\<not> missing n \<Longrightarrow>
   filter (\<lambda>r. name_eq (Implementation r) n) df = filter (\<lambda>r. Implementation r = n) df"
  by (rule filter_cong) (auto simp: name_eq_def)

lemma mask_Cons:
  assumes "filter (\<lambda>r. name_eq (Implementation r) n) df = r # rs"
  shows "\<not> missing n" "filter (\<lambda>r. Implementation r = n) df = r # rs"
proof -
  show "\<not> missing n" using assms mask_missing [of n df] by auto
  then show "filter (\<lambda>r. Implementation r = n) df = r # rs"
    using assms by (simp add: mask_present)
qed

lemma filter_name_nonempty:
  assumes "n \<in> set (map Implementation df)" "\<not> missing n"
  shows "\<exists>r rs. filter (\<lambda>r. name_eq (Implementation r) n) df = r # rs \<and> r \<in> set df"
proof -
  from assms(1) have "filter (\<lambda>r. Implementation r = n) df \<noteq> []"
    by (auto simp: filter_empty_conv)
  then obtain r rs where eq: "filter (\<lambda>r. Implementation r = n) df = r # rs"
    by (cases "filter (\<lambda>r. Implementation r = n) df") auto
  then have "r \<in> set (filter (\<lambda>r. Implementation r = n) df)" by simp
  then have "r \<in> set df" by simp
  then show ?thesis using eq assms(2) by (simp add: mask_present)
qed

lemma derive_mask_Inr:
  assumes "derive (filter (\<lambda>r. name_eq (Implementation r) n) df) = Inr m"
  shows "\<exists>r rs. filter (\<lambda>r. name_eq (Implementation r) n) df = r # rs"
  using assms by (cases "filter (\<lambda>r. name_eq (Implementation r) n) df") (simp_all add: derive_Nil)

text \<open>What a successful analysis holds.\<close>

lemma analyze_performance_result:
  assumes "results_df self = Some df" "analyze_performance self = Inr (res, self', t)"
  shows "res = Some (profiling_data self')" "self' = self\<lparr>profiling_data := profiling_data self'\<rparr>"
    "t = []"
    "map fst (profiling_data self') = unique (map Implementation df)"
    "\<forall>(n, m) \<in> set (profiling_data self').
        \<exists>r rs. filter (\<lambda>r. Implementation r = n) df = r # rs \<and> derive (r # rs) = Inr m"
proof -
  from assms obtain an where
    an: "analyze_loop df (unique (map Implementation df)) [] = Inr an"
    and r: "res = Some an" "self' = self\<lparr>profiling_data := an\<rparr>" "t = []"
    by (auto simp: analyze_performance_def and_then_Inr_iff)
  from r show "res = Some (profiling_data self')" "self' = self\<lparr>profiling_data := profiling_data self'\<rparr>"
    "t = []" by simp_all
  have pd: "profiling_data self' = an" using r by simp
  from analyze_loop_result [OF an] have
    keys: "map fst an = unique (map Implementation df)"
    and ent: "\<forall>(n, m) \<in> set an. n \<in> set (unique (map Implementation df)) \<and>
        derive (filter (\<lambda>r. name_eq (Implementation r) n) df) = Inr m"
    by auto
  show "map fst (profiling_data self') = unique (map Implementation df)"
    using keys pd by simp
  show "\<forall>(n, m) \<in> set (profiling_data self').
        \<exists>r rs. filter (\<lambda>r. Implementation r = n) df = r # rs \<and> derive (r # rs) = Inr m"
    unfolding pd
  proof clarify
    fix n m assume "(n, m) \<in> set an"
    with ent have d: "derive (filter (\<lambda>r. name_eq (Implementation r) n) df) = Inr m" by auto
    from derive_mask_Inr [OF d] obtain r rs where
      f: "filter (\<lambda>r. name_eq (Implementation r) n) df = r # rs" by auto
    from d f mask_Cons(2) [OF f]
    show "\<exists>r rs. filter (\<lambda>r. Implementation r = n) df = r # rs \<and> derive (r # rs) = Inr m"
      by auto
  qed
qed

section \<open>Evaluating the formula\<close>

lemma lit_2_1: "round64 (21 / 10) = Fin (4728779608739021 / 2 ^ 51)"
proof -
  have "round64 (21 / 10) = Fin (of_int 4728779608739021 * 2 powi (1 - 52))"
    by (rule round64_eqI) simp_all
  then show ?thesis by simp
qed

lemma lit_2_4: "round64 (24 / 10) = Fin (5404319552844595 / 2 ^ 51)"
proof -
  have "round64 (24 / 10) = Fin (of_int 5404319552844595 * 2 powi (1 - 52))"
    by (rule round64_eqI) simp_all
  then show ?thesis by simp
qed

lemma lit_2_3: "round64 (23 / 10) = Fin (2589569785738035 / 2 ^ 50)"
proof -
  have "round64 (23 / 10) = Fin (of_int 5179139571476070 * 2 powi (1 - 52))"
    by (rule round64_eqI) simp_all
  then show ?thesis by simp
qed

lemma lit_1_5: "round64 (15 / 10) = Fin (3 / 2 ^ 1)"
proof -
  have "round64 (15 / 10) = Fin (of_int 6755399441055744 * 2 powi (0 - 52))"
    by (rule round64_eqI) simp_all
  then show ?thesis by simp
qed

lemma lit_1_8: "round64 (18 / 10) = Fin (8106479329266893 / 2 ^ 52)"
proof -
  have "round64 (18 / 10) = Fin (of_int 8106479329266893 * 2 powi (0 - 52))"
    by (rule round64_eqI) simp_all
  then show ?thesis by simp
qed

lemma lit_1_6: "round64 (16 / 10) = Fin (3602879701896397 / 2 ^ 51)"
proof -
  have "round64 (16 / 10) = Fin (of_int 7205759403792794 * 2 powi (0 - 52))"
    by (rule round64_eqI) simp_all
  then show ?thesis by simp
qed

lemma estimate_flops_1_6: "estimate_flops (Fin (3602879701896397 / 2 ^ 51)) = Inr (Fin (581301843359901 / 2 ^ 44))"
proof -
  have p: "round64 (3602879701896397 / 2 ^ 51 * (4611686018427388 / 2 ^ 62)) = Fin (of_int 7378697629483821 * 2 powi (-10 - 52))"
    by (rule round64_eqI) simp_all
  have q: "round64 (7095969767576917 / 2 ^ 27 / (7378697629483821 / 2 ^ 62)) = Fin (of_int 8662072470186666 * 2 powi (34 - 52))"
    by (rule round64_eqI) simp_all
  have v: "round64 (4331036235093333 / 2 ^ 17 / 1000000000) = Fin (of_int 4650414746879208 * 2 powi (5 - 52))"
    by (rule round64_eqI) simp_all
  have "fmul (Fin (3602879701896397 / 2 ^ 51)) lit_1e_3 = Fin (7378697629483821 / 2 ^ 62)"
    using p by (simp add: lit_1e_3_val)
  moreover have "fdiv (Fin (7095969767576917 / 2 ^ 27)) (Fin (7378697629483821 / 2 ^ 62)) = Inr (Fin (4331036235093333 / 2 ^ 17))"
    using q by simp
  moreover have "fdiv (Fin (4331036235093333 / 2 ^ 17)) lit_1e9 = Inr (Fin (581301843359901 / 2 ^ 44))"
    using v by (simp add: lit_1e9_def)
  ultimately show ?thesis
    by (simp add: estimate_flops_eq)
qed

lemma estimate_flops_2_3: "estimate_flops (Fin (2589569785738035 / 2 ^ 50)) = Inr (Fin (3235071128263797 / 2 ^ 47))"
proof -
  have p: "round64 (2589569785738035 / 2 ^ 50 * (4611686018427388 / 2 ^ 62)) = Fin (of_int 5303438921191496 * 2 powi (-9 - 52))"
    by (rule round64_eqI) simp_all
  have q: "round64 (7095969767576917 / 2 ^ 27 / (662929865148937 / 2 ^ 58)) = Fin (of_int 6025789544477681 * 2 powi (34 - 52))"
    by (rule round64_eqI) simp_all
  have v: "round64 (6025789544477681 / 2 ^ 18 / 1000000000) = Fin (of_int 6470142256527594 * 2 powi (4 - 52))"
    by (rule round64_eqI) simp_all
  have "fmul (Fin (2589569785738035 / 2 ^ 50)) lit_1e_3 = Fin (662929865148937 / 2 ^ 58)"
    using p by (simp add: lit_1e_3_val)
  moreover have "fdiv (Fin (7095969767576917 / 2 ^ 27)) (Fin (662929865148937 / 2 ^ 58)) = Inr (Fin (6025789544477681 / 2 ^ 18))"
    using q by simp
  moreover have "fdiv (Fin (6025789544477681 / 2 ^ 18)) lit_1e9 = Inr (Fin (3235071128263797 / 2 ^ 47))"
    using v by (simp add: lit_1e9_def)
  ultimately show ?thesis
    by (simp add: estimate_flops_eq)
qed

lemma estimate_flops_5: "estimate_flops (Fin (5)) = Inr (Fin (2976265438002693 / 2 ^ 48))"
proof -
  have p: "round64 (5 * (4611686018427388 / 2 ^ 62)) = Fin (of_int 5764607523034235 * 2 powi (-8 - 52))"
    by (rule round64_eqI) simp_all
  have q: "round64 (7095969767576917 / 2 ^ 27 / (5764607523034235 / 2 ^ 60)) = Fin (of_int 5543726380919466 * 2 powi (33 - 52))"
    by (rule round64_eqI) simp_all
  have v: "round64 (2771863190459733 / 2 ^ 18 / 1000000000) = Fin (of_int 5952530876005386 * 2 powi (3 - 52))"
    by (rule round64_eqI) simp_all
  have "fmul (Fin (5)) lit_1e_3 = Fin (5764607523034235 / 2 ^ 60)"
    using p by (simp add: lit_1e_3_val)
  moreover have "fdiv (Fin (7095969767576917 / 2 ^ 27)) (Fin (5764607523034235 / 2 ^ 60)) = Inr (Fin (2771863190459733 / 2 ^ 18))"
    using q by simp
  moreover have "fdiv (Fin (2771863190459733 / 2 ^ 18)) lit_1e9 = Inr (Fin (2976265438002693 / 2 ^ 48))"
    using v by (simp add: lit_1e9_def)
  ultimately show ?thesis
    by (simp add: estimate_flops_eq)
qed

lemma estimate_flops_1: "estimate_flops (Fin (1)) = Inr (Fin (7440663595006733 / 2 ^ 47))"
proof -
  have p: "round64 (1 * (4611686018427388 / 2 ^ 62)) = Fin (of_int 4611686018427388 * 2 powi (-10 - 52))"
    by (rule round64_eqI) simp_all
  have q: "round64 (7095969767576917 / 2 ^ 27 / (1152921504606847 / 2 ^ 60)) = Fin (of_int 6929657976149333 * 2 powi (35 - 52))"
    by (rule round64_eqI) simp_all
  have v: "round64 (6929657976149333 / 2 ^ 17 / 1000000000) = Fin (of_int 7440663595006733 * 2 powi (5 - 52))"
    by (rule round64_eqI) simp_all
  have "fmul (Fin (1)) lit_1e_3 = Fin (1152921504606847 / 2 ^ 60)"
    using p by (simp add: lit_1e_3_val)
  moreover have "fdiv (Fin (7095969767576917 / 2 ^ 27)) (Fin (1152921504606847 / 2 ^ 60)) = Inr (Fin (6929657976149333 / 2 ^ 17))"
    using q by simp
  moreover have "fdiv (Fin (6929657976149333 / 2 ^ 17)) lit_1e9 = Inr (Fin (7440663595006733 / 2 ^ 47))"
    using v by (simp add: lit_1e9_def)
  ultimately show ?thesis
    by (simp add: estimate_flops_eq)
qed

section \<open>Duplicate rows\<close>

lemma unique_append_dups: "set ys \<subseteq> set xs \<Longrightarrow> unique (xs @ ys) = unique xs"
proof (induction xs arbitrary: ys rule: unique.induct)
  case 1
  then show ?case by simp
next
  case (2 x xs)
  have "set (filter (\<lambda>y. y \<noteq> x) ys) \<subseteq> set (filter (\<lambda>y. y \<noteq> x) xs)"
    using "2.prems" by auto
  from "2.IH" [OF this] show ?case by simp
qed

lemma derive_head: "xs \<noteq> [] \<Longrightarrow> derive (xs @ ys) = derive xs"
  by (cases xs) (simp_all add: derive_Cons)

lemma analyze_loop_append_dups:
  assumes "analyze_loop df ns an = Inr an'"
  shows "analyze_loop (df @ extra) ns an = Inr an'"
  using assms
proof (induction ns arbitrary: an)
  case Nil
  then show ?case by simp
next
  case (Cons n ns)
  from Cons.prems obtain m where
    d: "derive (filter (\<lambda>r. name_eq (Implementation r) n) df) = Inr m"
    and rest: "analyze_loop df ns (dict_set an n m) = Inr an'"
    by (auto simp: and_then_Inr_iff)
  from derive_mask_Inr [OF d]
  have "filter (\<lambda>r. name_eq (Implementation r) n) df \<noteq> []" by auto
  then have "derive (filter (\<lambda>r. name_eq (Implementation r) n) (df @ extra))
             = derive (filter (\<lambda>r. name_eq (Implementation r) n) df)"
    by (simp add: derive_head)
  with d Cons.IH [OF rest] show ?case by simp
qed

lemma analyze_performance_append_dups:
  assumes "set (map Implementation extra) \<subseteq> set (map Implementation df)"
    and "analyze_performance (self\<lparr>results_df := Some df\<rparr>) = Inr (res, self', t)"
  shows "analyze_performance (self\<lparr>results_df := Some (df @ extra)\<rparr>)
         = Inr (res, self'\<lparr>results_df := Some (df @ extra)\<rparr>, t)"
proof -
  have u: "unique (map Implementation (df @ extra)) = unique (map Implementation df)"
    using assms(1) by (simp add: unique_append_dups)
  from assms(2) obtain an where
    an: "analyze_loop df (unique (map Implementation df)) [] = Inr an"
    and r: "res = Some an" "self' = self\<lparr>results_df := Some df, profiling_data := an\<rparr>" "t = []"
    by (auto simp: analyze_performance_def and_then_Inr_iff)
  from analyze_loop_append_dups [OF an]
  have "analyze_loop (df @ extra) (unique (map Implementation df)) [] = Inr an" .
  with u r show ?thesis
    by (simp add: analyze_performance_def)
qed

section \<open>The analyses of the example tables\<close>

lemma analyze_scenario:
  "analyze_performance (loaded scenario_table)
   = Inr (Some scenario_analysis, (loaded scenario_table)\<lparr>profiling_data := scenario_analysis\<rparr>, [])"
  by (simp add: analyze_performance_def loaded_def init_def scenario_table_def scenario_analysis_def
      lit_2_1 [simplified] lit_2_4 [simplified] lit_2_3 [simplified] lit_1_5 [simplified]
      lit_1_8 [simplified] lit_1_6 [simplified] derive_Cons
      estimate_flops_1_6 [simplified] estimate_flops_2_3 [simplified] lit_5_0_def)

lemma analyze_duplicate:
  "analyze_performance (loaded duplicate_table)
   = Inr (Some scenario_analysis, (loaded duplicate_table)\<lparr>profiling_data := scenario_analysis\<rparr>, [])"
  by (simp add: analyze_performance_def loaded_def init_def scenario_table_def scenario_analysis_def
      duplicate_table_def
      lit_2_1 [simplified] lit_2_4 [simplified] lit_2_3 [simplified] lit_1_5 [simplified]
      lit_1_8 [simplified] lit_1_6 [simplified] derive_Cons
      estimate_flops_1_6 [simplified] estimate_flops_2_3 [simplified] lit_5_0_def)

lemma analyze_boundary:
  "analyze_performance (loaded boundary_table)
   = Inr (Some boundary_analysis, (loaded boundary_table)\<lparr>profiling_data := boundary_analysis\<rparr>, [])"
  by (simp add: analyze_performance_def loaded_def init_def boundary_table_def boundary_analysis_def
      derive_Cons estimate_flops_5 [simplified] lit_5_0_def)

section \<open>The order on floats\<close>

lemma flt_irrefl: "\<not> flt a a"
  by (cases a) simp_all

lemma flt_trans: "flt a b \<Longrightarrow> flt b c \<Longrightarrow> flt a c"
  by (cases a; cases b; cases c) simp_all

lemma fle_flt_trans: "fle a b \<Longrightarrow> flt b c \<Longrightarrow> flt a c"
  by (cases a; cases b; cases c) simp_all

lemma fle_trans: "fle a b \<Longrightarrow> fle b c \<Longrightarrow> fle a c"
  by (cases a; cases b; cases c) simp_all

lemma flt_not_fle: "flt a b \<Longrightarrow> \<not> fle b a"
  by (cases a; cases b) simp_all

lemma fle_total: "a \<noteq> NaN \<Longrightarrow> b \<noteq> NaN \<Longrightarrow> fle a b \<or> flt b a"
  by (cases a; cases b) auto

lemma fle_not_NaN: "fle a b \<Longrightarrow> a \<noteq> NaN \<and> b \<noteq> NaN"
  by (cases a; cases b) simp_all

section \<open>The builtin min\<close>

lemma min_loop_index:
  assumes "c < length pre"
    and "\<forall>j < length pre. \<not> flt (key ((pre @ xs) ! j)) (key ((pre @ xs) ! c))"
    and "\<forall>j < c. \<not> fle (key ((pre @ xs) ! j)) (key ((pre @ xs) ! c))"
  shows "\<exists>i < length (pre @ xs).
           min_loop key ((pre @ xs) ! c) xs = (pre @ xs) ! i \<and>
           (\<forall>j < length (pre @ xs). \<not> flt (key ((pre @ xs) ! j)) (key ((pre @ xs) ! i))) \<and>
           (\<forall>j < i. \<not> fle (key ((pre @ xs) ! j)) (key ((pre @ xs) ! i)))"
  using assms
proof (induction xs arbitrary: pre c)
  case Nil
  then show ?case by auto
next
  case (Cons x xs)
  let ?ys = "pre @ x # xs"
  let ?pre = "pre @ [x]"
  have ys: "?ys = ?pre @ xs" by simp
  have x: "?ys ! length pre = x" by simp
  show ?case
  proof (cases "flt (key x) (key (?ys ! c))")
    case True
    have c': "length pre < length ?pre" by simp
    have p1: "\<forall>j < length ?pre. \<not> flt (key ((?pre @ xs) ! j)) (key ((?pre @ xs) ! length pre))"
    proof (intro allI impI)
      fix j assume "j < length ?pre"
      then consider "j < length pre" | "j = length pre" by force
      then show "\<not> flt (key ((?pre @ xs) ! j)) (key ((?pre @ xs) ! length pre))"
      proof cases
        case 1
        with Cons.prems(2) have "\<not> flt (key (?ys ! j)) (key (?ys ! c))" by simp
        with True show ?thesis using flt_trans [of "key (?ys ! j)" "key x" "key (?ys ! c)"]
          by (auto simp: nth_append)
      next
        case 2
        then show ?thesis by (simp add: flt_irrefl nth_append)
      qed
    qed
    have p2: "\<forall>j < length pre. \<not> fle (key ((?pre @ xs) ! j)) (key ((?pre @ xs) ! length pre))"
    proof (intro allI impI)
      fix j assume j: "j < length pre"
      with Cons.prems(2) have "\<not> flt (key (?ys ! j)) (key (?ys ! c))" by simp
      with True show "\<not> fle (key ((?pre @ xs) ! j)) (key ((?pre @ xs) ! length pre))"
        using fle_flt_trans [of "key (?ys ! j)" "key x" "key (?ys ! c)"]
        by (auto simp: nth_append)
    qed
    from Cons.IH [OF c' p1 p2] True show ?thesis by (simp add: nth_append)
  next
    case False
    have c': "c < length ?pre" using Cons.prems(1) by simp
    have p1: "\<forall>j < length ?pre. \<not> flt (key ((?pre @ xs) ! j)) (key ((?pre @ xs) ! c))"
    proof (intro allI impI)
      fix j assume "j < length ?pre"
      then consider "j < length pre" | "j = length pre" by force
      then show "\<not> flt (key ((?pre @ xs) ! j)) (key ((?pre @ xs) ! c))"
      proof cases
        case 1
        with Cons.prems(2) show ?thesis by simp
      next
        case 2
        with False show ?thesis by (simp add: nth_append)
      qed
    qed
    have p2: "\<forall>j < c. \<not> fle (key ((?pre @ xs) ! j)) (key ((?pre @ xs) ! c))"
      using Cons.prems(3) by simp
    from Cons.IH [OF c' p1 p2] False Cons.prems(1) show ?thesis by (simp add: nth_append)
  qed
qed

lemma py_min_index:
  assumes "xs \<noteq> []"
  shows "\<exists>i < length xs.
           py_min key xs = Inr (xs ! i) \<and>
           (\<forall>j < length xs. \<not> flt (key (xs ! j)) (key (xs ! i))) \<and>
           (\<forall>j < i. \<not> fle (key (xs ! j)) (key (xs ! i)))"
proof -
  from assms obtain c rest where xs: "xs = c # rest" by (cases xs) auto
  have "\<exists>i < length ([c] @ rest).
           min_loop key (([c] @ rest) ! 0) rest = ([c] @ rest) ! i \<and>
           (\<forall>j < length ([c] @ rest). \<not> flt (key (([c] @ rest) ! j)) (key (([c] @ rest) ! i))) \<and>
           (\<forall>j < i. \<not> fle (key (([c] @ rest) ! j)) (key (([c] @ rest) ! i)))"
    by (rule min_loop_index) (simp_all add: flt_irrefl)
  then show ?thesis by (simp add: xs py_min_def)
qed

lemma estimate_flops_NaN: "estimate_flops NaN = Inr NaN"
  by (simp add: estimate_flops_eq lit_1e9_def)

lemma analyze_nan:
  "analyze_performance (loaded nan_table)
   = Inr (Some nan_analysis, (loaded nan_table)\<lparr>profiling_data := nan_analysis\<rparr>, [])"
  by (simp add: analyze_performance_def loaded_def init_def nan_table_def nan_analysis_def
      derive_Cons estimate_flops_1 [simplified] lit_5_0_def estimate_flops_NaN)

section \<open>The selection in the renderers\<close>

lemma best_impl_index:
  assumes "pd \<noteq> []"
  shows "\<exists>i < length pd.
           markdown_best_impl pd = Inr (pd ! i) \<and> summary_best_impl pd = Inr (pd ! i) \<and>
           (\<forall>j < length pd. \<not> flt (avg_ms (snd (pd ! j))) (avg_ms (snd (pd ! i)))) \<and>
           (\<forall>j < i. \<not> fle (avg_ms (snd (pd ! j))) (avg_ms (snd (pd ! i))))"
  using py_min_index [OF assms, of "\<lambda>x. avg_ms (snd x)"]
  by (simp add: markdown_best_impl_def summary_best_impl_def)

lemma markdown_report_shows:
  assumes "profiling_data self \<noteq> []" "markdown_best_impl (profiling_data self) = Inr b"
  shows "generate_markdown_report self f =
           Inr [WriteFile f (MarkdownDoc
                  ([MdPreamble, MdKeyResults (fst b) (snd b), MdDetailHeading]
                   @ map (\<lambda>(impl, m). MdImplTable impl m) (profiling_data self)
                   @ [MdStaticSections])),
                Print (MsgReportGenerated f)]"
  using assms by (simp add: generate_markdown_report_def)

lemma print_summary_shows:
  assumes "profiling_data self \<noteq> []" "summary_best_impl (profiling_data self) = Inr b"
  shows "print_summary self =
           Inr ([Print SummaryHeader]
                @ map (\<lambda>(impl, m). Print (ImplSummary impl m)) (profiling_data self)
                @ [Print Rule, Print (BestSummary (fst b) (snd b)), Print Rule])"
  using assms by (simp add: print_summary_def)

section \<open>When the analysis completes\<close>

lemma lit_1e_3_bounds: "\<exists>k. lit_1e_3 = Fin k \<and> 2 powi (- 10) \<le> k"
proof (intro exI conjI)
  show "lit_1e_3 = Fin (4611686018427388 / 2 ^ 62)" by (rule lit_1e_3_val)
  show "2 powi (- 10) \<le> (4611686018427388 / 2 ^ 62 :: real)" by simp
qed

lemma fmul_lit_nonzero:
  assumes "2 powi (- 1064) \<le> \<bar>a\<bar>"
  shows "fmul (Fin a) lit_1e_3 \<noteq> Fin 0"
proof -
  from lit_1e_3_bounds obtain k where k: "lit_1e_3 = Fin k" "2 powi (- 10) \<le> k" by blast
  have kpos: "0 < k" using k(2) by (smt (verit) zero_less_power_int)
  have "(2::real) powi (- 1074) = 2 powi (- 1064) * 2 powi (- 10)"
    by (rule pow2_split) simp
  also have "\<dots> \<le> \<bar>a\<bar> * k"
    by (rule mult_mono [OF assms k(2)]) simp_all
  also have "\<dots> = \<bar>a * k\<bar>" using kpos by (simp add: abs_mult)
  finally have "round64 (a * k) \<noteq> Fin 0" by (rule round64_nonzero)
  then show ?thesis by (simp add: k)
qed

lemma fmul_lit_special:
  "fmul NaN lit_1e_3 \<noteq> Fin 0" "fmul PInf lit_1e_3 \<noteq> Fin 0" "fmul NInf lit_1e_3 \<noteq> Fin 0"
  by (simp_all add: lit_1e_3_val)

lemma derive_ok:
  assumes "fmul (Avg_ms r) lit_1e_3 \<noteq> Fin 0"
  shows "\<exists>m. derive (r # rs) = Inr m"
  using estimate_flops_ok [OF assms] by (auto simp: derive_Cons)

lemma derive_error:
  assumes "derive (r # rs) = Inl e"
  shows "e = ZeroDivisionError \<and> fmul (Avg_ms r) lit_1e_3 = Fin 0"
proof -
  from assms have "estimate_flops (Avg_ms r) = Inl e"
    by (cases "estimate_flops (Avg_ms r)") (simp_all add: derive_Cons)
  then show ?thesis by (rule estimate_flops_error)
qed

lemma analyze_loop_error:
  assumes "analyze_loop df ns an = Inl e" "set ns \<subseteq> set (map Implementation df)"
  shows "e = ZeroDivisionError \<and> (\<exists>r \<in> set df. fmul (Avg_ms r) lit_1e_3 = Fin 0) \<or>
         e = IndexError \<and> (\<exists>r \<in> set df. missing (Implementation r))"
  using assms
proof (induction ns arbitrary: an)
  case Nil
  then show ?case by simp
next
  case (Cons n ns)
  from Cons.prems(2) have n: "n \<in> set (map Implementation df)" by simp
  show ?case
  proof (cases "missing n")
    case True
    from mask_missing [OF True, of df] Cons.prems(1) have "e = IndexError"
      by (simp add: derive_Nil)
    moreover from n True have "\<exists>r \<in> set df. missing (Implementation r)" by auto
    ultimately show ?thesis by simp
  next
    case False
    from filter_name_nonempty [OF n False] obtain r rs where
      f: "filter (\<lambda>r. name_eq (Implementation r) n) df = r # rs" and r: "r \<in> set df" by blast
    show ?thesis
    proof (cases "derive (r # rs)")
      case (Inl e')
      with Cons.prems(1) f have "e = e'" by simp
      with derive_error [OF Inl] r show ?thesis by blast
    next
      case (Inr m)
      with Cons.prems(1) f have "analyze_loop df ns (dict_set an n m) = Inl e" by simp
      from Cons.IH [OF this] Cons.prems(2) show ?thesis by simp
    qed
  qed
qed

lemma analyze_performance_ok:
  assumes nz: "\<forall>r \<in> set df. fmul (Avg_ms r) lit_1e_3 \<noteq> Fin 0"
    and present: "\<forall>r \<in> set df. \<not> missing (Implementation r)"
  shows "\<exists>an. analyze_performance (self\<lparr>results_df := Some df\<rparr>)
               = Inr (Some an, self\<lparr>results_df := Some df, profiling_data := an\<rparr>, []) \<and>
            map fst an = unique (map Implementation df)"
proof -
  have "\<forall>n \<in> set (unique (map Implementation df)).
          \<exists>m. derive (filter (\<lambda>r. name_eq (Implementation r) n) df) = Inr m"
  proof
    fix n assume "n \<in> set (unique (map Implementation df))"
    then have n: "n \<in> set (map Implementation df)" by simp
    with present have "\<not> missing n" by auto
    from filter_name_nonempty [OF n this] obtain r rs where
      f: "filter (\<lambda>r. name_eq (Implementation r) n) df = r # rs" and r: "r \<in> set df" by blast
    from nz r have "fmul (Avg_ms r) lit_1e_3 \<noteq> Fin 0" by simp
    from derive_ok [OF this] f
    show "\<exists>m. derive (filter (\<lambda>r. name_eq (Implementation r) n) df) = Inr m" by simp
  qed
  from analyze_loop_ok [OF this] obtain an where
    an: "analyze_loop df (unique (map Implementation df)) [] = Inr an" by blast
  then have ap: "analyze_performance (self\<lparr>results_df := Some df\<rparr>)
               = Inr (Some an, self\<lparr>results_df := Some df, profiling_data := an\<rparr>, [])"
    by (simp add: analyze_performance_def)
  from analyze_performance_result(4) [OF _ ap]
  have "map fst an = unique (map Implementation df)" by simp
  with ap show ?thesis by blast
qed

lemma nonzero_products:
  assumes big: "\<forall>r \<in> set df. \<forall>a. Avg_ms r = Fin a \<longrightarrow> 2 powi (- 1064) \<le> \<bar>a\<bar>"
  shows "\<forall>r \<in> set df. fmul (Avg_ms r) lit_1e_3 \<noteq> Fin 0"
proof
  fix r assume "r \<in> set df"
  with big have b: "\<forall>a. Avg_ms r = Fin a \<longrightarrow> 2 powi (- 1064) \<le> \<bar>a\<bar>" by simp
  show "fmul (Avg_ms r) lit_1e_3 \<noteq> Fin 0"
  proof (cases "Avg_ms r")
    case (Fin a)
    with b have "2 powi (- 1064) \<le> \<bar>a\<bar>" by simp
    from fmul_lit_nonzero [OF this] Fin show ?thesis by simp
  qed (simp_all add: fmul_lit_special)
qed

lemma analyze_performance_error:
  assumes "analyze_performance (self\<lparr>results_df := Some df\<rparr>) = Inl e"
  shows "e = ZeroDivisionError \<and> (\<exists>r \<in> set df. fmul (Avg_ms r) lit_1e_3 = Fin 0) \<or>
         e = IndexError \<and> (\<exists>r \<in> set df. missing (Implementation r))"
proof -
  from assms have "analyze_loop df (unique (map Implementation df)) [] = Inl e"
    by (cases "analyze_loop df (unique (map Implementation df)) []")
       (simp_all add: analyze_performance_def)
  from analyze_loop_error [OF this] show ?thesis by simp
qed

lemma analyze_missing_name:
  "analyze_performance (loaded missing_name_table) = Inl IndexError"
  by (simp add: analyze_performance_def loaded_def init_def missing_name_table_def
      name_eq_def missing_def derive_Nil)

lemma analyze_int_name:
  "analyze_performance (loaded int_name_table)
   = Inr (Some int_name_analysis, (loaded int_name_table)\<lparr>profiling_data := int_name_analysis\<rparr>, [])"
  by (simp add: analyze_performance_def loaded_def init_def int_name_table_def
      int_name_analysis_def name_eq_def missing_def derive_Cons estimate_flops_NaN lit_5_0_def)

lemma estimate_flops_tiny: "estimate_flops (Fin (2 powi (- 1074))) = Inl ZeroDivisionError"
  unfolding estimate_flops_eq using fmul_underflow by (simp only: simp_thms if_True)

lemma estimate_flops_zero: "estimate_flops (Fin 0) = Inl ZeroDivisionError"
proof -
  have "round64 0 = Fin 0" using rnd_nonneg [of 0] rnd_nonpos [of 0] by (simp add: round64_def)
  then have "fmul (Fin 0) lit_1e_3 = Fin 0" by (simp add: lit_1e_3_val)
  then show ?thesis unfolding estimate_flops_eq by (simp only: simp_thms if_True)
qed

lemma analyze_underflow: "analyze_performance (loaded underflow_table) = Inl ZeroDivisionError"
proof -
  have "derive underflow_table = Inl ZeroDivisionError"
    unfolding underflow_table_def derive_Cons
    by (simp only: row.select_convs estimate_flops_tiny and_then_Inl)
  then show ?thesis
    by (simp add: analyze_performance_def loaded_def init_def underflow_table_def)
qed

lemma analyze_zero: "analyze_performance (loaded zero_table) = Inl ZeroDivisionError"
  by (simp add: analyze_performance_def loaded_def init_def zero_table_def derive_Cons
      estimate_flops_zero)

section \<open>Monotonicity of the estimate\<close>

lemma rnd_0: "rnd 0 = 0"
  by (simp add: rnd_def rhe_0)

lemma round64_0: "round64 0 = Fin 0"
  by (simp add: round64_def rnd_0)

lemma round64_nonneg:
  assumes "0 \<le> x"
  shows "round64 x = PInf \<or> (\<exists>y. round64 x = Fin y \<and> 0 \<le> y)"
proof (cases "x = 0")
  case True
  then show ?thesis by (simp add: round64_0)
next
  case False
  with assms have "0 < x" by simp
  then show ?thesis using rnd_nonneg [OF assms] by (simp add: round64_def Let_def)
qed

lemma fle_refl: "a \<noteq> NaN \<Longrightarrow> fle a a"
  by (cases a) simp_all

lemma fle_PInf: "a \<noteq> NaN \<Longrightarrow> fle a PInf"
  by (cases a) simp_all

lemma fle_NInf: "a \<noteq> NaN \<Longrightarrow> fle NInf a"
  by (cases a) simp_all

lemma fle_imp_not_flt: "fle a b \<Longrightarrow> \<not> flt b a"
  by (cases a; cases b) simp_all

text \<open>A float that is greater than zero.\<close>

lemma positive_cases: "flt (Fin 0) a \<longleftrightarrow> a = PInf \<or> (\<exists>x. a = Fin x \<and> 0 < x)"
  by (cases a) simp_all

lemma fmul_mono:
  assumes "fle a b" "0 < k"
  shows "fle (fmul a (Fin k)) (fmul b (Fin k))"
proof (cases a)
  case (Fin x)
  show ?thesis
  proof (cases b)
    case (Fin y)
    with \<open>a = Fin x\<close> assms have "x * k \<le> y * k" by simp
    then show ?thesis using Fin \<open>a = Fin x\<close> by (simp add: round64_mono)
  next
    case PInf
    then show ?thesis using \<open>a = Fin x\<close> assms(2) by (simp add: fle_PInf round64_not_NaN)
  qed (use assms Fin in simp_all)
next
  case PInf
  then show ?thesis using assms by (cases b) simp_all
next
  case NInf
  show ?thesis
  proof (cases b)
    case (Fin y)
    then show ?thesis using NInf assms(2) by (simp add: fle_NInf round64_not_NaN)
  qed (use assms NInf in simp_all)
next
  case NaN
  then show ?thesis using assms by simp
qed

lemma fmul_positive:
  assumes "flt (Fin 0) a" "0 < k"
  shows "fmul a (Fin k) = PInf \<or> (\<exists>p. fmul a (Fin k) = Fin p \<and> 0 \<le> p)"
proof -
  from assms(1) consider "a = PInf" | x where "a = Fin x" "0 < x"
    by (auto simp: positive_cases)
  then show ?thesis
  proof cases
    case 1
    then show ?thesis using assms(2) by simp
  next
    case 2
    then have "0 \<le> x * k" using assms(2) by simp
    from round64_nonneg [OF this] 2 show ?thesis by simp
  qed
qed

lemma fdiv_antitone:
  assumes "0 < c" "0 < u" "fle (Fin u) p'"
  shows "\<exists>q'. fdiv (Fin c) p' = Inr q' \<and> fle q' (round64 (c / u))"
proof (cases p')
  case (Fin u')
  with assms have le: "u \<le> u'" by simp
  then have "c / u' \<le> c / u" using assms(1,2) by (simp add: frac_le)
  then have "fle (round64 (c / u')) (round64 (c / u))" by (rule round64_mono)
  then show ?thesis using Fin le assms(2) by simp
next
  case PInf
  have "fle (round64 0) (round64 (c / u))"
    by (rule round64_mono) (use assms in simp)
  then show ?thesis using PInf by (simp add: round64_0)
qed (use assms in simp_all)

lemma fdiv_lit_mono:
  assumes "fle q' q"
  shows "\<exists>r' r. fdiv q' lit_1e9 = Inr r' \<and> fdiv q lit_1e9 = Inr r \<and> fle r' r"
proof (cases q')
  case (Fin x)
  show ?thesis
  proof (cases q)
    case (Fin y)
    with \<open>q' = Fin x\<close> assms have "x / 1000000000 \<le> y / 1000000000" by simp
    then have "fle (round64 (x / 1000000000)) (round64 (y / 1000000000))" by (rule round64_mono)
    then show ?thesis using Fin \<open>q' = Fin x\<close> by (simp add: lit_1e9_def)
  next
    case PInf
    then show ?thesis using \<open>q' = Fin x\<close> by (simp add: lit_1e9_def fle_PInf round64_not_NaN)
  qed (use assms Fin in simp_all)
next
  case PInf
  then show ?thesis using assms by (cases q) (simp_all add: lit_1e9_def)
next
  case NInf
  then show ?thesis using assms by (cases q) (simp_all add: lit_1e9_def fle_NInf round64_not_NaN)
next
  case NaN
  then show ?thesis using assms by simp
qed

lemma estimate_flops_antitone:
  assumes pos: "flt (Fin 0) a" and le: "fle a b" and ok: "estimate_flops a = Inr fa"
  shows "\<exists>fb. estimate_flops b = Inr fb \<and> fle fb fa"
proof -
  have "lit_1e_3 = Fin (4611686018427388 / 2 ^ 62)" by (rule lit_1e_3_val)
  moreover have "0 < (4611686018427388 / 2 ^ 62 :: real)" by simp
  ultimately obtain k where k: "lit_1e_3 = Fin k" "0 < k" by blast
  let ?c = "7095969767576917 / 2 ^ 27 :: real"
  have c: "0 < ?c" by simp
  have nz: "fmul a (Fin k) \<noteq> Fin 0"
    using ok by (auto simp: estimate_flops_eq k split: if_splits)
  have mono: "fle (fmul a (Fin k)) (fmul b (Fin k))" using le k(2) by (rule fmul_mono)
  from fmul_positive [OF pos k(2)] nz
  consider "fmul a (Fin k) = PInf" | u where "fmul a (Fin k) = Fin u" "0 < u" by force
  then have "\<exists>q q'. fdiv (Fin ?c) (fmul a (Fin k)) = Inr q \<and>
                   fdiv (Fin ?c) (fmul b (Fin k)) = Inr q' \<and> fle q' q \<and>
                   fmul b (Fin k) \<noteq> Fin 0"
  proof cases
    case 1
    with mono have "fmul b (Fin k) = PInf" by (cases "fmul b (Fin k)") simp_all
    with 1 show ?thesis by simp
  next
    case 2
    with mono have m: "fle (Fin u) (fmul b (Fin k))" by simp
    from fdiv_antitone [OF c 2(2) m] obtain q' where
      "fdiv (Fin ?c) (fmul b (Fin k)) = Inr q'" "fle q' (round64 (?c / u))" by blast
    moreover have "fmul b (Fin k) \<noteq> Fin 0" using m 2(2) by auto
    ultimately show ?thesis using 2 by simp
  qed
  then obtain q q' where q: "fdiv (Fin ?c) (fmul a (Fin k)) = Inr q"
    "fdiv (Fin ?c) (fmul b (Fin k)) = Inr q'" "fle q' q" "fmul b (Fin k) \<noteq> Fin 0" by blast
  from fdiv_lit_mono [OF q(3)] obtain r' r where
    r: "fdiv q' lit_1e9 = Inr r'" "fdiv q lit_1e9 = Inr r" "fle r' r" by blast
  have "estimate_flops a = Inr r" using nz q(1) r(2) by (simp add: estimate_flops_eq k)
  with ok have "fa = r" by simp
  moreover have "estimate_flops b = Inr r'" using q(2,4) r(1) by (simp add: estimate_flops_eq k)
  ultimately show ?thesis using r(3) by simp
qed

section \<open>Properties of the renderers and of main\<close>

lemma written_files_append: "written_files (s @ t) = written_files s @ written_files t"
  by (simp add: written_files_def)

lemma written_files_simps:
  "written_files [] = []"
  "written_files (WriteFile p d # t) = p # written_files t"
  "written_files (Print l # t) = written_files t"
  "written_files (MakeDirs q # t) = written_files t"
  by (simp_all add: written_files_def)

lemma rendered_append: "rendered (s @ t) = rendered s @ rendered t"
  by (induction s rule: rendered.induct) simp_all

lemma complete_reports_append:
  "complete_reports (s @ t) = complete_reports s @ complete_reports t"
  by (induction s rule: complete_reports.induct) simp_all

lemma generate_markdown_report_ok:
  "\<exists>doc. generate_markdown_report self f
           = Inr [WriteFile f (MarkdownDoc doc), Print (MsgReportGenerated f)]"
proof (cases "profiling_data self = []")
  case True
  then show ?thesis by (simp add: generate_markdown_report_def)
next
  case False
  from best_impl_index [OF False] obtain b where
    "markdown_best_impl (profiling_data self) = Inr b" by blast
  from markdown_report_shows [OF False this] show ?thesis by blast
qed

lemma generate_json_report_ok:
  assumes "list_all json_key (map fst (profiling_data self))"
  shows "\<exists>doc. generate_json_report self g
                 = Inr [WriteFile g (JsonDoc doc), Print (MsgJsonGenerated g)]
               \<and> implementations doc = profiling_data self"
  using assms by (simp add: generate_json_report_def)

lemma generate_json_report_error:
  assumes "\<not> list_all json_key (map fst (profiling_data self))"
  shows "generate_json_report self g
         = Inl ([WriteFile g (JsonTruncated
                   (takeWhile (\<lambda>x. json_key (fst x)) (profiling_data self)))], TypeError)"
  using assms by (simp add: generate_json_report_def)

lemma print_summary_ok:
  "\<exists>t. print_summary self = Inr t \<and> written_files t = [] \<and> rendered t = [] \<and>
       complete_reports t = []"
proof (cases "profiling_data self = []")
  case True
  then show ?thesis by (simp add: print_summary_def written_files_simps)
next
  case False
  from best_impl_index [OF False] obtain b where
    "summary_best_impl (profiling_data self) = Inr b" by blast
  from print_summary_shows [OF False this] have
    "print_summary self =
           Inr ([Print SummaryHeader]
                @ map (\<lambda>(impl, m). Print (ImplSummary impl m)) (profiling_data self)
                @ [Print Rule, Print (BestSummary (fst b) (snd b)), Print Rule])" .
  moreover have "written_files (map (\<lambda>(impl, m). Print (ImplSummary impl m)) pd) = []" for pd
    by (induction pd) (auto simp: written_files_simps)
  moreover have "rendered (map (\<lambda>(impl, m). Print (ImplSummary impl m)) pd) = []" for pd
    by (induction pd) auto
  moreover have "complete_reports (map (\<lambda>(impl, m). Print (ImplSummary impl m)) pd) = []" for pd
    by (induction pd) auto
  ultimately show ?thesis
    by (simp add: written_files_append rendered_append complete_reports_append
        written_files_simps)
qed

text \<open>
  The report stage: both selected renderers run, and the run ends with status 1 exactly
  when the JSON renderer is selected and meets a key it cannot encode.
\<close>

lemma run_reports_result:
  "\<exists>t'. run_reports a out an t
          = (t @ t', if wants_json a \<and> \<not> list_all json_key (map fst (profiling_data an))
                     then 1 else 0) \<and>
        written_files t' =
          (if wants_markdown a then [path_join out ''profiling_report.md''] else []) @
          (if wants_json a then [path_join out ''profiling_data.json''] else []) \<and>
        rendered t' =
          (if wants_markdown a then [''markdown''] else []) @
          (if wants_json a then [''json''] else []) \<and>
        complete_reports t' =
          (if wants_markdown a then [path_join out ''profiling_report.md''] else []) @
          (if wants_json a \<and> list_all json_key (map fst (profiling_data an))
           then [path_join out ''profiling_data.json''] else [])"
proof -
  obtain doc where md: "generate_markdown_report an (path_join out ''profiling_report.md'')
      = Inr [WriteFile (path_join out ''profiling_report.md'') (MarkdownDoc doc),
             Print (MsgReportGenerated (path_join out ''profiling_report.md''))]"
    using generate_markdown_report_ok by blast
  obtain ps where ps: "print_summary an = Inr ps" "written_files ps = []" "rendered ps = []"
    "complete_reports ps = []"
    using print_summary_ok by blast
  show ?thesis
  proof (cases "list_all json_key (map fst (profiling_data an))")
    case True
    from generate_json_report_ok [OF True] obtain jdoc where
      js: "generate_json_report an (path_join out ''profiling_data.json'')
      = Inr [WriteFile (path_join out ''profiling_data.json'') (JsonDoc jdoc),
             Print (MsgJsonGenerated (path_join out ''profiling_data.json''))]"
      by blast
    show ?thesis
      unfolding run_reports_def md js ps
      using True
      by (simp add: written_files_append rendered_append complete_reports_append ps
          written_files_simps)
  next
    case False
    show ?thesis
      unfolding run_reports_def md generate_json_report_error [OF False] ps
      using False
      by (simp add: written_files_append rendered_append complete_reports_append ps
          written_files_simps)
  qed
qed

lemma written_files_make_output_dir: "written_files (make_output_dir ev d) = []"
  by (simp add: make_output_dir_def written_files_simps)

lemma rendered_make_output_dir: "rendered (make_output_dir ev d) = []"
  by (simp add: make_output_dir_def)

lemma complete_reports_make_output_dir: "complete_reports (make_output_dir ev d) = []"
  by (simp add: make_output_dir_def)

lemma main_not_found:
  assumes "file_at ev (arg_csv_file a) = NotFound"
  shows "snd (main ev a) = 1" "written_files (fst (main ev a)) = []" "rendered (fst (main ev a)) = []"
  using assms
  by (simp_all add: main_def Let_def load_results_def read_csv_def init_def written_files_simps
      written_files_append rendered_append written_files_make_output_dir rendered_make_output_dir)

lemma main_unreadable:
  assumes "file_at ev (arg_csv_file a) = Unreadable"
  shows "snd (main ev a) = 1" "written_files (fst (main ev a)) = []" "rendered (fst (main ev a)) = []"
  using assms
  by (simp_all add: main_def Let_def load_results_def read_csv_def init_def written_files_simps
      written_files_append rendered_append written_files_make_output_dir rendered_make_output_dir)

lemma main_loaded:
  assumes "file_at ev (arg_csv_file a) = Table df"
  shows "main ev a =
           (case analyze_performance ((init (arg_csv_file a) (arg_rocprof a))\<lparr>results_df := Some df\<rparr>) of
              Inl e \<Rightarrow> (make_output_dir ev (out_dir a) @ [Print (MsgLoaded (arg_csv_file a))],
                        exit_status e)
            | Inr (res, an2, t2) \<Rightarrow>
                run_reports a (out_dir a) an2
                  (make_output_dir ev (out_dir a) @ [Print (MsgLoaded (arg_csv_file a))] @ t2))"
  using assms by (simp add: main_def Let_def load_results_def read_csv_def init_def)

lemma main_analysis_error:
  assumes "file_at ev (arg_csv_file a) = Table df"
    and "analyze_performance ((init (arg_csv_file a) (arg_rocprof a))\<lparr>results_df := Some df\<rparr>) = Inl e"
  shows "snd (main ev a) = 1" "written_files (fst (main ev a)) = []" "rendered (fst (main ev a)) = []"
proof -
  from analyze_performance_error [OF assms(2)]
  have "exit_status e = 1" by auto
  then show "snd (main ev a) = 1" "written_files (fst (main ev a)) = []"
    "rendered (fst (main ev a)) = []"
    using assms
    by (simp_all add: main_loaded written_files_append rendered_append written_files_simps
        written_files_make_output_dir rendered_make_output_dir)
qed

lemma main_reports:
  assumes "file_at ev (arg_csv_file a) = Table df"
    and "analyze_performance ((init (arg_csv_file a) (arg_rocprof a))\<lparr>results_df := Some df\<rparr>)
           = Inr (res, an2, t2)"
  shows "snd (main ev a) =
       (if wants_json a \<and> \<not> list_all json_key (map fst (profiling_data an2)) then 1 else 0)"
    "written_files (fst (main ev a)) =
       (if wants_markdown a then [path_join (out_dir a) ''profiling_report.md''] else []) @
       (if wants_json a then [path_join (out_dir a) ''profiling_data.json''] else [])"
    "rendered (fst (main ev a)) =
       (if wants_markdown a then [''markdown''] else []) @
       (if wants_json a then [''json''] else [])"
    "complete_reports (fst (main ev a)) =
       (if wants_markdown a then [path_join (out_dir a) ''profiling_report.md''] else []) @
       (if wants_json a \<and> list_all json_key (map fst (profiling_data an2))
        then [path_join (out_dir a) ''profiling_data.json''] else [])"
proof -
  let ?t = "make_output_dir ev (out_dir a) @ [Print (MsgLoaded (arg_csv_file a))] @ t2"
  let ?st = "if wants_json a \<and> \<not> list_all json_key (map fst (profiling_data an2))
             then 1 else 0 :: int"
  have t2: "t2 = []" using analyze_performance_result(3) [OF _ assms(2)] by simp
  from run_reports_result [of a "out_dir a" an2 ?t] obtain t' where
    r: "run_reports a (out_dir a) an2 ?t = (?t @ t', ?st)"
    and w: "written_files t' =
          (if wants_markdown a then [path_join (out_dir a) ''profiling_report.md''] else []) @
          (if wants_json a then [path_join (out_dir a) ''profiling_data.json''] else [])"
    and rd: "rendered t' =
          (if wants_markdown a then [''markdown''] else []) @
          (if wants_json a then [''json''] else [])"
    and cr: "complete_reports t' =
          (if wants_markdown a then [path_join (out_dir a) ''profiling_report.md''] else []) @
          (if wants_json a \<and> list_all json_key (map fst (profiling_data an2))
           then [path_join (out_dir a) ''profiling_data.json''] else [])"
    by blast
  have m: "main ev a = (?t @ t', ?st)" using assms r by (simp add: main_loaded)
  show "snd (main ev a) = ?st" by (simp add: m)
  show "written_files (fst (main ev a)) =
       (if wants_markdown a then [path_join (out_dir a) ''profiling_report.md''] else []) @
       (if wants_json a then [path_join (out_dir a) ''profiling_data.json''] else [])"
    unfolding m fst_conv written_files_append w t2
    by (simp add: written_files_make_output_dir written_files_simps)
  show "rendered (fst (main ev a)) =
       (if wants_markdown a then [''markdown''] else []) @
       (if wants_json a then [''json''] else [])"
    unfolding m fst_conv rendered_append rd t2
    by (simp add: rendered_make_output_dir)
  show "complete_reports (fst (main ev a)) =
       (if wants_markdown a then [path_join (out_dir a) ''profiling_report.md''] else []) @
       (if wants_json a \<and> list_all json_key (map fst (profiling_data an2))
        then [path_join (out_dir a) ''profiling_data.json''] else [])"
    unfolding m fst_conv complete_reports_append cr t2
    by (simp add: complete_reports_make_output_dir)
qed

section \<open>The example runs\<close>

lemma scenario_nonzero: "\<forall>r \<in> set scenario_table. fmul (Avg_ms r) lit_1e_3 \<noteq> Fin 0"
  by (rule nonzero_products)
     (simp add: scenario_table_def lit_2_3 [simplified] lit_1_6 [simplified])

lemma scenario_present: "\<forall>r \<in> set scenario_table. \<not> missing (Implementation r)"
  by (simp add: scenario_table_def missing_def)

lemma env_with_file: "file_at (env_with c) (arg_csv_file (cli rp md js)) = c"
  by (simp add: env_with_def cli_def)

lemma analyze_scenario_init:
  "analyze_performance ((init ''results.csv'' rp)\<lparr>results_df := Some scenario_table\<rparr>)
   = Inr (Some scenario_analysis,
          (init ''results.csv'' rp)\<lparr>results_df := Some scenario_table,
                                     profiling_data := scenario_analysis\<rparr>, [])"
  by (simp add: analyze_performance_def init_def scenario_table_def scenario_analysis_def
      lit_2_1 [simplified] lit_2_4 [simplified] lit_2_3 [simplified] lit_1_5 [simplified]
      lit_1_8 [simplified] lit_1_6 [simplified] derive_Cons
      estimate_flops_1_6 [simplified] estimate_flops_2_3 [simplified] lit_5_0_def)

lemma analyze_int_name_init:
  "analyze_performance ((init ''results.csv'' rp)\<lparr>results_df := Some int_name_table\<rparr>)
   = Inr (Some int_name_analysis,
          (init ''results.csv'' rp)\<lparr>results_df := Some int_name_table,
                                     profiling_data := int_name_analysis\<rparr>, [])"
  by (simp add: analyze_performance_def init_def int_name_table_def int_name_analysis_def
      derive_Cons estimate_flops_NaN lit_5_0_def)

lemma analyze_missing_name_init:
  "analyze_performance ((init ''results.csv'' rp)\<lparr>results_df := Some missing_name_table\<rparr>)
   = Inl IndexError"
  by (simp add: analyze_performance_def init_def missing_name_table_def derive_Nil)

text \<open>The keys of a completed analysis are the names of the table.\<close>

lemma analysis_keys:
  assumes "analyze_performance (self\<lparr>results_df := Some df\<rparr>) = Inr (res, an2, t2)"
  shows "list_all json_key (map fst (profiling_data an2))
         \<longleftrightarrow> (\<forall>r \<in> set df. json_key (Implementation r))"
  using analyze_performance_result(4) [OF _ assms] by (simp add: list_all_iff)

lemma main_env_cong:
  fixes ev ev' :: env
  assumes "file_at ev' (arg_csv_file a) = file_at ev (arg_csv_file a)"
    and "path_exists ev' = path_exists ev"
  shows "main ev' a = main ev a"
  using assms
  by (simp add: main_def Let_def load_results_def read_csv_def init_def make_output_dir_def)

lemma analyze_zero_init:
  "analyze_performance ((init ''results.csv'' rp)\<lparr>results_df := Some zero_table\<rparr>)
   = Inl ZeroDivisionError"
  by (simp add: analyze_performance_def init_def zero_table_def derive_Cons estimate_flops_zero)

section \<open>Binary64 values\<close>

text \<open>Rounding is idempotent: every result of an operation is a binary64 value.\<close>

lemma rnd_idem_pos:
  assumes "0 < x"
  shows "rnd (rnd x) = rnd x"
proof -
  define E where "E = max (flog2 x) (- 1022)"
  define y where "y = rnd x"
  have u: "ulp x = 2 powi (E - 52)" using assms by (simp add: ulp_eq E_def)
  have y_eq: "y = of_int (rhe (x / ulp x)) * ulp x" by (simp add: y_def rnd_def)
  have y_le: "y \<le> 2 powi (E + 1)" using rnd_upper [OF assms] by (simp add: y_def E_def)
  have y_ge: "0 \<le> y" using rnd_nonneg [of x] assms by (simp add: y_def)
  show ?thesis
  proof (cases "y = 0")
    case True
    then show ?thesis by (simp add: y_def [symmetric] rnd_0)
  next
    case False
    with y_ge have ypos: "0 < y" by simp
    show ?thesis
    proof (cases "y < 2 powi (E + 1)")
      case True
      have "max (flog2 y) (- 1022) = E"
      proof (cases "- 1022 \<le> flog2 x")
        case True
        then have e: "E = flog2 x" by (simp add: E_def)
        have "2 powi E \<le> y" using rnd_lower [OF assms True] by (simp add: y_def e)
        then have "flog2 y = E" using \<open>y < 2 powi (E + 1)\<close> by (rule flog2_unique)
        then show ?thesis using True e by simp
      next
        case False
        then have e: "E = - 1022" by (simp add: E_def)
        have "y < 2 powi (- 1022 + 1)" using True by (simp add: e)
        then have "flog2 y \<le> - 1022"
          using pow2_binade_unique [OF flog2_bounds(1) [OF ypos]] by blast
        then show ?thesis by (simp add: e)
      qed
      then have "ulp y = ulp x" using ypos by (simp add: ulp_eq u)
      moreover have "y / ulp x = of_int (rhe (x / ulp x))"
        using ulp_pos [of x] by (simp add: y_eq)
      ultimately have "rnd y = of_int (rhe (of_int (rhe (x / ulp x)))) * ulp x"
        by (simp add: rnd_def)
      then show ?thesis by (simp add: rhe_of_int y_eq y_def [symmetric])
    next
      case False
      with y_le have top: "y = 2 powi (E + 1)" by simp
      have "2 powi (E + 1) \<le> y" "y < 2 powi (E + 1 + 1)"
        by (simp_all add: top power_int_add)
      then have "flog2 y = E + 1" by (rule flog2_unique)
      moreover have "- 1022 \<le> E" by (simp add: E_def)
      ultimately have uy: "ulp y = 2 powi (E + 1 - 52)" using ypos by (simp add: ulp_eq max_def)
      have "y = of_int (2 ^ 52) * ulp y"
        unfolding uy by (subst top) (rule pow2_52)
      then have "y / ulp y = of_int (2 ^ 52)"
        using ulp_pos [of y] by (simp add: field_simps)
      then have "rhe (y / ulp y) = 2 ^ 52" by (simp only: rhe_of_int)
      then have "rnd y = of_int (2 ^ 52) * 2 powi (E + 1 - 52)" by (simp add: rnd_def uy)
      also have "\<dots> = y" unfolding top by (rule pow2_52 [symmetric])
      finally show ?thesis by (simp add: y_def)
    qed
  qed
qed

lemma rnd_idem: "rnd (rnd x) = rnd x"
proof -
  consider "0 < x" | "x = 0" | "x < 0" by linarith
  then show ?thesis
  proof cases
    case 1
    then show ?thesis by (rule rnd_idem_pos)
  next
    case 2
    then show ?thesis by (simp add: rnd_0)
  next
    case 3
    then have "rnd (rnd (- x)) = rnd (- x)" by (intro rnd_idem_pos) simp
    then show ?thesis by (simp add: rnd_minus)
  qed
qed

lemma round64_idem: "round64 x = Fin y \<Longrightarrow> round64 y = Fin y"
proof -
  assume a: "round64 x = Fin y"
  then have y: "y = rnd x" and b: "\<not> 2 ^ 1024 \<le> \<bar>rnd x\<bar>"
    by (auto simp: round64_def Let_def split: if_splits)
  have "rnd y = y" by (simp add: y rnd_idem)
  then show ?thesis using b y by (simp add: round64_def Let_def)
qed

lemma is_float_round64: "is_float (round64 x)"
  by (cases "round64 x") (simp_all add: is_float_def round64_idem)

lemma is_float_fmul: "is_float (fmul a b)"
  by (cases a; cases b) (simp_all add: is_float_round64, simp_all add: is_float_def)

lemma is_float_fdiv: "fdiv a b = Inr q \<Longrightarrow> is_float q"
proof (cases "\<exists>x y. a = Fin x \<and> b = Fin y")
  case True
  then obtain x y where "a = Fin x" "b = Fin y" by blast
  moreover assume "fdiv a b = Inr q"
  ultimately have "q = round64 (x / y)" by (simp split: if_splits)
  then show ?thesis by (simp add: is_float_round64)
next
  case False
  moreover assume "fdiv a b = Inr q"
  ultimately show ?thesis
    by (cases a; cases b) (auto simp: is_float_def round64_0 split: if_splits)
qed

lemma is_float_small_ints:
  "is_float (Fin 0)" "is_float (Fin 1)" "is_float (Fin 2)" "is_float (Fin 5)" "is_float (Fin 9)"
proof -
  show "is_float (Fin 0)" by (simp add: is_float_def round64_0)
  have "round64 1 = Fin (of_int (2 ^ 52) * 2 powi (0 - 52))"
    by (rule round64_eqI) simp_all
  then show "is_float (Fin 1)" by (simp add: is_float_def)
  have "round64 2 = Fin (of_int (2 ^ 52) * 2 powi (1 - 52))"
    by (rule round64_eqI) simp_all
  then show "is_float (Fin 2)" by (simp add: is_float_def)
  have "round64 5 = Fin (of_int (5 * 2 ^ 50) * 2 powi (2 - 52))"
    by (rule round64_eqI) simp_all
  then show "is_float (Fin 5)" by (simp add: is_float_def)
  have "round64 9 = Fin (of_int (9 * 2 ^ 49) * 2 powi (3 - 52))"
    by (rule round64_eqI) simp_all
  then show "is_float (Fin 9)" by (simp add: is_float_def)
qed

lemma is_float_min_subnormal: "is_float (Fin (2 powi (- 1074)))"
proof -
  have "round64 (2 powi (- 1074)) = Fin (of_int 1 * 2 powi (- 1074))"
    by (rule round64_subnormal_eqI) simp_all
  then show ?thesis by (simp add: is_float_def)
qed

lemma well_formed_tables:
  "list_all well_formed scenario_table" "list_all well_formed duplicate_table"
  "list_all well_formed boundary_table" "list_all well_formed nan_table"
  "list_all well_formed underflow_table" "list_all well_formed zero_table"
  "list_all well_formed missing_name_table" "list_all well_formed int_name_table"
  using is_float_min_subnormal
  by (simp_all add: well_formed_def scenario_table_def duplicate_table_def boundary_table_def
      nan_table_def underflow_table_def zero_table_def missing_name_table_def
      int_name_table_def is_float_round64 is_float_small_ints)
     (simp_all add: is_float_def)

section \<open>Accuracy of the estimate\<close>

lemma rnd_error: "\<bar>rnd x - x\<bar> \<le> ulp x / 2"
proof -
  have "\<bar>of_int (rhe (x / ulp x)) - x / ulp x\<bar> * ulp x \<le> 1 / 2 * ulp x"
    using rhe_near [of "x / ulp x"] ulp_pos [of x] by (intro mult_right_mono) simp_all
  moreover have "\<bar>of_int (rhe (x / ulp x)) - x / ulp x\<bar> * ulp x = \<bar>rnd x - x\<bar>"
  proof -
    have "rnd x - x = (of_int (rhe (x / ulp x)) - x / ulp x) * ulp x"
      using ulp_pos [of x] by (simp add: rnd_def field_simps)
    then show ?thesis using ulp_pos [of x] by (simp add: abs_mult)
  qed
  ultimately show ?thesis by simp
qed

text \<open>In the normal range a rounding is finite and off by a relative \<open>2^-53\<close> at most.\<close>

lemma round64_rel:
  assumes "2 powi (- 1022) \<le> x" "x < 2 powi 1023"
  shows "\<exists>y. round64 x = Fin y \<and> x * (1 - 2 powi (- 53)) \<le> y \<and> y \<le> x * (1 + 2 powi (- 53))"
proof -
  have "0 < (2::real) powi (- 1022)" by simp
  with assms(1) have pos: "0 < x" by linarith
  define e where "e = flog2 x"
  have lo: "2 powi e \<le> x" and hi: "x < 2 powi (e + 1)"
    using flog2_bounds [OF pos] by (simp_all add: e_def)
  have e_lo: "- 1022 \<le> e" using pow2_binade_unique [OF assms(1) hi] .
  have e_hi: "e \<le> 1022" using pow2_binade_unique [OF lo, of 1022] assms(2) by simp
  have u: "ulp x = 2 powi (e - 52)" using pos e_lo by (simp add: ulp_eq e_def max_def)
  have half: "ulp x / 2 = 2 powi (- 53) * 2 powi e"
  proof -
    have "(2::real) powi (e - 52) = 2 powi (- 52) * 2 powi e"
      by (rule pow2_split) simp
    moreover have "(2::real) powi (- 52) / 2 = 2 powi (- 53)"
      using pow2_split [of "- 52" "- 53" 1] by simp
    ultimately show ?thesis by (simp add: u)
  qed
  have "ulp x / 2 \<le> 2 powi (- 53) * x"
    unfolding half using lo by (intro mult_left_mono) simp_all
  with rnd_error [of x] have err: "\<bar>rnd x - x\<bar> \<le> 2 powi (- 53) * x" by linarith
  have "rnd x \<le> 2 powi (e + 1)"
    using rnd_upper [OF pos] e_lo by (simp add: e_def max_def)
  also have "\<dots> \<le> 2 powi 1023" using e_hi by (intro power_int_increasing) simp_all
  also have "\<dots> < (2::real) ^ 1024" by simp
  finally have "rnd x < 2 ^ 1024" .
  moreover have "0 \<le> rnd x" using rnd_nonneg [of x] pos by simp
  ultimately have "round64 x = Fin (rnd x)" by (simp add: round64_def Let_def)
  moreover have "x * (1 - eps) \<le> rnd x \<and> rnd x \<le> x * (1 + eps)"
    if "\<bar>rnd x - x\<bar> \<le> eps * x" for eps
  proof -
    define t where "t = eps * x"
    have "x * (1 - eps) = x - t" "x * (1 + eps) = x + t"
      by (simp_all add: algebra_simps t_def)
    moreover have "\<bar>rnd x - x\<bar> \<le> t" using that by (simp add: t_def)
    then have "- t \<le> rnd x - x" "rnd x - x \<le> t" by (simp_all add: abs_le_iff)
    ultimately show ?thesis by simp
  qed
  ultimately show ?thesis using err by blast
qed

lemma pow2_quot: "(2::real) powi a / 2 powi b = 2 powi (a - b)"
  by (simp add: power_int_diff)

text \<open>
  For an average in a wide range the computed estimate is finite and agrees with the
  exact quotient up to a relative \<open>2^-50\<close>.
\<close>

lemma estimate_flops_accuracy:
  assumes "2 powi (- 500) \<le> a" "a \<le> 2 powi 500"
  shows "\<exists>v. estimate_flops (Fin a) = Inr (Fin v) \<and>
             \<bar>v - (4 * 341 ^ 3 / 3) / (a * (1 / 10 ^ 3)) / 10 ^ 9\<bar>
               \<le> 2 powi (- 50) * ((4 * 341 ^ 3 / 3) / (a * (1 / 10 ^ 3)) / 10 ^ 9)"
proof -
  define eps :: real where "eps = 2 powi (- 53)"
  define k :: real where "k = 4611686018427388 / 2 ^ 62"
  define k0 :: real where "k0 = 1 / 10 ^ 3"
  define C :: real where "C = 7095969767576917 / 2 ^ 27"
  define C0 :: real where "C0 = 4 * 341 ^ 3 / 3"
  define D :: real where "D = 10 ^ 9"
  define I where "I = C0 / (a * k0) / D"
  have "0 < (2::real) powi (- 500)" by simp
  with assms(1) have apos: "0 < a" by linarith
  have eps: "0 < eps" "eps < 1" "2 powi (- 1) \<le> 1 - eps" "1 + eps \<le> 2"
    by (simp_all add: eps_def)
  have kb: "2 powi (- 10) \<le> k" "k \<le> 1" "0 < k" by (simp_all add: k_def)
  have k0b: "0 < k0" "k0 * (1 - eps) \<le> k" "k \<le> k0 * (1 + eps)"
    by (simp_all add: k_def k0_def eps_def)
  have Cb: "2 powi 25 \<le> C" "C \<le> 2 powi 26" "0 < C" by (simp_all add: C_def)
  have C0b: "0 < C0" "C0 * (1 - eps) \<le> C" "C \<le> C0 * (1 + eps)"
    by (simp_all add: C_def C0_def eps_def)
  have Db: "0 < D" "D \<le> 2 powi 30" "1 \<le> D" by (simp_all add: D_def)
  \<comment> \<open>the product\<close>
  have ak_lo: "2 powi (- 510) \<le> a * k"
  proof -
    have "(2::real) powi (- 510) = 2 powi (- 500) * 2 powi (- 10)" by (rule pow2_split) simp
    also have "\<dots> \<le> a * k" using assms(1) kb(1) by (intro mult_mono) simp_all
    finally show ?thesis .
  qed
  have ak_hi: "a * k \<le> 2 powi 500"
  proof -
    have "a * k \<le> 2 powi 500 * 1" using assms(2) kb apos by (intro mult_mono) simp_all
    then show ?thesis by simp
  qed
  have ak: "0 < a * k" using apos kb(3) by simp
  have x1_lo: "2 powi (- 1022) \<le> a * k"
  proof -
    have "(2::real) powi (- 1022) \<le> 2 powi (- 510)" by (intro power_int_increasing) simp_all
    with ak_lo show ?thesis by linarith
  qed
  have x1_hi: "a * k < 2 powi 1023"
  proof -
    have "(2::real) powi 500 < 2 powi 1023" by (intro power_int_strict_increasing) simp_all
    with ak_hi show ?thesis by linarith
  qed
  from round64_rel [OF x1_lo x1_hi] obtain p where
    p: "round64 (a * k) = Fin p" "a * k * (1 - eps) \<le> p" "p \<le> a * k * (1 + eps)"
    by (auto simp: eps_def)
  have p_lo: "2 powi (- 511) \<le> p"
  proof -
    have "(2::real) powi (- 511) = 2 powi (- 510) * 2 powi (- 1)" by (rule pow2_split) simp
    also have "\<dots> \<le> (a * k) * (1 - eps)"
      using ak_lo eps(3) ak by (intro mult_mono) simp_all
    also have "\<dots> \<le> p" using p(2) .
    finally show ?thesis .
  qed
  have ppos: "0 < p"
  proof -
    have "0 < (2::real) powi (- 511)" by simp
    with p_lo show ?thesis by linarith
  qed
  have p_hi: "p \<le> 2 powi 501"
  proof -
    have "p \<le> (a * k) * (1 + eps)" using p(3) .
    also have "\<dots> \<le> 2 powi 500 * 2"
      using ak_hi eps ak by (intro mult_mono) simp_all
    also have "\<dots> = (2::real) powi 501" using pow2_split [of 501 500 1] by simp
    finally show ?thesis .
  qed
  \<comment> \<open>the first quotient\<close>
  have cp_lo: "2 powi (- 476) \<le> C / p"
  proof -
    have "(2::real) powi (- 476) = 2 powi 25 / 2 powi 501" by (simp only: pow2_quot) simp
    also have "\<dots> \<le> C / p" using Cb p_hi ppos by (intro frac_le) simp_all
    finally show ?thesis .
  qed
  have cp_hi: "C / p \<le> 2 powi 537"
  proof -
    have "C / p \<le> 2 powi 26 / 2 powi (- 511)" using Cb p_lo by (intro frac_le) simp_all
    also have "\<dots> = (2::real) powi 537" by (simp only: pow2_quot) simp
    finally show ?thesis .
  qed
  have cp: "0 < C / p" using Cb(3) ppos by simp
  have x2_lo: "2 powi (- 1022) \<le> C / p"
  proof -
    have "(2::real) powi (- 1022) \<le> 2 powi (- 476)" by (intro power_int_increasing) simp_all
    with cp_lo show ?thesis by linarith
  qed
  have x2_hi: "C / p < 2 powi 1023"
  proof -
    have "(2::real) powi 537 < 2 powi 1023" by (intro power_int_strict_increasing) simp_all
    with cp_hi show ?thesis by linarith
  qed
  from round64_rel [OF x2_lo x2_hi] obtain q where
    q: "round64 (C / p) = Fin q" "C / p * (1 - eps) \<le> q" "q \<le> C / p * (1 + eps)"
    by (auto simp: eps_def)
  have q_lo: "2 powi (- 477) \<le> q"
  proof -
    have "(2::real) powi (- 477) = 2 powi (- 476) * 2 powi (- 1)" by (rule pow2_split) simp
    also have "\<dots> \<le> (C / p) * (1 - eps)"
    proof (rule mult_mono)
      show "2 powi (- 476) \<le> C / p" by (rule cp_lo)
      show "2 powi (- 1) \<le> 1 - eps" by (rule eps(3))
      show "0 \<le> C / p" using cp by (rule less_imp_le)
      show "0 \<le> (2::real) powi (- 1)" by simp
    qed
    also have "\<dots> \<le> q" using q(2) .
    finally show ?thesis .
  qed
  have qpos: "0 < q"
  proof -
    have "0 < (2::real) powi (- 477)" by simp
    with q_lo show ?thesis by linarith
  qed
  have q_hi: "q \<le> 2 powi 538"
  proof -
    have "q \<le> (C / p) * (1 + eps)" using q(3) .
    also have "\<dots> \<le> 2 powi 537 * 2"
    proof (rule mult_mono)
      show "C / p \<le> 2 powi 537" by (rule cp_hi)
      show "1 + eps \<le> 2" by (rule eps(4))
      show "0 \<le> (2::real) powi 537" by simp
      show "0 \<le> 1 + eps" using eps(1) by simp
    qed
    also have "\<dots> = (2::real) powi 538" using pow2_split [of 538 537 1] by simp
    finally show ?thesis .
  qed
  \<comment> \<open>the second quotient\<close>
  have x3_lo: "2 powi (- 1022) \<le> q / D"
  proof -
    have "(2::real) powi (- 1022) \<le> 2 powi (- 507)" by (intro power_int_increasing) simp_all
    also have "\<dots> = 2 powi (- 477) / 2 powi 30" by (simp only: pow2_quot) simp
    also have "\<dots> \<le> q / D" using q_lo Db qpos by (intro frac_le) simp_all
    finally show ?thesis .
  qed
  have x3_hi: "q / D < 2 powi 1023"
  proof -
    have "q / D \<le> q / 1" using Db qpos by (intro frac_le) simp_all
    also have "\<dots> \<le> 2 powi 538" using q_hi by simp
    also have "\<dots> < (2::real) powi 1023" by (intro power_int_strict_increasing) simp_all
    finally show ?thesis .
  qed
  from round64_rel [OF x3_lo x3_hi] obtain v where
    v: "round64 (q / D) = Fin v" "q / D * (1 - eps) \<le> v" "v \<le> q / D * (1 + eps)"
    by (auto simp: eps_def)
  \<comment> \<open>what the code computes\<close>
  have "fmul (Fin a) lit_1e_3 = Fin p" using p(1) by (simp add: lit_1e_3_val k_def)
  moreover have "fdiv (Fin (7095969767576917 / 2 ^ 27)) (Fin p) = Inr (Fin q)"
    using q(1) ppos by (simp add: C_def)
  moreover have "fdiv (Fin q) lit_1e9 = Inr (Fin v)"
    using v(1) by (simp add: lit_1e9_def D_def)
  ultimately have est: "estimate_flops (Fin a) = Inr (Fin v)"
    using ppos by (simp add: estimate_flops_eq)
  \<comment> \<open>the bounds\<close>
  have le1: "0 < 1 - eps" "0 < 1 + eps" using eps by simp_all
  have Ipos: "0 < I" using C0b(1) apos k0b(1) Db(1) by (simp add: I_def)
  have den_lo: "a * k0 * (1 - eps) * (1 - eps) \<le> p"
  proof -
    have "a * (k0 * (1 - eps)) \<le> a * k" using k0b(2) apos by (intro mult_left_mono) simp_all
    then have "a * (k0 * (1 - eps)) * (1 - eps) \<le> a * k * (1 - eps)"
      using le1 by (intro mult_right_mono) simp_all
    with p(2) show ?thesis by (simp add: mult.assoc)
  qed
  have den_hi: "p \<le> a * k0 * (1 + eps) * (1 + eps)"
  proof -
    have "a * k \<le> a * (k0 * (1 + eps))" using k0b(3) apos by (intro mult_left_mono) simp_all
    then have "a * k * (1 + eps) \<le> a * (k0 * (1 + eps)) * (1 + eps)"
      using le1 by (intro mult_right_mono) simp_all
    with p(3) show ?thesis by (simp add: mult.assoc)
  qed
  have den_pos: "0 < a * k0 * (1 - eps) * (1 - eps)" using apos k0b(1) le1 by simp
  have up: "v \<le> I * ((1 + eps) ^ 3 / (1 - eps) ^ 2)"
  proof -
    have "C / p \<le> C0 * (1 + eps) / (a * k0 * (1 - eps) * (1 - eps))"
      using C0b(3) den_lo den_pos Cb(3) by (intro frac_le) simp_all
    then have "C / p * (1 + eps) \<le> C0 * (1 + eps) / (a * k0 * (1 - eps) * (1 - eps)) * (1 + eps)"
      using le1 by (intro mult_right_mono) simp_all
    with q(3) have "q \<le> C0 * (1 + eps) / (a * k0 * (1 - eps) * (1 - eps)) * (1 + eps)" by linarith
    then have "q / D \<le> C0 * (1 + eps) / (a * k0 * (1 - eps) * (1 - eps)) * (1 + eps) / D"
      using Db(1) by (intro divide_right_mono) simp_all
    then have "q / D * (1 + eps)
        \<le> C0 * (1 + eps) / (a * k0 * (1 - eps) * (1 - eps)) * (1 + eps) / D * (1 + eps)"
      using le1 by (intro mult_right_mono) simp_all
    with v(3) have "v \<le> C0 * (1 + eps) / (a * k0 * (1 - eps) * (1 - eps)) * (1 + eps) / D * (1 + eps)"
      by linarith
    also have "\<dots> = I * ((1 + eps) ^ 3 / (1 - eps) ^ 2)"
      by (simp add: I_def power2_eq_square power3_eq_cube mult_ac)
    finally show ?thesis .
  qed
  have lo: "I * ((1 - eps) ^ 3 / (1 + eps) ^ 2) \<le> v"
  proof -
    have "C0 * (1 - eps) / (a * k0 * (1 + eps) * (1 + eps)) \<le> C / p"
    proof (rule frac_le)
      show "0 \<le> C" using Cb(3) by (rule less_imp_le)
      show "C0 * (1 - eps) \<le> C" by (rule C0b(2))
      show "0 < p" by (rule ppos)
      show "p \<le> a * k0 * (1 + eps) * (1 + eps)" by (rule den_hi)
    qed
    then have "C0 * (1 - eps) / (a * k0 * (1 + eps) * (1 + eps)) * (1 - eps) \<le> C / p * (1 - eps)"
      using le1 by (intro mult_right_mono) simp_all
    with q(2) have "C0 * (1 - eps) / (a * k0 * (1 + eps) * (1 + eps)) * (1 - eps) \<le> q" by linarith
    then have "C0 * (1 - eps) / (a * k0 * (1 + eps) * (1 + eps)) * (1 - eps) / D \<le> q / D"
      using Db(1) by (intro divide_right_mono) simp_all
    then have "C0 * (1 - eps) / (a * k0 * (1 + eps) * (1 + eps)) * (1 - eps) / D * (1 - eps)
        \<le> q / D * (1 - eps)"
      using le1 by (intro mult_right_mono) simp_all
    with v(2) have "C0 * (1 - eps) / (a * k0 * (1 + eps) * (1 + eps)) * (1 - eps) / D * (1 - eps) \<le> v"
      by linarith
    moreover have "C0 * (1 - eps) / (a * k0 * (1 + eps) * (1 + eps)) * (1 - eps) / D * (1 - eps)
        = I * ((1 - eps) ^ 3 / (1 + eps) ^ 2)"
      by (simp add: I_def power2_eq_square power3_eq_cube mult_ac)
    ultimately show ?thesis by simp
  qed
  have num_up: "(1 + eps) ^ 3 / (1 - eps) ^ 2 \<le> 1 + 2 powi (- 50)"
    by (simp add: eps_def power_divide)
  have num_lo: "1 - 2 powi (- 50) \<le> (1 - eps) ^ 3 / (1 + eps) ^ 2"
    by (simp add: eps_def power_divide)
  have "v \<le> I * (1 + 2 powi (- 50))"
  proof -
    have "I * ((1 + eps) ^ 3 / (1 - eps) ^ 2) \<le> I * (1 + 2 powi (- 50))"
      using num_up Ipos by (intro mult_left_mono) simp_all
    with up show ?thesis by linarith
  qed
  moreover have "I * (1 - 2 powi (- 50)) \<le> v"
  proof -
    have "I * (1 - 2 powi (- 50)) \<le> I * ((1 - eps) ^ 3 / (1 + eps) ^ 2)"
      using num_lo Ipos by (intro mult_left_mono) simp_all
    with lo show ?thesis by linarith
  qed
  ultimately have "\<bar>v - I\<bar> \<le> 2 powi (- 50) * I"
  proof -
    define t where "t = 2 powi (- 50) * I"
    assume a1: "v \<le> I * (1 + 2 powi (- 50))" and a2: "I * (1 - 2 powi (- 50)) \<le> v"
    have "I * (1 + 2 powi (- 50)) = I + t" "I * (1 - 2 powi (- 50)) = I - t"
      by (simp_all add: t_def algebra_simps)
    with a1 a2 have "v \<le> I + t" "I - t \<le> v" by simp_all
    then have "\<bar>v - I\<bar> \<le> t" by (simp add: abs_le_iff)
    then show ?thesis by (simp add: t_def)
  qed
  then have "\<bar>v - (4 * 341 ^ 3 / 3) / (a * (1 / 10 ^ 3)) / 10 ^ 9\<bar>
               \<le> 2 powi (- 50) * ((4 * 341 ^ 3 / 3) / (a * (1 / 10 ^ 3)) / 10 ^ 9)"
    by (simp only: I_def C0_def k0_def D_def)
  with est show ?thesis by blast
qed

section \<open>The claims\<close>

subsection \<open>Selection of the best implementation\<close>

text \<open>
  C1, amended. On every non-empty analysis the markdown report and the console summary
  select the same entry and show it as the best implementation: one that no entry has a
  strictly smaller \<open>avg_ms\<close> than, and that no earlier entry is less than or equal to.
  When no \<open>avg_ms\<close> is NaN this is the entry with the minimum \<open>avg_ms\<close>, the first in
  insertion order among ties.
\<close>

theorem best_impl_selection:
  assumes "pd \<noteq> []"
  shows "\<exists>i < length pd.
           markdown_best_impl pd = Inr (pd ! i) \<and> summary_best_impl pd = Inr (pd ! i) \<and>
           (\<forall>j < length pd. \<not> flt (avg_ms (snd (pd ! j))) (avg_ms (snd (pd ! i)))) \<and>
           (\<forall>j < i. \<not> fle (avg_ms (snd (pd ! j))) (avg_ms (snd (pd ! i)))) \<and>
           ((\<forall>e \<in> set pd. avg_ms (snd e) \<noteq> NaN) \<longrightarrow>
              (\<forall>j < length pd. fle (avg_ms (snd (pd ! i))) (avg_ms (snd (pd ! j))))) \<and>
           (\<forall>self f. profiling_data self = pd \<longrightarrow>
              (\<exists>doc t. generate_markdown_report self f = Inr (WriteFile f (MarkdownDoc doc) # t) \<and>
                 doc ! 1 = MdKeyResults (fst (pd ! i)) (snd (pd ! i))) \<and>
              (\<exists>t. print_summary self = Inr t \<and>
                 Print (BestSummary (fst (pd ! i)) (snd (pd ! i))) \<in> set t))"
proof -
  from best_impl_index [OF assms] obtain i where i: "i < length pd"
    and sel: "markdown_best_impl pd = Inr (pd ! i)" "summary_best_impl pd = Inr (pd ! i)"
    and least: "\<forall>j < length pd. \<not> flt (avg_ms (snd (pd ! j))) (avg_ms (snd (pd ! i)))"
    and first: "\<forall>j < i. \<not> fle (avg_ms (snd (pd ! j))) (avg_ms (snd (pd ! i)))"
    by blast
  have "\<forall>j < length pd. fle (avg_ms (snd (pd ! i))) (avg_ms (snd (pd ! j)))"
    if nonan: "\<forall>e \<in> set pd. avg_ms (snd e) \<noteq> NaN"
  proof (intro allI impI)
    fix j assume j: "j < length pd"
    from nonan i j have "avg_ms (snd (pd ! i)) \<noteq> NaN" "avg_ms (snd (pd ! j)) \<noteq> NaN"
      by simp_all
    from fle_total [OF this] least j
    show "fle (avg_ms (snd (pd ! i))) (avg_ms (snd (pd ! j)))" by blast
  qed
  moreover have "\<forall>self f. profiling_data self = pd \<longrightarrow>
              (\<exists>doc t. generate_markdown_report self f = Inr (WriteFile f (MarkdownDoc doc) # t) \<and>
                 doc ! 1 = MdKeyResults (fst (pd ! i)) (snd (pd ! i))) \<and>
              (\<exists>t. print_summary self = Inr t \<and>
                 Print (BestSummary (fst (pd ! i)) (snd (pd ! i))) \<in> set t)"
  proof (intro allI impI conjI)
    fix self :: analyzer and f :: string
    assume pd: "profiling_data self = pd"
    show "\<exists>doc t. generate_markdown_report self f = Inr (WriteFile f (MarkdownDoc doc) # t) \<and>
                 doc ! 1 = MdKeyResults (fst (pd ! i)) (snd (pd ! i))"
      using markdown_report_shows [of self "pd ! i" f] assms sel pd by simp
    show "\<exists>t. print_summary self = Inr t \<and>
                 Print (BestSummary (fst (pd ! i)) (snd (pd ! i))) \<in> set t"
      using print_summary_shows [of self "pd ! i"] assms sel pd by simp
  qed
  ultimately show ?thesis using i sel least first by blast
qed

theorem best_impl_selection_witness:
  "tie_analysis \<noteq> [] \<and>
   (\<exists>i < length tie_analysis.
      markdown_best_impl tie_analysis = Inr (tie_analysis ! i) \<and>
      summary_best_impl tie_analysis = Inr (tie_analysis ! i) \<and>
      (\<forall>j < length tie_analysis.
         fle (avg_ms (snd (tie_analysis ! i))) (avg_ms (snd (tie_analysis ! j))))) \<and>
   markdown_best_impl tie_analysis = Inr (tie_analysis ! 1) \<and>
   fst (tie_analysis ! 1) = Str ''Y'' \<and>
   avg_ms (snd (tie_analysis ! 1)) = avg_ms (snd (tie_analysis ! 2))"
proof -
  have ne: "tie_analysis \<noteq> []" by (simp add: tie_analysis_def)
  have nonan: "\<forall>e \<in> set tie_analysis. avg_ms (snd e) \<noteq> NaN" by (simp add: tie_analysis_def)
  from best_impl_selection [OF ne] nonan
  have "\<exists>i < length tie_analysis.
      markdown_best_impl tie_analysis = Inr (tie_analysis ! i) \<and>
      summary_best_impl tie_analysis = Inr (tie_analysis ! i) \<and>
      (\<forall>j < length tie_analysis.
         fle (avg_ms (snd (tie_analysis ! i))) (avg_ms (snd (tie_analysis ! j))))"
    by blast
  moreover have "markdown_best_impl tie_analysis = Inr (tie_analysis ! 1)"
    by (simp add: markdown_best_impl_def py_min_def tie_analysis_def)
  moreover have "fst (tie_analysis ! 1) = Str ''Y''"
    "avg_ms (snd (tie_analysis ! 1)) = avg_ms (snd (tie_analysis ! 2))"
    by (simp_all add: tie_analysis_def)
  ultimately show ?thesis using ne by blast
qed

text \<open>
  C1 as stated fails when an \<open>avg_ms\<close> is NaN: in the analysis of \<open>nan_table\<close> both
  sites select \<open>A\<close>, whose average is NaN and not less than or equal to the average 1.0
  of \<open>B\<close>; with the same two entries in the other order they select \<open>B\<close>.
\<close>

theorem best_impl_nan_counterexample:
  "list_all well_formed nan_table \<and>
   analyze_performance (loaded nan_table)
     = Inr (Some nan_analysis, (loaded nan_table)\<lparr>profiling_data := nan_analysis\<rparr>, []) \<and>
   markdown_best_impl nan_analysis = Inr (nan_analysis ! 0) \<and>
   summary_best_impl nan_analysis = Inr (nan_analysis ! 0) \<and>
   fst (nan_analysis ! 0) = Str ''A'' \<and>
   avg_ms (snd (nan_analysis ! 0)) = NaN \<and>
   avg_ms (snd (nan_analysis ! 1)) = Fin 1 \<and>
   \<not> fle (avg_ms (snd (nan_analysis ! 0))) (avg_ms (snd (nan_analysis ! 1))) \<and>
   markdown_best_impl (rev nan_analysis) = Inr (nan_analysis ! 1) \<and>
   summary_best_impl (rev nan_analysis) = Inr (nan_analysis ! 1)"
  using analyze_nan well_formed_tables(4)
  by (simp add: markdown_best_impl_def summary_best_impl_def py_min_def nan_analysis_def)

subsection \<open>The target flag\<close>

text \<open>
  C2. For every entry of the analysis, \<open>target_met\<close> is exactly the strict comparison
  of the implementation's \<open>Avg_ms\<close> (the value of its first row) with 5.0; an average
  of exactly 5.0 does not meet the target.
\<close>

theorem target_met_strict:
  assumes "analyze_performance (self\<lparr>results_df := Some df\<rparr>) = Inr (res, self', t)"
  shows "\<forall>(n, m) \<in> set (profiling_data self').
           \<exists>r. find (\<lambda>r. Implementation r = n) df = Some r \<and> avg_ms m = Avg_ms r \<and>
               target_met m = flt (Avg_ms r) (Fin 5) \<and>
               (Avg_ms r = Fin 5 \<longrightarrow> \<not> target_met m)"
proof clarify
  fix n m assume nm: "(n, m) \<in> set (profiling_data self')"
  from analyze_performance_result(5) [OF _ assms] nm obtain r rs where
    f: "filter (\<lambda>r. Implementation r = n) df = r # rs" and d: "derive (r # rs) = Inr m"
    by fastforce
  from derive_Inr [OF d] have "avg_ms m = Avg_ms r" "target_met m = flt (Avg_ms r) (Fin 5)"
    by (simp_all add: lit_5_0_def)
  moreover have "find (\<lambda>r. Implementation r = n) df = Some r" using f by (rule filter_find_Cons)
  ultimately show "\<exists>r. find (\<lambda>r. Implementation r = n) df = Some r \<and> avg_ms m = Avg_ms r \<and>
               target_met m = flt (Avg_ms r) (Fin 5) \<and>
               (Avg_ms r = Fin 5 \<longrightarrow> \<not> target_met m)"
    by auto
qed

theorem target_met_strict_witness:
  "analyze_performance ((init ''results.csv'' None)\<lparr>results_df := Some boundary_table\<rparr>)
     = Inr (Some boundary_analysis,
            (loaded boundary_table)\<lparr>profiling_data := boundary_analysis\<rparr>, []) \<and>
   map (\<lambda>(n, m). (n, avg_ms m, target_met m, flt (avg_ms m) (Fin 5))) boundary_analysis
     = [(Str ''Edge'', Fin 5, False, False)]"
proof -
  have h: "analyze_performance ((init ''results.csv'' None)\<lparr>results_df := Some boundary_table\<rparr>)
     = Inr (Some boundary_analysis,
            (loaded boundary_table)\<lparr>profiling_data := boundary_analysis\<rparr>, [])"
    using analyze_boundary by (simp add: loaded_def)
  from target_met_strict [OF h] h show ?thesis
    by (simp add: boundary_analysis_def)
qed

subsection \<open>The throughput formula\<close>

text \<open>
  C3, amended. Every entry's \<open>flops\<close> is the specification's formula with \<open>N = 341\<close>,
  computed in float arithmetic on the entry's \<open>avg_ms\<close>; for an \<open>avg_ms\<close> between
  \<open>2^-500\<close> and \<open>2^500\<close> it is finite and within a relative \<open>2^-50\<close> of the exact
  quotient \<open>(4 * 341^3 / 3) / (avg_ms * 10^-3) / 10^9\<close>. In the reference scenario the
  value for \<open>Hybrid\<close> is \<open>581301843359901 / 2^44\<close>, within 1% of 33.04 GFLOPs.
\<close>

theorem estimated_gflops_formula:
  "(analyze_performance (self\<lparr>results_df := Some df\<rparr>) = Inr (res, self', t) \<longrightarrow>
      (\<forall>(n, m) \<in> set (profiling_data self').
         spec_estimated_gflops 341 (avg_ms m) = Inr (flops m) \<and>
         (\<forall>a. avg_ms m = Fin a \<and> 2 powi (- 500) \<le> a \<and> a \<le> 2 powi 500 \<longrightarrow>
            (\<exists>v. flops m = Fin v \<and>
               \<bar>v - (4 * 341 ^ 3 / 3) / (a * (1 / 10 ^ 3)) / 10 ^ 9\<bar>
                 \<le> 2 powi (- 50) * ((4 * 341 ^ 3 / 3) / (a * (1 / 10 ^ 3)) / 10 ^ 9))))) \<and>
   analyze_performance (loaded scenario_table)
     = Inr (Some scenario_analysis, (loaded scenario_table)\<lparr>profiling_data := scenario_analysis\<rparr>, []) \<and>
   map (\<lambda>(n, m). (n, flops m)) scenario_analysis
     = [(Str ''RocSOLVER'', Fin (3235071128263797 / 2 ^ 47)),
        (Str ''Hybrid'', Fin (581301843359901 / 2 ^ 44))] \<and>
   \<bar>581301843359901 / 2 ^ 44 - 3304 / 100\<bar> \<le> (1 / 100) * (3304 / 100 :: real)"
proof (intro conjI impI)
  assume a: "analyze_performance (self\<lparr>results_df := Some df\<rparr>) = Inr (res, self', t)"
  show "\<forall>(n, m) \<in> set (profiling_data self').
         spec_estimated_gflops 341 (avg_ms m) = Inr (flops m) \<and>
         (\<forall>a. avg_ms m = Fin a \<and> 2 powi (- 500) \<le> a \<and> a \<le> 2 powi 500 \<longrightarrow>
            (\<exists>v. flops m = Fin v \<and>
               \<bar>v - (4 * 341 ^ 3 / 3) / (a * (1 / 10 ^ 3)) / 10 ^ 9\<bar>
                 \<le> 2 powi (- 50) * ((4 * 341 ^ 3 / 3) / (a * (1 / 10 ^ 3)) / 10 ^ 9)))"
  proof (clarify, intro conjI allI impI)
    fix n m assume nm: "(n, m) \<in> set (profiling_data self')"
    from analyze_performance_result(5) [OF _ a] nm obtain r rs where
      d: "derive (r # rs) = Inr m" by fastforce
    from derive_Inr(3,5) [OF d] have e: "estimate_flops (avg_ms m) = Inr (flops m)" by simp
    then show "spec_estimated_gflops 341 (avg_ms m) = Inr (flops m)"
      by (simp add: estimate_flops_spec)
    fix x assume "avg_ms m = Fin x \<and> 2 powi (- 500) \<le> x \<and> x \<le> 2 powi 500"
    then have x: "avg_ms m = Fin x" "2 powi (- 500) \<le> x" "x \<le> 2 powi 500" by simp_all
    from estimate_flops_accuracy [OF x(2,3)] obtain v where
      v: "estimate_flops (Fin x) = Inr (Fin v)"
      "\<bar>v - (4 * 341 ^ 3 / 3) / (x * (1 / 10 ^ 3)) / 10 ^ 9\<bar>
         \<le> 2 powi (- 50) * ((4 * 341 ^ 3 / 3) / (x * (1 / 10 ^ 3)) / 10 ^ 9)"
      by blast
    from e x(1) v(1) have "flops m = Fin v" by simp
    with v(2) show "\<exists>v. flops m = Fin v \<and>
               \<bar>v - (4 * 341 ^ 3 / 3) / (x * (1 / 10 ^ 3)) / 10 ^ 9\<bar>
                 \<le> 2 powi (- 50) * ((4 * 341 ^ 3 / 3) / (x * (1 / 10 ^ 3)) / 10 ^ 9)"
      by blast
  qed
next
  show "analyze_performance (loaded scenario_table)
     = Inr (Some scenario_analysis, (loaded scenario_table)\<lparr>profiling_data := scenario_analysis\<rparr>, [])"
    by (rule analyze_scenario)
  show "map (\<lambda>(n, m). (n, flops m)) scenario_analysis
     = [(Str ''RocSOLVER'', Fin (3235071128263797 / 2 ^ 47)),
        (Str ''Hybrid'', Fin (581301843359901 / 2 ^ 44))]"
    by (simp add: scenario_analysis_def)
  show "\<bar>581301843359901 / 2 ^ 44 - 3304 / 100\<bar> \<le> (1 / 100) * (3304 / 100 :: real)"
    by simp
qed

theorem estimated_gflops_formula_witness:
  "analyze_performance ((init ''results.csv'' None)\<lparr>results_df := Some scenario_table\<rparr>)
     = Inr (Some scenario_analysis,
            (loaded scenario_table)\<lparr>profiling_data := scenario_analysis\<rparr>, []) \<and>
   map (\<lambda>(n, m). spec_estimated_gflops 341 (avg_ms m)) scenario_analysis
     = map (\<lambda>(n, m). Inr (flops m)) scenario_analysis \<and>
   map (\<lambda>(n, m). (n, avg_ms m, flops m)) scenario_analysis
     = [(Str ''RocSOLVER'', Fin (2589569785738035 / 2 ^ 50), Fin (3235071128263797 / 2 ^ 47)),
        (Str ''Hybrid'', Fin (3602879701896397 / 2 ^ 51), Fin (581301843359901 / 2 ^ 44))] \<and>
   2 powi (- 500) \<le> (3602879701896397 / 2 ^ 51 :: real) \<and>
   (3602879701896397 / 2 ^ 51 :: real) \<le> 2 powi 500 \<and>
   \<bar>581301843359901 / 2 ^ 44 - (4 * 341 ^ 3 / 3) / (3602879701896397 / 2 ^ 51 * (1 / 10 ^ 3)) / 10 ^ 9\<bar>
     \<le> (2 powi (- 50) * ((4 * 341 ^ 3 / 3) / (3602879701896397 / 2 ^ 51 * (1 / 10 ^ 3)) / 10 ^ 9) :: real)"
proof -
  have h: "analyze_performance ((init ''results.csv'' None)\<lparr>results_df := Some scenario_table\<rparr>)
     = Inr (Some scenario_analysis,
            (loaded scenario_table)\<lparr>profiling_data := scenario_analysis\<rparr>, [])"
    using analyze_scenario by (simp add: loaded_def)
  note inst = estimated_gflops_formula [where self = "init ''results.csv'' None"
      and df = scenario_table and res = "Some scenario_analysis" and t = "[]"
      and self' = "(loaded scenario_table)\<lparr>profiling_data := scenario_analysis\<rparr>",
      THEN conjunct1, rule_format, OF h]
  have vals: "map (\<lambda>(n, m). (n, avg_ms m, flops m)) scenario_analysis
     = [(Str ''RocSOLVER'', Fin (2589569785738035 / 2 ^ 50), Fin (3235071128263797 / 2 ^ 47)),
        (Str ''Hybrid'', Fin (3602879701896397 / 2 ^ 51), Fin (581301843359901 / 2 ^ 44))]"
    by (simp add: scenario_analysis_def lit_2_3 [simplified] lit_1_6 [simplified])
  let ?m = "\<lparr>min_ms = round64 (15 / 10), max_ms = round64 (18 / 10), avg_ms = round64 (16 / 10),
             target_met = True, flops = Fin (581301843359901 / 2 ^ 44)\<rparr>"
  have mem: "(Str ''Hybrid'', ?m) \<in> set (profiling_data ((loaded scenario_table)\<lparr>profiling_data := scenario_analysis\<rparr>))"
    by (simp add: scenario_analysis_def)
  have avg: "avg_ms ?m = Fin (3602879701896397 / 2 ^ 51)" by (simp add: lit_1_6 [simplified])
  have r1: "2 powi (- 500) \<le> (3602879701896397 / 2 ^ 51 :: real)" by simp
  have r2: "(3602879701896397 / 2 ^ 51 :: real) \<le> 2 powi 500" by simp
  from inst [OF mem] have f: "spec_estimated_gflops 341 (avg_ms ?m) = Inr (flops ?m)"
    and acc: "\<And>a. avg_ms ?m = Fin a \<and> 2 powi (- 500) \<le> a \<and> a \<le> 2 powi 500 \<Longrightarrow>
      \<exists>v. flops ?m = Fin v \<and>
               \<bar>v - (4 * 341 ^ 3 / 3) / (a * (1 / 10 ^ 3)) / 10 ^ 9\<bar>
                 \<le> 2 powi (- 50) * ((4 * 341 ^ 3 / 3) / (a * (1 / 10 ^ 3)) / 10 ^ 9)"
    by blast+
  from acc [of "3602879701896397 / 2 ^ 51"] avg r1 r2
  have b: "\<bar>581301843359901 / 2 ^ 44 - (4 * 341 ^ 3 / 3) / (3602879701896397 / 2 ^ 51 * (1 / 10 ^ 3)) / 10 ^ 9\<bar>
     \<le> (2 powi (- 50) * ((4 * 341 ^ 3 / 3) / (3602879701896397 / 2 ^ 51 * (1 / 10 ^ 3)) / 10 ^ 9) :: real)"
    by auto
  have eqs: "map (\<lambda>(n, m). spec_estimated_gflops 341 (avg_ms m)) scenario_analysis
     = map (\<lambda>(n, m). Inr (flops m)) scenario_analysis"
  proof -
    have "\<forall>e \<in> set scenario_analysis. spec_estimated_gflops 341 (avg_ms (snd e)) = Inr (flops (snd e))"
      using inst by auto
    then show ?thesis by (auto simp: case_prod_beta)
  qed
  from h eqs vals r1 r2 b show ?thesis by (intro conjI)
qed

text \<open>
  C3 as stated fails in its number: the scenario's value for \<open>Hybrid\<close> is about 33.04,
  not within 1% of 98.0.
\<close>

theorem hybrid_gflops_counterexample:
  "list_all well_formed scenario_table \<and>
   analyze_performance (loaded scenario_table)
     = Inr (Some scenario_analysis, (loaded scenario_table)\<lparr>profiling_data := scenario_analysis\<rparr>, []) \<and>
   map (\<lambda>(n, m). flops m) (filter (\<lambda>(n, m). n = Str ''Hybrid'') scenario_analysis)
     = [Fin (581301843359901 / 2 ^ 44)] \<and>
   \<not> \<bar>581301843359901 / 2 ^ 44 - 98\<bar> \<le> (1 / 100) * (98 :: real)"
  using analyze_scenario well_formed_tables(1) by (simp add: scenario_analysis_def)

subsection \<open>First occurrence wins\<close>

text \<open>
  C4. The analysis has one entry per distinct implementation name, in order of first
  appearance, and each entry's \<open>min_ms\<close>, \<open>max_ms\<close> and \<open>avg_ms\<close> are those of the
  first row bearing the name. Rows added after the table for names already present
  leave the whole result as it is.
\<close>

theorem first_occurrence_wins:
  assumes "analyze_performance (self\<lparr>results_df := Some df\<rparr>) = Inr (res, self', t)"
  shows "res = Some (profiling_data self') \<and>
         map fst (profiling_data self') = unique (map Implementation df) \<and>
         (\<forall>(n, m) \<in> set (profiling_data self').
            \<exists>r. find (\<lambda>r. Implementation r = n) df = Some r \<and>
                min_ms m = Min_ms r \<and> max_ms m = Max_ms r \<and> avg_ms m = Avg_ms r) \<and>
         (\<forall>extra. set (map Implementation extra) \<subseteq> set (map Implementation df) \<longrightarrow>
            analyze_performance (self\<lparr>results_df := Some (df @ extra)\<rparr>)
              = Inr (res, self'\<lparr>results_df := Some (df @ extra)\<rparr>, t))"
proof (intro conjI)
  show "res = Some (profiling_data self')"
    using analyze_performance_result(1) [OF _ assms] by simp
  show "map fst (profiling_data self') = unique (map Implementation df)"
    using analyze_performance_result(4) [OF _ assms] by simp
  show "\<forall>(n, m) \<in> set (profiling_data self').
            \<exists>r. find (\<lambda>r. Implementation r = n) df = Some r \<and>
                min_ms m = Min_ms r \<and> max_ms m = Max_ms r \<and> avg_ms m = Avg_ms r"
  proof clarify
    fix n m assume nm: "(n, m) \<in> set (profiling_data self')"
    from analyze_performance_result(5) [OF _ assms] nm obtain r rs where
      f: "filter (\<lambda>r. Implementation r = n) df = r # rs" and d: "derive (r # rs) = Inr m"
      by fastforce
    from derive_Inr(1-3) [OF d] filter_find_Cons [OF f]
    show "\<exists>r. find (\<lambda>r. Implementation r = n) df = Some r \<and>
                min_ms m = Min_ms r \<and> max_ms m = Max_ms r \<and> avg_ms m = Avg_ms r"
      by auto
  qed
  show "\<forall>extra. set (map Implementation extra) \<subseteq> set (map Implementation df) \<longrightarrow>
            analyze_performance (self\<lparr>results_df := Some (df @ extra)\<rparr>)
              = Inr (res, self'\<lparr>results_df := Some (df @ extra)\<rparr>, t)"
    using analyze_performance_append_dups [OF _ assms] by blast
qed

theorem first_occurrence_wins_witness:
  "analyze_performance ((init ''results.csv'' None)\<lparr>results_df := Some scenario_table\<rparr>)
     = Inr (Some scenario_analysis,
            (loaded scenario_table)\<lparr>profiling_data := scenario_analysis\<rparr>, []) \<and>
   map fst scenario_analysis = [Str ''RocSOLVER'', Str ''Hybrid''] \<and>
   analyze_performance (loaded duplicate_table)
     = Inr (Some scenario_analysis,
            (loaded duplicate_table)\<lparr>profiling_data := scenario_analysis\<rparr>, [])"
proof -
  have h: "analyze_performance ((init ''results.csv'' None)\<lparr>results_df := Some scenario_table\<rparr>)
     = Inr (Some scenario_analysis,
            (loaded scenario_table)\<lparr>profiling_data := scenario_analysis\<rparr>, [])"
    using analyze_scenario by (simp add: loaded_def)
  let ?extra = "[\<lparr>Implementation = Str ''Hybrid'', Min_ms = Fin 9, Max_ms = Fin 9, Avg_ms = Fin 9\<rparr>]"
  have sub: "set (map Implementation ?extra) \<subseteq> set (map Implementation scenario_table)"
    by (simp add: scenario_table_def)
  from first_occurrence_wins [OF h] have
    "map fst scenario_analysis = unique (map Implementation scenario_table)"
    and "\<forall>extra. set (map Implementation extra) \<subseteq> set (map Implementation scenario_table) \<longrightarrow>
            analyze_performance ((init ''results.csv'' None)\<lparr>results_df := Some (scenario_table @ extra)\<rparr>)
              = Inr (Some scenario_analysis,
                     (loaded scenario_table)\<lparr>profiling_data := scenario_analysis,
                        results_df := Some (scenario_table @ extra)\<rparr>, [])"
    by simp_all
  with sub h show ?thesis
    by (simp add: duplicate_table_def loaded_def scenario_table_def)
qed

subsection \<open>The empty table\<close>

text \<open>
  C5. A table with a header and no rows gives an empty analysis. On an empty analysis
  the markdown renderer writes the document without the data-driven sections, the JSON
  renderer writes a report with no implementations, and the console renderer prints the
  no-data line and stops; none of them raises, where taking the minimum of the empty
  analysis would raise \<^verbatim>\<open>ValueError\<close>. A run of the program on such a table exits with
  status 0 and prints the no-data line.
\<close>

theorem empty_table_renders:
  "analyze_performance (self\<lparr>results_df := Some []\<rparr>)
     = Inr (Some [], self\<lparr>results_df := Some [], profiling_data := []\<rparr>, []) \<and>
   (profiling_data self = [] \<longrightarrow>
      generate_markdown_report self f
        = Inr [WriteFile f (MarkdownDoc [MdPreamble, MdStaticSections]),
               Print (MsgReportGenerated f)] \<and>
      (\<exists>doc. generate_json_report self g
               = Inr [WriteFile g (JsonDoc doc), Print (MsgJsonGenerated g)] \<and>
             implementations doc = []) \<and>
      print_summary self = Inr [Print SummaryHeader, Print MsgNoData]) \<and>
   summary_best_impl [] = Inl ValueError \<and>
   (file_at ev (arg_csv_file a) = Table [] \<longrightarrow>
      snd (main ev a) = 0 \<and>
      (\<exists>t. fst (main ev a) = t @ [Print SummaryHeader, Print MsgNoData]))"
proof (intro conjI impI)
  show "analyze_performance (self\<lparr>results_df := Some []\<rparr>)
     = Inr (Some [], self\<lparr>results_df := Some [], profiling_data := []\<rparr>, [])"
    by (simp add: analyze_performance_def)
  show "summary_best_impl [] = Inl ValueError"
    by (simp add: summary_best_impl_def py_min_def)
next
  assume e: "profiling_data self = []"
  show "generate_markdown_report self f
        = Inr [WriteFile f (MarkdownDoc [MdPreamble, MdStaticSections]),
               Print (MsgReportGenerated f)]"
    using e by (simp add: generate_markdown_report_def)
  show "\<exists>doc. generate_json_report self g
               = Inr [WriteFile g (JsonDoc doc), Print (MsgJsonGenerated g)] \<and>
             implementations doc = []"
    using e by (simp add: generate_json_report_def)
  show "print_summary self = Inr [Print SummaryHeader, Print MsgNoData]"
    using e by (simp add: print_summary_def)
next
  assume t: "file_at ev (arg_csv_file a) = Table []"
  have an: "analyze_performance ((init (arg_csv_file a) (arg_rocprof a))\<lparr>results_df := Some []\<rparr>)
     = Inr (Some [], (init (arg_csv_file a) (arg_rocprof a))\<lparr>results_df := Some [],
                       profiling_data := []\<rparr>, [])"
    by (simp add: analyze_performance_def)
  show "snd (main ev a) = 0" using main_reports(1) [OF t an] by simp
  show "\<exists>t. fst (main ev a) = t @ [Print SummaryHeader, Print MsgNoData]"
    by (simp add: main_loaded [OF t] an run_reports_def generate_markdown_report_def
        generate_json_report_def print_summary_def)
qed

theorem empty_table_renders_witness:
  "main (env_with (Table [])) (cli None False False)
     = ([Print (MsgLoaded ''results.csv''),
         WriteFile ''./profiling_report.md'' (MarkdownDoc [MdPreamble, MdStaticSections]),
         Print (MsgReportGenerated ''./profiling_report.md''),
         WriteFile ''./profiling_data.json''
           (JsonDoc \<lparr>gpu = ''AMD MI100/AI100'', matrix_size = 341,
                     matrix_type = ''complex_symmetric'', target_time_ms = Fin 5,
                     implementations = [],
                     hardware = [(''compute_units'', 120), (''peak_flops_tflops'', 40),
                                 (''memory_bandwidth_gb_s'', 900), (''l1_cache_kb'', 16),
                                 (''l2_cache_mb'', 4), (''lds_per_cu_kb'', 96),
                                 (''wavefront_size'', 64)]\<rparr>),
         Print (MsgJsonGenerated ''./profiling_data.json''),
         Print SummaryHeader, Print MsgNoData], 0) \<and>
   print_summary (init ''results.csv'' None) = Inr [Print SummaryHeader, Print MsgNoData]"
proof -
  have p: "profiling_data (init ''results.csv'' None) = []" by (simp add: init_def)
  from empty_table_renders [of "init ''results.csv'' None" "''./profiling_report.md''"
      "''./profiling_data.json''" "env_with (Table [])" "cli None False False"] p
  have "print_summary (init ''results.csv'' None) = Inr [Print SummaryHeader, Print MsgNoData]"
    by blast
  moreover have "main (env_with (Table [])) (cli None False False)
     = ([Print (MsgLoaded ''results.csv''),
         WriteFile ''./profiling_report.md'' (MarkdownDoc [MdPreamble, MdStaticSections]),
         Print (MsgReportGenerated ''./profiling_report.md''),
         WriteFile ''./profiling_data.json''
           (JsonDoc \<lparr>gpu = ''AMD MI100/AI100'', matrix_size = 341,
                     matrix_type = ''complex_symmetric'', target_time_ms = Fin 5,
                     implementations = [],
                     hardware = [(''compute_units'', 120), (''peak_flops_tflops'', 40),
                                 (''memory_bandwidth_gb_s'', 900), (''l1_cache_kb'', 16),
                                 (''l2_cache_mb'', 4), (''lds_per_cu_kb'', 96),
                                 (''wavefront_size'', 64)]\<rparr>),
         Print (MsgJsonGenerated ''./profiling_data.json''),
         Print SummaryHeader, Print MsgNoData], 0)"
    unfolding main_loaded [OF env_with_file [of "Table []" None False False]]
    by (simp add: analyze_performance_def cli_def init_def
        run_reports_def generate_markdown_report_def generate_json_report_def print_summary_def
        wants_markdown_def wants_json_def truthy_def out_dir_def make_output_dir_def
        path_join_def env_with_def lit_5_0_def)
  ultimately show ?thesis by simp
qed

subsection \<open>Exit status\<close>

text \<open>
  C6, amended. If the primary input is not found or cannot be read, the program exits
  with status 1 and writes no report. If it loads and the analysis returns, the program
  exits with status 0, unless the JSON renderer runs and an implementation name is an
  integer or a boolean: then \<^verbatim>\<open>json.dump\<close> raises \<^verbatim>\<open>TypeError\<close>, the program exits with
  status 1 after the markdown report, if that was selected, and leaves a truncated JSON
  file. If it loads and the analysis raises, the program exits with status 1 and writes
  no report. The secondary table is never read: the run depends on the environment only
  through the primary path and the existence of the output directory.
\<close>

theorem exit_status_of_main:
  "(file_at ev (arg_csv_file a) = NotFound \<or> file_at ev (arg_csv_file a) = Unreadable \<longrightarrow>
      snd (main ev a) = 1 \<and> written_files (fst (main ev a)) = []) \<and>
   (\<forall>df res an2 t2.
      file_at ev (arg_csv_file a) = Table df \<and>
      analyze_performance ((init (arg_csv_file a) (arg_rocprof a))\<lparr>results_df := Some df\<rparr>)
        = Inr (res, an2, t2) \<and>
      (wants_json a \<longrightarrow> (\<forall>r \<in> set df. json_key (Implementation r))) \<longrightarrow>
      snd (main ev a) = 0) \<and>
   (\<forall>df res an2 t2.
      file_at ev (arg_csv_file a) = Table df \<and>
      analyze_performance ((init (arg_csv_file a) (arg_rocprof a))\<lparr>results_df := Some df\<rparr>)
        = Inr (res, an2, t2) \<and>
      wants_json a \<and> (\<exists>r \<in> set df. \<not> json_key (Implementation r)) \<longrightarrow>
      snd (main ev a) = 1 \<and>
      written_files (fst (main ev a)) =
        (if wants_markdown a then [path_join (out_dir a) ''profiling_report.md''] else []) @
        [path_join (out_dir a) ''profiling_data.json''] \<and>
      complete_reports (fst (main ev a)) =
        (if wants_markdown a then [path_join (out_dir a) ''profiling_report.md''] else [])) \<and>
   (\<forall>df e. file_at ev (arg_csv_file a) = Table df \<and>
           analyze_performance ((init (arg_csv_file a) (arg_rocprof a))\<lparr>results_df := Some df\<rparr>)
             = Inl e \<longrightarrow>
      snd (main ev a) = 1 \<and> written_files (fst (main ev a)) = []) \<and>
   (\<forall>ev' :: env. file_at ev' (arg_csv_file a) = file_at ev (arg_csv_file a) \<and>
          path_exists ev' = path_exists ev \<longrightarrow>
      main ev' a = main ev a)"
proof (intro conjI allI impI)
  assume "file_at ev (arg_csv_file a) = NotFound \<or> file_at ev (arg_csv_file a) = Unreadable"
  then show "snd (main ev a) = 1" "written_files (fst (main ev a)) = []"
    using main_not_found(1,2) [of ev a] main_unreadable(1,2) [of ev a] by auto
next
  fix df res an2 t2
  assume h: "file_at ev (arg_csv_file a) = Table df \<and>
      analyze_performance ((init (arg_csv_file a) (arg_rocprof a))\<lparr>results_df := Some df\<rparr>)
        = Inr (res, an2, t2) \<and>
      (wants_json a \<longrightarrow> (\<forall>r \<in> set df. json_key (Implementation r)))"
  then have t: "file_at ev (arg_csv_file a) = Table df"
    and an: "analyze_performance ((init (arg_csv_file a) (arg_rocprof a))\<lparr>results_df := Some df\<rparr>)
        = Inr (res, an2, t2)"
    and k: "wants_json a \<longrightarrow> (\<forall>r \<in> set df. json_key (Implementation r))"
    by simp_all
  from k analysis_keys [OF an]
  have "\<not> (wants_json a \<and> \<not> list_all json_key (map fst (profiling_data an2)))" by simp
  with main_reports(1) [OF t an] show "snd (main ev a) = 0" by simp
next
  fix df res an2 t2
  assume h: "file_at ev (arg_csv_file a) = Table df \<and>
      analyze_performance ((init (arg_csv_file a) (arg_rocprof a))\<lparr>results_df := Some df\<rparr>)
        = Inr (res, an2, t2) \<and>
      wants_json a \<and> (\<exists>r \<in> set df. \<not> json_key (Implementation r))"
  then have t: "file_at ev (arg_csv_file a) = Table df"
    and an: "analyze_performance ((init (arg_csv_file a) (arg_rocprof a))\<lparr>results_df := Some df\<rparr>)
        = Inr (res, an2, t2)"
    and k: "wants_json a" "\<exists>r \<in> set df. \<not> json_key (Implementation r)"
    by simp_all
  from k analysis_keys [OF an]
  have bad: "wants_json a \<and> \<not> list_all json_key (map fst (profiling_data an2))" by simp
  with main_reports(1) [OF t an] show "snd (main ev a) = 1" by simp
  from bad main_reports(2) [OF t an]
  show "written_files (fst (main ev a)) =
        (if wants_markdown a then [path_join (out_dir a) ''profiling_report.md''] else []) @
        [path_join (out_dir a) ''profiling_data.json'']" by simp
  from bad main_reports(4) [OF t an]
  show "complete_reports (fst (main ev a)) =
        (if wants_markdown a then [path_join (out_dir a) ''profiling_report.md''] else [])"
    by simp
next
  fix df e
  assume h: "file_at ev (arg_csv_file a) = Table df \<and>
           analyze_performance ((init (arg_csv_file a) (arg_rocprof a))\<lparr>results_df := Some df\<rparr>)
             = Inl e"
  then show "snd (main ev a) = 1" "written_files (fst (main ev a)) = []"
    using main_analysis_error(1,2) [of ev a df e] by simp_all
next
  fix ev' :: env
  assume "file_at ev' (arg_csv_file a) = file_at ev (arg_csv_file a) \<and>
          path_exists ev' = path_exists ev"
  then show "main ev' a = main ev a" using main_env_cong by blast
qed

theorem exit_status_of_main_witness:
  "snd (main (env_with NotFound) (cli None False False)) = 1 \<and>
   written_files (fst (main (env_with NotFound) (cli None False False))) = [] \<and>
   file_at (env_with (Table scenario_table)) ''rocprof.csv'' = NotFound \<and>
   snd (main (env_with (Table scenario_table)) (cli (Some ''rocprof.csv'') True True)) = 0 \<and>
   snd (main (env_with (Table int_name_table)) (cli None True False)) = 0 \<and>
   snd (main (env_with (Table int_name_table)) (cli None True True)) = 1 \<and>
   written_files (fst (main (env_with (Table int_name_table)) (cli None True True)))
     = [''./profiling_report.md'', ''./profiling_data.json''] \<and>
   complete_reports (fst (main (env_with (Table int_name_table)) (cli None True True)))
     = [''./profiling_report.md''] \<and>
   snd (main (env_with (Table zero_table)) (cli None False False)) = 1 \<and>
   written_files (fst (main (env_with (Table zero_table)) (cli None False False))) = [] \<and>
   snd (main (env_with (Table missing_name_table)) (cli None False False)) = 1 \<and>
   written_files (fst (main (env_with (Table missing_name_table)) (cli None False False))) = []"
proof -
  have s: "analyze_performance
             ((init (arg_csv_file (cli (Some ''rocprof.csv'') True True))
                    (arg_rocprof (cli (Some ''rocprof.csv'') True True)))
                \<lparr>results_df := Some scenario_table\<rparr>)
           = Inr (Some scenario_analysis,
                  (init ''results.csv'' (Some ''rocprof.csv''))
                    \<lparr>results_df := Some scenario_table, profiling_data := scenario_analysis\<rparr>, [])"
    using analyze_scenario_init [of "Some ''rocprof.csv''"] by (simp add: cli_def)
  have i: "analyze_performance
             ((init (arg_csv_file (cli None True js)) (arg_rocprof (cli None True js)))
                \<lparr>results_df := Some int_name_table\<rparr>)
           = Inr (Some int_name_analysis,
                  (init ''results.csv'' None)
                    \<lparr>results_df := Some int_name_table, profiling_data := int_name_analysis\<rparr>, [])"
    for js
    using analyze_int_name_init [of None] by (simp add: cli_def)
  have z: "analyze_performance
             ((init (arg_csv_file (cli None False False)) (arg_rocprof (cli None False False)))
                \<lparr>results_df := Some zero_table\<rparr>) = Inl ZeroDivisionError"
    using analyze_zero_init [of None] by (simp add: cli_def)
  have m: "analyze_performance
             ((init (arg_csv_file (cli None False False)) (arg_rocprof (cli None False False)))
                \<lparr>results_df := Some missing_name_table\<rparr>) = Inl IndexError"
    using analyze_missing_name_init [of None] by (simp add: cli_def)
  have w: "\<not> wants_json (cli None True False)" "wants_json (cli None True True)"
    "wants_markdown (cli None True True)" "out_dir (cli None True True) = ''.''"
    by (simp_all add: wants_json_def wants_markdown_def out_dir_def cli_def)
  have 1: "snd (main (env_with NotFound) (cli None False False)) = 1"
    "written_files (fst (main (env_with NotFound) (cli None False False))) = []"
    using exit_status_of_main [of "env_with NotFound" "cli None False False", THEN conjunct1]
    by (simp_all add: env_with_file)
  have 2: "snd (main (env_with (Table scenario_table)) (cli (Some ''rocprof.csv'') True True)) = 0"
    using exit_status_of_main [of "env_with (Table scenario_table)"
        "cli (Some ''rocprof.csv'') True True", THEN conjunct2, THEN conjunct1] s
    by (simp add: env_with_file scenario_table_def)
  have 3: "snd (main (env_with (Table int_name_table)) (cli None True False)) = 0"
    using exit_status_of_main [of "env_with (Table int_name_table)"
        "cli None True False", THEN conjunct2, THEN conjunct1] i [of False] w
    by (simp add: env_with_file)
  have 4: "snd (main (env_with (Table int_name_table)) (cli None True True)) = 1"
    "written_files (fst (main (env_with (Table int_name_table)) (cli None True True)))
       = [''./profiling_report.md'', ''./profiling_data.json'']"
    "complete_reports (fst (main (env_with (Table int_name_table)) (cli None True True)))
       = [''./profiling_report.md'']"
    using exit_status_of_main [of "env_with (Table int_name_table)"
        "cli None True True", THEN conjunct2, THEN conjunct2, THEN conjunct1] i [of True] w
    by (simp_all add: env_with_file int_name_table_def path_join_def)
  have 5: "snd (main (env_with (Table zero_table)) (cli None False False)) = 1"
    "written_files (fst (main (env_with (Table zero_table)) (cli None False False))) = []"
    using exit_status_of_main [of "env_with (Table zero_table)" "cli None False False",
        THEN conjunct2, THEN conjunct2, THEN conjunct2, THEN conjunct1] z
    by (simp_all add: env_with_file)
  have 6: "snd (main (env_with (Table missing_name_table)) (cli None False False)) = 1"
    "written_files (fst (main (env_with (Table missing_name_table)) (cli None False False))) = []"
    using exit_status_of_main [of "env_with (Table missing_name_table)" "cli None False False",
        THEN conjunct2, THEN conjunct2, THEN conjunct2, THEN conjunct1] m
    by (simp_all add: env_with_file)
  have "file_at (env_with (Table scenario_table)) ''rocprof.csv'' = NotFound"
    by (simp add: env_with_def)
  with 1 2 3 4 5 6 show ?thesis by simp
qed

text \<open>
  C6 as stated fails when the primary input loads and holds a zero average: the
  analysis raises \<^verbatim>\<open>ZeroDivisionError\<close>, nothing catches it, and the exit status is 1.
\<close>

theorem exit_status_counterexample:
  "list_all well_formed zero_table \<and>
   file_at (env_with (Table zero_table)) (arg_csv_file (cli None False False)) = Table zero_table \<and>
   load_results (env_with (Table zero_table)) (init ''results.csv'' None)
     = Inr (True, loaded zero_table, [Print (MsgLoaded ''results.csv'')]) \<and>
   main (env_with (Table zero_table)) (cli None False False)
     = ([Print (MsgLoaded ''results.csv'')], 1)"
proof -
  note m = main_loaded [OF env_with_file [of "Table zero_table" None False False]]
  have "main (env_with (Table zero_table)) (cli None False False)
     = ([Print (MsgLoaded ''results.csv'')], 1)"
    unfolding m using analyze_zero_init [of None]
    by (simp add: cli_def out_dir_def make_output_dir_def env_with_def)
  moreover have "file_at (env_with (Table zero_table)) (arg_csv_file (cli None False False))
      = Table zero_table"
    by (rule env_with_file)
  moreover have "load_results (env_with (Table zero_table)) (init ''results.csv'' None)
     = Inr (True, loaded zero_table, [Print (MsgLoaded ''results.csv'')])"
    by (simp add: load_results_def read_csv_def env_with_def init_def loaded_def)
  ultimately show ?thesis using well_formed_tables(6) by blast
qed

subsection \<open>Renderer selection\<close>

text \<open>
  C7. When the primary table loads and the analysis returns, the renderers that run
  are: markdown exactly when \<^verbatim>\<open>--markdown\<close> is given or neither \<^verbatim>\<open>--json\<close> nor a
  \<^verbatim>\<open>--rocprof\<close> value is; JSON exactly when \<^verbatim>\<open>--json\<close> is given or neither
  \<^verbatim>\<open>--markdown\<close> nor a \<^verbatim>\<open>--rocprof\<close> value is. So each flag runs its renderer, both
  flags run both, and no flag at all runs both. The markdown renderer, which runs first,
  writes its report to the end; the JSON renderer writes its report to the end when every
  implementation name is a string or a float, and otherwise raises inside the file.
\<close>

theorem renderer_selection:
  assumes "file_at ev (arg_csv_file a) = Table df"
    and "analyze_performance ((init (arg_csv_file a) (arg_rocprof a))\<lparr>results_df := Some df\<rparr>)
           = Inr (res, an2, t2)"
  shows "rendered (fst (main ev a)) =
           (if arg_markdown a \<or> (\<not> arg_json a \<and> \<not> truthy (arg_rocprof a))
            then [''markdown''] else []) @
           (if arg_json a \<or> (\<not> arg_markdown a \<and> \<not> truthy (arg_rocprof a))
            then [''json''] else []) \<and>
         written_files (fst (main ev a)) =
           (if arg_markdown a \<or> (\<not> arg_json a \<and> \<not> truthy (arg_rocprof a))
            then [path_join (out_dir a) ''profiling_report.md''] else []) @
           (if arg_json a \<or> (\<not> arg_markdown a \<and> \<not> truthy (arg_rocprof a))
            then [path_join (out_dir a) ''profiling_data.json''] else []) \<and>
         complete_reports (fst (main ev a)) =
           (if arg_markdown a \<or> (\<not> arg_json a \<and> \<not> truthy (arg_rocprof a))
            then [path_join (out_dir a) ''profiling_report.md''] else []) @
           (if (arg_json a \<or> (\<not> arg_markdown a \<and> \<not> truthy (arg_rocprof a))) \<and>
               (\<forall>r \<in> set df. json_key (Implementation r))
            then [path_join (out_dir a) ''profiling_data.json''] else []) \<and>
         (arg_markdown a \<longrightarrow> ''markdown'' \<in> set (rendered (fst (main ev a)))) \<and>
         (arg_json a \<longrightarrow> ''json'' \<in> set (rendered (fst (main ev a)))) \<and>
         (arg_markdown a \<and> arg_json a \<longrightarrow>
            rendered (fst (main ev a)) = [''markdown'', ''json'']) \<and>
         (\<not> arg_markdown a \<and> \<not> arg_json a \<and> arg_rocprof a = None \<longrightarrow>
            rendered (fst (main ev a)) = [''markdown'', ''json''])"
proof -
  note ms = main_reports(2,3,4) [OF assms] analysis_keys [OF assms(2)]
  show ?thesis
    unfolding ms by (auto simp: wants_markdown_def wants_json_def truthy_def)
qed

theorem renderer_selection_witness:
  "rendered (fst (main (env_with (Table scenario_table)) (cli None True False))) = [''markdown''] \<and>
   rendered (fst (main (env_with (Table scenario_table)) (cli None False True))) = [''json''] \<and>
   rendered (fst (main (env_with (Table scenario_table)) (cli None True True)))
     = [''markdown'', ''json''] \<and>
   rendered (fst (main (env_with (Table scenario_table)) (cli None False False)))
     = [''markdown'', ''json''] \<and>
   written_files (fst (main (env_with (Table scenario_table)) (cli None False False)))
     = [''./profiling_report.md'', ''./profiling_data.json''] \<and>
   complete_reports (fst (main (env_with (Table scenario_table)) (cli None False False)))
     = [''./profiling_report.md'', ''./profiling_data.json''] \<and>
   rendered (fst (main (env_with (Table scenario_table)) (cli (Some ''rocprof.csv'') False False)))
     = [] \<and>
   rendered (fst (main (env_with (Table int_name_table)) (cli None False True))) = [''json''] \<and>
   complete_reports (fst (main (env_with (Table int_name_table)) (cli None False True))) = []"
proof -
  have s: "analyze_performance
             ((init (arg_csv_file (cli rp md js)) (arg_rocprof (cli rp md js)))
                \<lparr>results_df := Some scenario_table\<rparr>)
           = Inr (Some scenario_analysis,
                  (init ''results.csv'' rp)
                    \<lparr>results_df := Some scenario_table, profiling_data := scenario_analysis\<rparr>, [])"
    for rp md js
    using analyze_scenario_init [of rp] by (simp add: cli_def)
  have i: "analyze_performance
             ((init (arg_csv_file (cli None False True)) (arg_rocprof (cli None False True)))
                \<lparr>results_df := Some int_name_table\<rparr>)
           = Inr (Some int_name_analysis,
                  (init ''results.csv'' None)
                    \<lparr>results_df := Some int_name_table, profiling_data := int_name_analysis\<rparr>, [])"
    using analyze_int_name_init [of None] by (simp add: cli_def)
  have k: "\<forall>r \<in> set scenario_table. json_key (Implementation r)"
    by (simp add: scenario_table_def)
  have n: "\<not> (\<forall>r \<in> set int_name_table. json_key (Implementation r))"
    by (simp add: int_name_table_def)
  show ?thesis
    using renderer_selection [OF env_with_file s, of None True False]
      renderer_selection [OF env_with_file s, of None False True]
      renderer_selection [OF env_with_file s, of None True True]
      renderer_selection [OF env_with_file s, of None False False]
      renderer_selection [OF env_with_file s, of "Some ''rocprof.csv''" False False]
      renderer_selection [OF env_with_file i]
    by (simp add: cli_def truthy_def out_dir_def path_join_def k n)
qed

subsection \<open>Loading\<close>

text \<open>
  C8, amended. \<open>load_results\<close> returns a truth value, not the records: when the source
  parses it stores the rows, in order, in \<open>results_df\<close> and returns \<open>True\<close>; when the
  file is not found it catches the error, prints a message, leaves the analyzer as it is
  and returns \<open>False\<close>; any other failure of the reader propagates as an exception.
\<close>

theorem load_results_outcomes:
  "(file_at ev (csv_file self) = Table df \<longrightarrow>
      load_results ev self
        = Inr (True, self\<lparr>results_df := Some df\<rparr>, [Print (MsgLoaded (csv_file self))])) \<and>
   (file_at ev (csv_file self) = NotFound \<longrightarrow>
      load_results ev self = Inr (False, self, [Print (MsgFileNotFound (csv_file self))])) \<and>
   (file_at ev (csv_file self) = Unreadable \<longrightarrow> load_results ev self = Inl ReadError)"
  by (simp add: load_results_def read_csv_def)

theorem load_results_outcomes_witness:
  "load_results (env_with (Table scenario_table)) (init ''results.csv'' None)
     = Inr (True, loaded scenario_table, [Print (MsgLoaded ''results.csv'')]) \<and>
   load_results (env_with NotFound) (init ''results.csv'' None)
     = Inr (False, init ''results.csv'' None, [Print (MsgFileNotFound ''results.csv'')]) \<and>
   load_results (env_with Unreadable) (init ''results.csv'' None) = Inl ReadError"
proof -
  have f: "file_at (env_with c) (csv_file (init ''results.csv'' None)) = c" for c
    by (simp add: env_with_def init_def)
  from load_results_outcomes [of "env_with (Table scenario_table)" "init ''results.csv'' None"
      scenario_table]
    load_results_outcomes [of "env_with NotFound" "init ''results.csv'' None"]
    load_results_outcomes [of "env_with Unreadable" "init ''results.csv'' None"]
  show ?thesis by (simp add: f loaded_def) (simp add: init_def)
qed

text \<open>
  C8 as stated fails on both counts: on a missing file the call does not fail with a
  not-found error but returns \<open>False\<close>, and on success it returns \<open>True\<close>, the rows
  going to \<open>results_df\<close>.
\<close>

theorem load_results_counterexample:
  "load_results (env_with NotFound) (init ''results.csv'' None) \<noteq> Inl FileNotFoundError \<and>
   load_results (env_with NotFound) (init ''results.csv'' None)
     = Inr (False, init ''results.csv'' None, [Print (MsgFileNotFound ''results.csv'')]) \<and>
   load_results (env_with (Table scenario_table)) (init ''results.csv'' None)
     = Inr (True, loaded scenario_table, [Print (MsgLoaded ''results.csv'')])"
  by (simp add: load_results_def read_csv_def env_with_def init_def loaded_def)

subsection \<open>Monotonicity\<close>

text \<open>
  C9. Take a record with a positive \<open>Avg_ms\<close> for which the metrics are derived, and
  replace \<open>Avg_ms\<close> by a value at least as large. The metrics are derived again, and the
  estimated throughput is less than or equal to the first one, so not larger.
\<close>

theorem flops_antitone:
  assumes "flt (Fin 0) (Avg_ms r)" "fle (Avg_ms r) b" "derive (r # rs) = Inr m1"
  shows "\<exists>m2. derive (r\<lparr>Avg_ms := b\<rparr> # rs') = Inr m2 \<and>
              min_ms m2 = min_ms m1 \<and> max_ms m2 = max_ms m1 \<and> avg_ms m2 = b \<and>
              fle (flops m2) (flops m1) \<and> \<not> flt (flops m1) (flops m2)"
proof -
  from derive_Inr [OF assms(3)] have m1: "min_ms m1 = Min_ms r" "max_ms m1 = Max_ms r"
    and e1: "estimate_flops (Avg_ms r) = Inr (flops m1)" by simp_all
  from estimate_flops_antitone [OF assms(1,2) e1] obtain fb where
    fb: "estimate_flops b = Inr fb" "fle fb (flops m1)" by blast
  then show ?thesis using m1 fle_imp_not_flt [OF fb(2)] by (simp add: derive_Cons)
qed

theorem flops_antitone_witness:
  "flt (Fin 0) (round64 (16 / 10)) \<and> fle (round64 (16 / 10)) (round64 (23 / 10)) \<and>
   map (\<lambda>(n, m). (n, flops m)) (filter (\<lambda>(n, m). n = Str ''Hybrid'') scenario_analysis)
     = [(Str ''Hybrid'', Fin (581301843359901 / 2 ^ 44))] \<and>
   (\<exists>m2. derive [\<lparr>Implementation = Str ''Hybrid'', Min_ms = round64 (15 / 10),
                   Max_ms = round64 (18 / 10), Avg_ms = round64 (23 / 10)\<rparr>] = Inr m2 \<and>
         flops m2 = Fin (3235071128263797 / 2 ^ 47) \<and>
         fle (flops m2) (Fin (581301843359901 / 2 ^ 44)))"
proof -
  let ?r = "\<lparr>Implementation = Str ''Hybrid'', Min_ms = round64 (15 / 10),
             Max_ms = round64 (18 / 10), Avg_ms = round64 (16 / 10)\<rparr>"
  let ?m1 = "\<lparr>min_ms = round64 (15 / 10), max_ms = round64 (18 / 10),
              avg_ms = round64 (16 / 10), target_met = True,
              flops = Fin (581301843359901 / 2 ^ 44)\<rparr>"
  have p: "flt (Fin 0) (Avg_ms ?r)" by (simp add: lit_1_6 [simplified])
  have l: "fle (Avg_ms ?r) (round64 (23 / 10))"
    by (simp add: lit_1_6 [simplified] lit_2_3 [simplified])
  have d: "derive (?r # []) = Inr ?m1"
    by (simp add: derive_Cons lit_1_6 [simplified] estimate_flops_1_6 [simplified] lit_5_0_def)
  from flops_antitone [OF p l d, of "[]"] obtain m2 where
    m2: "derive [?r\<lparr>Avg_ms := round64 (23 / 10)\<rparr>] = Inr m2"
    "fle (flops m2) (flops ?m1)" by blast
  have "flops m2 = Fin (3235071128263797 / 2 ^ 47)"
    using m2(1) by (auto simp: derive_Cons lit_2_3 [simplified] estimate_flops_2_3 [simplified])
  with m2 p l show ?thesis by (auto simp: scenario_analysis_def)
qed

subsection \<open>Division by zero\<close>

text \<open>
  C10, amended. Take a loaded table with the four columns and numeric latency cells. If no
  row has a missing implementation name and for each row the float product
  \<open>Avg_ms * 1e-3\<close> is nonzero, the analysis completes, with an entry for every distinct
  implementation name. The product is nonzero whenever \<open>Avg_ms\<close> is NaN,
  infinite or of magnitude at least \<open>2^-1064\<close>. The analysis of a loaded table raises
  \<^verbatim>\<open>ZeroDivisionError\<close> only when some row has a zero product, and \<^verbatim>\<open>IndexError\<close> only
  when some row has a missing name.
\<close>

theorem analysis_completes:
  "((\<forall>r \<in> set df. fmul (Avg_ms r) lit_1e_3 \<noteq> Fin 0 \<and> \<not> missing (Implementation r)) \<longrightarrow>
      (\<exists>an. analyze_performance (self\<lparr>results_df := Some df\<rparr>)
               = Inr (Some an, self\<lparr>results_df := Some df, profiling_data := an\<rparr>, []) \<and>
            map fst an = unique (map Implementation df))) \<and>
   ((\<forall>r \<in> set df. \<forall>a. Avg_ms r = Fin a \<longrightarrow> 2 powi (- 1064) \<le> \<bar>a\<bar>) \<longrightarrow>
      (\<forall>r \<in> set df. fmul (Avg_ms r) lit_1e_3 \<noteq> Fin 0)) \<and>
   (analyze_performance (self\<lparr>results_df := Some df\<rparr>) = Inl ZeroDivisionError \<longrightarrow>
      (\<exists>r \<in> set df. fmul (Avg_ms r) lit_1e_3 = Fin 0)) \<and>
   (analyze_performance (self\<lparr>results_df := Some df\<rparr>) = Inl IndexError \<longrightarrow>
      (\<exists>r \<in> set df. missing (Implementation r)))"
proof (intro conjI impI)
  assume h: "\<forall>r \<in> set df. fmul (Avg_ms r) lit_1e_3 \<noteq> Fin 0 \<and> \<not> missing (Implementation r)"
  then have "\<forall>r \<in> set df. fmul (Avg_ms r) lit_1e_3 \<noteq> Fin 0"
    and "\<forall>r \<in> set df. \<not> missing (Implementation r)" by simp_all
  then show "\<exists>an. analyze_performance (self\<lparr>results_df := Some df\<rparr>)
               = Inr (Some an, self\<lparr>results_df := Some df, profiling_data := an\<rparr>, []) \<and>
            map fst an = unique (map Implementation df)"
    by (rule analyze_performance_ok)
next
  assume "\<forall>r \<in> set df. \<forall>a. Avg_ms r = Fin a \<longrightarrow> 2 powi (- 1064) \<le> \<bar>a\<bar>"
  then show "\<forall>r \<in> set df. fmul (Avg_ms r) lit_1e_3 \<noteq> Fin 0" by (rule nonzero_products)
next
  assume "analyze_performance (self\<lparr>results_df := Some df\<rparr>) = Inl ZeroDivisionError"
  from analyze_performance_error [OF this]
  show "\<exists>r \<in> set df. fmul (Avg_ms r) lit_1e_3 = Fin 0" by simp
next
  assume "analyze_performance (self\<lparr>results_df := Some df\<rparr>) = Inl IndexError"
  from analyze_performance_error [OF this]
  show "\<exists>r \<in> set df. missing (Implementation r)" by simp
qed

theorem analysis_completes_witness:
  "(\<exists>an. analyze_performance ((init ''results.csv'' None)\<lparr>results_df := Some scenario_table\<rparr>)
           = Inr (Some an, (loaded scenario_table)\<lparr>profiling_data := an\<rparr>, []) \<and>
         map fst an = [Str ''RocSOLVER'', Str ''Hybrid'']) \<and>
   analyze_performance ((init ''results.csv'' None)\<lparr>results_df := Some zero_table\<rparr>)
     = Inl ZeroDivisionError \<and>
   map (\<lambda>r. fmul (Avg_ms r) lit_1e_3) zero_table = [Fin 0] \<and>
   analyze_performance ((init ''results.csv'' None)\<lparr>results_df := Some missing_name_table\<rparr>)
     = Inl IndexError \<and>
   map (\<lambda>r. missing (Implementation r)) missing_name_table = [True]"
proof -
  have big: "\<forall>r \<in> set scenario_table. \<forall>a. Avg_ms r = Fin a \<longrightarrow> 2 powi (- 1064) \<le> \<bar>a\<bar>"
    by (simp add: scenario_table_def lit_2_3 [simplified] lit_1_6 [simplified])
  note inst = analysis_completes [where self = "init ''results.csv'' None" and df = scenario_table]
  from inst big have "\<forall>r \<in> set scenario_table. fmul (Avg_ms r) lit_1e_3 \<noteq> Fin 0" by blast
  with scenario_present
  have "\<forall>r \<in> set scenario_table.
          fmul (Avg_ms r) lit_1e_3 \<noteq> Fin 0 \<and> \<not> missing (Implementation r)" by simp
  with inst have "\<exists>an. analyze_performance ((init ''results.csv'' None)\<lparr>results_df := Some scenario_table\<rparr>)
           = Inr (Some an, (init ''results.csv'' None)\<lparr>results_df := Some scenario_table, profiling_data := an\<rparr>, []) \<and>
         map fst an = unique (map Implementation scenario_table)" by blast
  then have 1: "\<exists>an. analyze_performance ((init ''results.csv'' None)\<lparr>results_df := Some scenario_table\<rparr>)
           = Inr (Some an, (loaded scenario_table)\<lparr>profiling_data := an\<rparr>, []) \<and>
         map fst an = [Str ''RocSOLVER'', Str ''Hybrid'']"
    by (simp add: loaded_def scenario_table_def)
  have z: "analyze_performance ((init ''results.csv'' None)\<lparr>results_df := Some zero_table\<rparr>)
     = Inl ZeroDivisionError"
    by (rule analyze_zero_init)
  from analysis_completes [where self = "init ''results.csv'' None" and df = zero_table] z
  have "\<exists>r \<in> set zero_table. fmul (Avg_ms r) lit_1e_3 = Fin 0" by blast
  then have 2: "map (\<lambda>r. fmul (Avg_ms r) lit_1e_3) zero_table = [Fin 0]"
    by (simp add: zero_table_def)
  have m: "analyze_performance ((init ''results.csv'' None)\<lparr>results_df := Some missing_name_table\<rparr>)
     = Inl IndexError"
    by (rule analyze_missing_name_init)
  from analysis_completes [where self = "init ''results.csv'' None" and df = missing_name_table] m
  have "\<exists>r \<in> set missing_name_table. missing (Implementation r)" by blast
  then have 3: "map (\<lambda>r. missing (Implementation r)) missing_name_table = [True]"
    by (simp add: missing_name_table_def)
  from 1 z 2 m 3 show ?thesis by blast
qed

text \<open>
  C10 as stated fails for a nonzero average so small that its product with \<open>1e-3\<close>
  rounds to zero: the smallest positive float \<open>2^-1074\<close> (\<^verbatim>\<open>5e-324\<close>) is not zero, and
  the analysis raises \<^verbatim>\<open>ZeroDivisionError\<close>. It also fails, with another exception, for a
  row whose average is 1 and whose name is missing: the analysis raises \<^verbatim>\<open>IndexError\<close>
  and produces no entry.
\<close>

theorem underflow_counterexample:
  "list_all well_formed underflow_table \<and>
   map Avg_ms underflow_table = [Fin (2 powi (- 1074))] \<and>
   Fin (2 powi (- 1074)) \<noteq> Fin 0 \<and>
   fmul (Fin (2 powi (- 1074))) lit_1e_3 = Fin 0 \<and>
   analyze_performance (loaded underflow_table) = Inl ZeroDivisionError \<and>
   list_all well_formed missing_name_table \<and>
   map Avg_ms missing_name_table = [Fin 1] \<and>
   analyze_performance (loaded missing_name_table) = Inl IndexError"
  using analyze_underflow fmul_underflow well_formed_tables(5,7) analyze_missing_name
  by (simp add: underflow_table_def missing_name_table_def)

end
